theory Spec2Isabelle
  imports Complex_Main
begin

section \<open>Double-precision values\<close>

text \<open>
  The C++ type \<^verbatim>\<open>double\<close> is embedded as the reals extended with the three
  special values of IEEE 754.  Arithmetic on finite values is the exact arithmetic of
  the reals (no rounding, no overflow, no underflow, and the two zeros are identified);
  the special values follow the IEEE rules: an invalid operation yields \<open>NaN\<close>, a
  division of a non-zero value by zero yields an infinity, every ordered comparison
  with \<open>NaN\<close> is false.
\<close>

datatype double = Fin real | PInf | NInf | NaN

fun signed_inf :: "real \<Rightarrow> double" where
  "signed_inf s = (if 0 < s then PInf else if s < 0 then NInf else NaN)"

fun dneg :: "double \<Rightarrow> double" where
  "dneg (Fin x) = Fin (- x)"
| "dneg PInf = NInf"
| "dneg NInf = PInf"
| "dneg NaN = NaN"

fun dabs :: "double \<Rightarrow> double" where
  "dabs (Fin x) = Fin \<bar>x\<bar>"
| "dabs PInf = PInf"
| "dabs NInf = PInf"
| "dabs NaN = NaN"

fun dadd :: "double \<Rightarrow> double \<Rightarrow> double" where
  "dadd (Fin x) (Fin y) = Fin (x + y)"
| "dadd NaN _ = NaN"
| "dadd _ NaN = NaN"
| "dadd PInf NInf = NaN"
| "dadd NInf PInf = NaN"
| "dadd PInf _ = PInf"
| "dadd NInf _ = NInf"
| "dadd _ PInf = PInf"
| "dadd _ NInf = NInf"

fun dmul :: "double \<Rightarrow> double \<Rightarrow> double" where
  "dmul (Fin x) (Fin y) = Fin (x * y)"
| "dmul NaN _ = NaN"
| "dmul _ NaN = NaN"
| "dmul (Fin x) PInf = signed_inf x"
| "dmul (Fin x) NInf = signed_inf (- x)"
| "dmul PInf (Fin y) = signed_inf y"
| "dmul NInf (Fin y) = signed_inf (- y)"
| "dmul PInf PInf = PInf"
| "dmul PInf NInf = NInf"
| "dmul NInf PInf = NInf"
| "dmul NInf NInf = PInf"

fun ddiv :: "double \<Rightarrow> double \<Rightarrow> double" where
  "ddiv (Fin x) (Fin y) = (if y = 0 then signed_inf x else Fin (x / y))"
| "ddiv NaN _ = NaN"
| "ddiv _ NaN = NaN"
| "ddiv (Fin x) PInf = Fin 0"
| "ddiv (Fin x) NInf = Fin 0"
| "ddiv PInf (Fin y) = (if y < 0 then NInf else PInf)"
| "ddiv NInf (Fin y) = (if y < 0 then PInf else NInf)"
| "ddiv PInf PInf = NaN"
| "ddiv PInf NInf = NaN"
| "ddiv NInf PInf = NaN"
| "ddiv NInf NInf = NaN"

fun dless :: "double \<Rightarrow> double \<Rightarrow> bool" where
  "dless (Fin x) (Fin y) = (x < y)"
| "dless NaN _ = False"
| "dless _ NaN = False"
| "dless _ NInf = False"
| "dless PInf _ = False"
| "dless NInf _ = True"
| "dless _ PInf = True"

fun dless_eq :: "double \<Rightarrow> double \<Rightarrow> bool" where
  "dless_eq (Fin x) (Fin y) = (x \<le> y)"
| "dless_eq NaN _ = False"
| "dless_eq _ NaN = False"
| "dless_eq NInf _ = True"
| "dless_eq _ PInf = True"
| "dless_eq _ NInf = False"
| "dless_eq PInf _ = False"

text \<open>The operators of C++ on \<^verbatim>\<open>double\<close> are written with the usual symbols.\<close>

instantiation double :: "{zero, one, plus, minus, uminus, times, inverse, abs, ord}"
begin

definition zero_double :: double where "zero_double = Fin 0"
definition one_double :: double where "one_double = Fin 1"
definition plus_double :: "double \<Rightarrow> double \<Rightarrow> double" where "plus_double = dadd"
definition uminus_double :: "double \<Rightarrow> double" where "uminus_double = dneg"
definition minus_double :: "double \<Rightarrow> double \<Rightarrow> double" where
  "minus_double a b = dadd a (dneg b)"
definition times_double :: "double \<Rightarrow> double \<Rightarrow> double" where "times_double = dmul"
definition divide_double :: "double \<Rightarrow> double \<Rightarrow> double" where "divide_double = ddiv"
definition inverse_double :: "double \<Rightarrow> double" where "inverse_double = ddiv (Fin 1)"
definition abs_double :: "double \<Rightarrow> double" where "abs_double = dabs"
definition less_double :: "double \<Rightarrow> double \<Rightarrow> bool" where "less_double = dless"
definition less_eq_double :: "double \<Rightarrow> double \<Rightarrow> bool" where "less_eq_double = dless_eq"

instance ..

end

text \<open>The elementary functions of the C++ mathematical library.\<close>

fun dsqrt :: "double \<Rightarrow> double" where
  "dsqrt (Fin x) = (if x < 0 then NaN else Fin (sqrt x))"
| "dsqrt PInf = PInf"
| "dsqrt NInf = NaN"
| "dsqrt NaN = NaN"

fun dlog :: "double \<Rightarrow> double" where
  "dlog (Fin x) = (if x < 0 then NaN else if x = 0 then NInf else Fin (ln x))"
| "dlog PInf = PInf"
| "dlog NInf = NaN"
| "dlog NaN = NaN"

fun datan :: "double \<Rightarrow> double" where
  "datan (Fin x) = Fin (arctan x)"
| "datan PInf = Fin (pi / 2)"
| "datan NInf = Fin (- (pi / 2))"
| "datan NaN = NaN"

fun datanh :: "double \<Rightarrow> double" where
  "datanh (Fin x) =
     (if \<bar>x\<bar> < 1 then Fin (artanh x)
      else if x = 1 then PInf
      else if x = - 1 then NInf
      else NaN)"
| "datanh PInf = NaN"
| "datanh NInf = NaN"
| "datanh NaN = NaN"

fun dsin :: "double \<Rightarrow> double" where
  "dsin (Fin x) = Fin (sin x)"
| "dsin PInf = NaN"
| "dsin NInf = NaN"
| "dsin NaN = NaN"

fun dcos :: "double \<Rightarrow> double" where
  "dcos (Fin x) = Fin (cos x)"
| "dcos PInf = NaN"
| "dcos NInf = NaN"
| "dcos NaN = NaN"

fun is_finite :: "double \<Rightarrow> bool" where
  "is_finite (Fin x) = True"
| "is_finite PInf = False"
| "is_finite NInf = False"
| "is_finite NaN = False"

section \<open>Polynomials in the monomial basis\<close>

text \<open>
  Modelled from the spec: the class \<^verbatim>\<open>PolynomialInMonomialBasis\<close> and its
  evaluators \<^verbatim>\<open>HornerEvaluator\<close> and \<^verbatim>\<open>EstrinEvaluator\<close> are declared in
  \<^verbatim>\<open>numerics/polynomial.hpp\<close> and \<^verbatim>\<open>numerics/polynomial_evaluators.hpp\<close>, which
  are not part of the sources at hand.  The spec describes the evaluator as the
  evaluation of a fixed-degree polynomial from a literal coefficient list; the two
  evaluators differ only in the order in which the same sum of monomials is associated,
  which exact arithmetic on finite values does not observe.  \<open>Evaluate\<close> is the Horner
  scheme.
\<close>

fun Evaluate :: "double list \<Rightarrow> double \<Rightarrow> double" where
  "Evaluate [] z = Fin 0"
| "Evaluate [c] z = c"
| "Evaluate (c # cs) z = c + z * Evaluate cs z"

text \<open>
  The generator \<^verbatim>\<open>FukushimaTMaclaurin\<close> of degree \<open>n\<close> holds the coefficients
  \<open>1 / (2 k + 1)\<close> for \<open>k = 0, ..., n\<close>.
\<close>

definition FukushimaTMaclaurin :: "nat \<Rightarrow> double list" where
  "FukushimaTMaclaurin n = map (\<lambda>k. Fin (1 / (2 * real k + 1))) [0 ..< n + 1]"

section \<open>Fukushima's T function\<close>

text \<open>
  The chain of comparisons of \<open>FukushimaT\<close>.  A decimal literal of the source denotes
  the double nearest to it, and \<open>|z|\<close> is compared with that double: each threshold is
  written here as the exact value of that double, a 53-bit integer over a power of two.
  In the order of the chain they are the doubles of \<^verbatim>\<open>3.3306691e-16\<close>,
  \<^verbatim>\<open>2.3560805e-08\<close>, \<^verbatim>\<open>9.1939631e-06\<close>, \<^verbatim>\<open>1.7779240e-04\<close>,
  \<^verbatim>\<open>1.0407839e-03\<close>, \<^verbatim>\<open>3.3616998e-03\<close>, \<^verbatim>\<open>7.7408014e-03\<close>,
  \<^verbatim>\<open>1.4437181e-02\<close>, \<^verbatim>\<open>2.3407312e-02\<close>, \<^verbatim>\<open>3.4416203e-02\<close>,
  \<^verbatim>\<open>4.7138547e-02\<close>, \<^verbatim>\<open>6.1227405e-02\<close> and \<^verbatim>\<open>7.6353468e-02\<close>.
\<close>

definition FukushimaT :: "double \<Rightarrow> double \<Rightarrow> double" where
  "FukushimaT t h =
    (let z = - h * t * t;
         abs_z = abs z
     in if abs_z < Fin (6755399494042587 / 2 ^ 104) then t
        else if abs_z < Fin (7120816373851363 / 2 ^ 78) then t * Evaluate (FukushimaTMaclaurin 1) z
        else if abs_z < Fin (2713578949261269 / 2 ^ 68) then t * Evaluate (FukushimaTMaclaurin 2) z
        else if abs_z < Fin (1639845450525299 / 2 ^ 63) then t * Evaluate (FukushimaTMaclaurin 3) z
        else if abs_z < Fin (4799768559834329 / 2 ^ 62) then t * Evaluate (FukushimaTMaclaurin 4) z
        else if abs_z < Fin (7751551982905073 / 2 ^ 61) then t * Evaluate (FukushimaTMaclaurin 5) z
        else if abs_z < Fin (2231134099237697 / 2 ^ 58) then t * Evaluate (FukushimaTMaclaurin 6) z
        else if abs_z < Fin (2080617055100173 / 2 ^ 57) then t * Evaluate (FukushimaTMaclaurin 7) z
        else if abs_z < Fin (1686674585615119 / 2 ^ 56) then t * Evaluate (FukushimaTMaclaurin 8) z
        else if abs_z < Fin (4959897568201835 / 2 ^ 57) then t * Evaluate (FukushimaTMaclaurin 9) z
        else if z < Fin 0 then
          (let r = dsqrt h; ri = Fin 1 / r in datan (r * t) / r)
        else if abs_z < Fin (1698345141631893 / 2 ^ 55) then t * Evaluate (FukushimaTMaclaurin 10) z
        else if abs_z < Fin (4411899493485799 / 2 ^ 56) then t * Evaluate (FukushimaTMaclaurin 11) z
        else if abs_z < Fin (5501847200531921 / 2 ^ 56) then t * Evaluate (FukushimaTMaclaurin 12) z
        else
          (let r = dsqrt (- h) in datanh (r * t) / r))"


text \<open>
  The thresholds of \<open>FukushimaT\<close> in increasing order, and the position of the first
  threshold that exceeds a given magnitude.  They serve to state how the chain of
  comparisons of \<open>FukushimaT\<close> selects a branch.
\<close>

definition FukushimaT_thresholds :: "real list" where
  "FukushimaT_thresholds =
    [6755399494042587 / 2 ^ 104, 7120816373851363 / 2 ^ 78, 2713578949261269 / 2 ^ 68, 1639845450525299 / 2 ^ 63,
     4799768559834329 / 2 ^ 62, 7751551982905073 / 2 ^ 61, 2231134099237697 / 2 ^ 58, 2080617055100173 / 2 ^ 57,
     1686674585615119 / 2 ^ 56, 4959897568201835 / 2 ^ 57, 1698345141631893 / 2 ^ 55, 4411899493485799 / 2 ^ 56,
     5501847200531921 / 2 ^ 56]"

fun first_exceeding :: "double \<Rightarrow> real list \<Rightarrow> nat" where
  "first_exceeding a [] = 0"
| "first_exceeding a (th # ths) = (if a < Fin th then 0 else Suc (first_exceeding a ths))"

text \<open>
  The dispatch as the specification words it: below the largest threshold the series
  whose degree is the position of the first threshold exceeding \<open>|z|\<close>, and a closed
  form only above all thresholds.
\<close>

definition FukushimaT_spec_dispatch :: "double \<Rightarrow> double \<Rightarrow> double" where
  "FukushimaT_spec_dispatch t h =
    (let z = - h * t * t; abs_z = abs z
     in if abs_z < Fin (5501847200531921 / 2 ^ 56)
        then t * Evaluate (FukushimaTMaclaurin (first_exceeding abs_z FukushimaT_thresholds)) z
        else if Fin 0 < h then datan (dsqrt h * t) / dsqrt h
        else datanh (dsqrt (- h) * t) / dsqrt (- h))"

text \<open>
  The dispatch that the chain of comparisons performs: the test \<open>z < 0\<close> stands between
  the tenth and the eleventh threshold, so that a negative \<open>z\<close> takes the arc tangent as
  soon as \<open>|z|\<close> reaches the double of \<^verbatim>\<open>3.4416203e-02\<close>.
\<close>

definition FukushimaT_code_dispatch :: "double \<Rightarrow> double \<Rightarrow> double" where
  "FukushimaT_code_dispatch t h =
    (let z = - h * t * t; abs_z = abs z
     in if abs_z < Fin (4959897568201835 / 2 ^ 57) \<or> (abs_z < Fin (5501847200531921 / 2 ^ 56) \<and> Fin 0 \<le> z)
        then t * Evaluate (FukushimaTMaclaurin (first_exceeding abs_z FukushimaT_thresholds)) z
        else if z < Fin 0 then datan (dsqrt h * t) / dsqrt h
        else datanh (dsqrt (- h) * t) / dsqrt (- h))"

section \<open>Bulirsch's general complete elliptic integral\<close>

text \<open>
  The comparison \<^verbatim>\<open>==\<close> of C++ on doubles: \<open>NaN\<close> equals nothing, itself included.
\<close>

fun deq :: "double \<Rightarrow> double \<Rightarrow> bool" where
  "deq (Fin x) (Fin y) = (x = y)"
| "deq PInf PInf = True"
| "deq NInf NInf = True"
| "deq _ _ = False"

text \<open>
  What \<^verbatim>\<open>DLOG(ERROR)\<close> writes in \<open>BulirschCel\<close>: the four arguments of the call.
\<close>

datatype log_entry = CelUndefined double double double double

text \<open>
  Bartky's algorithm, the loop \<^verbatim>\<open>for (;;)\<close> of \<open>BulirschCel\<close>.  The source puts no
  bound on the number of iterations, so the loop is given fuel: one unit per iteration,
  and \<open>None\<close> when the fuel is used up before the loop breaks.  At the break the loop
  yields the variables \<open>a\<close>, \<open>b\<close>, \<open>p\<close>, \<open>m\<close> that the return statement reads.
  The arithmetic on finite values is exact: the model shows neither the overflow of
  \<^verbatim>\<open>a = b / p + a\<close> on huge coefficients nor the underflow of \<^verbatim>\<open>kc * kc\<close> on a tiny
  \<open>kc\<close>, where the code returns an infinity or a NaN.  What is proved of \<open>BulirschCel\<close>
  is therefore either that a value is returned, or a property of the value on arguments
  of moderate size.
\<close>

fun Bartky ::
  "nat \<Rightarrow> double \<Rightarrow> double \<Rightarrow> double \<Rightarrow> double \<Rightarrow> double \<Rightarrow> double \<Rightarrow> double \<Rightarrow>
   (double \<times> double \<times> double \<times> double) option" where
  "Bartky 0 ca a b p e m kc = None"
| "Bartky (Suc fuel) ca a b p e m kc =
    (let f = a;
         a = b / p + a;
         g = e / p;
         b = f * g + b;
         b = b + b;
         p = g + p;
         g = m;
         m = kc + m
     in if abs (g - kc) \<le> g * ca then Some (a, b, p, m)
        else
          (let kc = dsqrt e;
               kc = kc + kc;
               e = kc * m
           in Bartky fuel ca a b p e m kc))"

definition BulirschCel ::
  "nat \<Rightarrow> double \<Rightarrow> double \<Rightarrow> double \<Rightarrow> double \<Rightarrow> (double \<times> log_entry list) option" where
  "BulirschCel fuel kc nc a b =
    (let ca = Fin (1 / 10 ^ 7);
         kc_nearly_0 = Fin (1 / 10 ^ 14);
         p = nc
     in if deq kc (Fin 0) \<and> \<not> deq b (Fin 0) then Some (NaN, [CelUndefined kc nc a b])
        else
          (let kc = (if deq kc (Fin 0) then kc_nearly_0 else kc);
               kc = abs kc;
               e = kc;
               m = Fin 1;
               (p, a, b) =
                 (if Fin 0 < p then
                    (let p = dsqrt p;
                         b = b / p
                     in (p, a, b))
                  else
                    (let f = kc * kc;
                         q = Fin 1 - f;
                         g = Fin 1 - p;
                         f = f - p;
                         q = (b - a * p) * q;
                         p = dsqrt (f / g);
                         a = (a - b) / g;
                         b = a * p - q / (g * g * p)
                     in (p, a, b)))
           in case Bartky fuel ca a b p e m kc of
                None \<Rightarrow> None
              | Some (a, b, p, m) \<Rightarrow>
                  Some (Fin pi / Fin 2 * (a * m + b) / (m * (m + p)), [])))"

text \<open>
  The domain of \<open>BulirschCel\<close>: \<open>0 \<le> kc \<le> 1\<close>, \<open>0 \<le> nc \<le> 1\<close>, finite \<open>a\<close> and
  \<open>b\<close>, without the undefined case \<open>kc = 0\<close>, \<open>b \<noteq> 0\<close>.  A positive double is at
  least \<open>denorm_min\<close>, the smallest positive value of the type, \<open>2\<^sup>-\<^sup>1\<^sup>0\<^sup>7\<^sup>4\<close>.
\<close>

definition denorm_min :: real where
  "denorm_min = 1 / 2 ^ 1074"

fun in_unit_interval :: "double \<Rightarrow> bool" where
  "in_unit_interval (Fin x) = (0 \<le> x \<and> x \<le> 1)"
| "in_unit_interval PInf = False"
| "in_unit_interval NInf = False"
| "in_unit_interval NaN = False"

definition cel_domain :: "double \<Rightarrow> double \<Rightarrow> double \<Rightarrow> double \<Rightarrow> bool" where
  "cel_domain kc nc a b =
    (in_unit_interval kc \<and> in_unit_interval nc \<and> is_finite a \<and> is_finite b \<and>
     (if deq kc (Fin 0) then deq b (Fin 0) else Fin denorm_min \<le> kc))"


text \<open>
  \<open>Bartky_converges n d\<close>: from every state of the loop whose variables are finite
  with \<open>0 < kc \<le> m\<close>, \<open>e = kc m\<close>, \<open>0 < p\<close> and relative gap \<open>(m - kc) / m \<le> d\<close>, the
  loop breaks within \<open>n\<close> iterations with finite variables and positive \<open>p\<close> and \<open>m\<close>.
\<close>

definition Bartky_converges :: "nat \<Rightarrow> real \<Rightarrow> bool" where
  "Bartky_converges n d =
    (\<forall>a b p kc m. 0 < kc \<longrightarrow> kc \<le> m \<longrightarrow> 0 < p \<longrightarrow> m - kc \<le> d * m \<longrightarrow>
       (\<exists>a' b' p' m'.
          Bartky n (Fin (1 / 10 ^ 7)) (Fin a) (Fin b) (Fin p) (Fin (kc * m)) (Fin m) (Fin kc) =
            Some (Fin a', Fin b', Fin p', Fin m') \<and> 0 < p' \<and> 0 < m'))"

section \<open>The complete elliptic integral of the first kind\<close>

text \<open>
  The Maclaurin series of \<open>q(m) / m\<close>, where \<open>q\<close> is Jacobi's nome: the literal
  coefficients of \<^verbatim>\<open>EllipticNomeQMaclaurin\<close>.  \<open>EllipticNomeQ degree\<close> evaluates the
  polynomial of the first \<open>degree\<close> coefficients and multiplies it by \<open>mc\<close>.
\<close>

definition EllipticNomeQMaclaurin_full_series :: "double list" where
  "EllipticNomeQMaclaurin_full_series =
    [Fin 1 / Fin 16,
     Fin 1 / Fin 32,
     Fin 21 / Fin 1024,
     Fin 31 / Fin 2048,
     Fin 6257 / Fin 524288,
     Fin 10293 / Fin 1048576,
     Fin 279025 / Fin 33554432,
     Fin 483127 / Fin 67108864,
     Fin 435506703 / Fin 68719476736,
     Fin 776957575 / Fin 137438953472,
     Fin 22417045555 / Fin 4398046511104,
     Fin 40784671953 / Fin 8796093022208,
     Fin 9569130097211 / Fin 2251799813685248,
     Fin 17652604545791 / Fin 4503599627370496,
     Fin 523910972020563 / Fin 144115188075855872,
     Fin 976501268709949 / Fin 288230376151711744]"

definition EllipticNomeQ :: "nat \<Rightarrow> double \<Rightarrow> double" where
  "EllipticNomeQ degree mc =
    mc * Evaluate (take degree EllipticNomeQMaclaurin_full_series) mc"

text \<open>
  \<open>EllipticK\<close> of \<^verbatim>\<open>elliptic_integrals.cpp\<close>.  The constants \<open>D1\<close> to \<open>D14\<close> are
  declared and not used there.
\<close>

definition EllipticK :: "double \<Rightarrow> double" where
  "EllipticK mc =
    (let D1 = Fin 1 / Fin 16;
         D2 = Fin 1 / Fin 32;
         D3 = Fin 21 / Fin 1024;
         D4 = Fin 31 / Fin 2048;
         D5 = Fin 6257 / Fin 524288;
         D6 = Fin 10293 / Fin 1048576;
         D7 = Fin 279025 / Fin 33554432;
         D8 = Fin 483127 / Fin 67108864;
         D9 = Fin 435506703 / Fin 68719476736;
         D10 = Fin 776957575 / Fin 137438953472;
         D11 = Fin 22417045555 / Fin 4398046511104;
         D12 = Fin 40784671953 / Fin 8796093022208;
         D13 = Fin 9569130097211 / Fin 2251799813685248;
         D14 = Fin 17652604545791 / Fin 4503599627370496;
         TINY = Fin (1 / 10 ^ 99);
         m = Fin 1 - mc
     in (if abs m < Fin (1 / 10 ^ 16) then
            Fin pi / Fin 2
          else if mc < TINY then
            Fin 1.3862943611198906 - Fin 0.5 * dlog TINY
          else if mc < Fin (1.11 / 10 ^ 16) then
            Fin 1.3862943611198906 - Fin 0.5 * dlog mc
          else if mc < Fin 0.1 then
            (let nome = EllipticNomeQ 14 mc;
                 mx = mc - Fin 0.05;
                 kkc = Fin 1.591003453790792180 + mx * (Fin 0.416000743991786912 +
                     mx * (Fin 0.245791514264103415 + mx * (Fin 0.179481482914906162 +
                     mx * (Fin 0.144556057087555150 + mx * (Fin 0.123200993312427711 +
                     mx * (Fin 0.108938811574293531 + mx * (Fin 0.098853409871592910 +
                     mx * (Fin 0.091439629201749751 + mx * (Fin 0.085842591595413900 +
                     mx * Fin 0.081541118718303215)))))))))
             in - kkc * (Fin 1 / Fin pi) * dlog nome)
          else if m \<le> Fin 0.1 then
            (let mx = m - Fin 0.05
             in Fin 1.591003453790792180 + mx * (Fin 0.416000743991786912 +
                 mx * (Fin 0.245791514264103415 + mx * (Fin 0.179481482914906162 +
                 mx * (Fin 0.144556057087555150 + mx * (Fin 0.123200993312427711 +
                 mx * (Fin 0.108938811574293531 + mx * (Fin 0.098853409871592910 +
                 mx * (Fin 0.091439629201749751 + mx * (Fin 0.085842591595413900 +
                 mx * Fin 0.081541118718303215))))))))))
          else if m \<le> Fin 0.2 then
            (let mx = m - Fin 0.15
             in Fin 1.635256732264579992 + mx * (Fin 0.471190626148732291 +
                 mx * (Fin 0.309728410831499587 + mx * (Fin 0.252208311773135699 +
                 mx * (Fin 0.226725623219684650 + mx * (Fin 0.215774446729585976 +
                 mx * (Fin 0.213108771877348910 + mx * (Fin 0.216029124605188282 +
                 mx * (Fin 0.223255831633057896 + mx * (Fin 0.234180501294209925 +
                 mx * (Fin 0.248557682972264071 + mx * (Fin 0.266363809892617521 +
                 mx * Fin 0.287728452156114668))))))))))))
          else if m \<le> Fin 0.3 then
            (let mx = m - Fin 0.25
             in Fin 1.685750354812596043 + mx * (Fin 0.541731848613280329 +
                 mx * (Fin 0.401524438390690257 + mx * (Fin 0.369642473420889090 +
                 mx * (Fin 0.376060715354583645 + mx * (Fin 0.405235887085125919 +
                 mx * (Fin 0.453294381753999079 + mx * (Fin 0.520518947651184205 +
                 mx * (Fin 0.609426039204995055 + mx * (Fin 0.724263522282908870 +
                 mx * (Fin 0.871013847709812357 + mx * Fin 1.057652872753547036)))))))))))
          else if m \<le> Fin 0.4 then
            (let mx = m - Fin 0.35
             in Fin 1.744350597225613243 + mx * (Fin 0.634864275371935304 +
                 mx * (Fin 0.539842564164445538 + mx * (Fin 0.571892705193787391 +
                 mx * (Fin 0.670295136265406100 + mx * (Fin 0.832586590010977199 +
                 mx * (Fin 1.073857448247933265 + mx * (Fin 1.422091460675497751 +
                 mx * (Fin 1.920387183402304829 + mx * (Fin 2.632552548331654201 +
                 mx * (Fin 3.652109747319039160 + mx * (Fin 5.115867135558865806 +
                 mx * Fin 7.224080007363877411))))))))))))
          else if m \<le> Fin 0.5 then
            (let mx = m - Fin 0.45
             in Fin 1.813883936816982644 + mx * (Fin 0.763163245700557246 +
                 mx * (Fin 0.761928605321595831 + mx * (Fin 0.951074653668427927 +
                 mx * (Fin 1.315180671703161215 + mx * (Fin 1.928560693477410941 +
                 mx * (Fin 2.937509342531378755 + mx * (Fin 4.594894405442878062 +
                 mx * (Fin 7.330071221881720772 + mx * (Fin 11.87151259742530180 +
                 mx * (Fin 19.45851374822937738 + mx * (Fin 32.20638657246426863 +
                 mx * (Fin 53.73749198700554656 + mx * Fin 90.27388602940998849)))))))))))))
          else if m \<le> Fin 0.6 then
            (let mx = m - Fin 0.55
             in Fin 1.898924910271553526 + mx * (Fin 0.950521794618244435 +
                 mx * (Fin 1.151077589959015808 + mx * (Fin 1.750239106986300540 +
                 mx * (Fin 2.952676812636875180 + mx * (Fin 5.285800396121450889 +
                 mx * (Fin 9.832485716659979747 + mx * (Fin 18.78714868327559562 +
                 mx * (Fin 36.61468615273698145 + mx * (Fin 72.45292395127771801 +
                 mx * (Fin 145.1079577347069102 + mx * (Fin 293.4786396308497026 +
                 mx * (Fin 598.3851815055010179 + mx * (Fin 1228.420013075863451 +
                 mx * Fin 2536.529755382764488))))))))))))))
          else if m \<le> Fin 0.7 then
            (let mx = m - Fin 0.65
             in Fin 2.007598398424376302 + mx * (Fin 1.248457231212347337 +
                 mx * (Fin 1.926234657076479729 + mx * (Fin 3.751289640087587680 +
                 mx * (Fin 8.119944554932045802 + mx * (Fin 18.66572130873555361 +
                 mx * (Fin 44.60392484291437063 + mx * (Fin 109.5092054309498377 +
                 mx * (Fin 274.2779548232413480 + mx * (Fin 697.5598008606326163 +
                 mx * (Fin 1795.716014500247129 + mx * (Fin 4668.381716790389910 +
                 mx * (Fin 12235.76246813664335 + mx * (Fin 32290.17809718320818 +
                 mx * (Fin 85713.07608195964685 + mx * (Fin 228672.1890493117096 +
                 mx * Fin 612757.2711915852774))))))))))))))))
          else if m \<le> Fin 0.8 then
            (let mx = m - Fin 0.75
             in Fin 2.156515647499643235 + mx * (Fin 1.791805641849463243 +
                 mx * (Fin 3.826751287465713147 + mx * (Fin 10.38672468363797208 +
                 mx * (Fin 31.40331405468070290 + mx * (Fin 100.9237039498695416 +
                 mx * (Fin 337.3268282632272897 + mx * (Fin 1158.707930567827917 +
                 mx * (Fin 4060.990742193632092 + mx * (Fin 14454.00184034344795 +
                 mx * (Fin 52076.66107599404803 + mx * (Fin 189493.6591462156887 +
                 mx * (Fin 695184.5762413896145 + mx * (Fin (2.567994048255284686 * 10 ^ 6) +
                 mx * (Fin (9.541921966748386322 * 10 ^ 6) +
                 mx * (Fin (3.563492744218076174 * 10 ^ 7) +
                 mx * (Fin (1.336692984612040871 * 10 ^ 8) +
                 mx * (Fin (5.033521866866284541 * 10 ^ 8) +
                 mx * (Fin (1.901975729538660119 * 10 ^ 9) +
                 mx * Fin (7.208915015330103756 * 10 ^ 9))))))))))))))))))))
          else if m \<le> Fin 0.85 then
            (let mx = m - Fin 0.825
             in Fin 2.318122621712510589 + mx * (Fin 2.616920150291232841 +
                 mx * (Fin 7.897935075731355823 + mx * (Fin 30.50239715446672327 +
                 mx * (Fin 131.4869365523528456 + mx * (Fin 602.9847637356491617 +
                 mx * (Fin 2877.024617809972641 + mx * (Fin 14110.51991915180325 +
                 mx * (Fin 70621.44088156540229 + mx * (Fin 358977.2665825309926 +
                 mx * (Fin (1.847238263723971684 * 10 ^ 6) +
                 mx * (Fin (9.600515416049214109 * 10 ^ 6) +
                 mx * (Fin (5.030767708502366879 * 10 ^ 7) +
                 mx * (Fin (2.654441886527127967 * 10 ^ 8) +
                 mx * (Fin (1.408862325028702687 * 10 ^ 9) +
                 mx * Fin (7.515687935373774627 * 10 ^ 9))))))))))))))))
          else
            (let mx = m - Fin 0.875
             in Fin 2.473596173751343912 + mx * (Fin 3.727624244118099310 +
                 mx * (Fin 15.60739303554930496 + mx * (Fin 84.12850842805887747 +
                 mx * (Fin 506.9818197040613935 + mx * (Fin 3252.277058145123644 +
                 mx * (Fin 21713.24241957434256 + mx * (Fin 149037.0451890932766 +
                 mx * (Fin (1.043999331089990839 * 10 ^ 6) +
                 mx * (Fin (7.427974817042038995 * 10 ^ 6) +
                 mx * (Fin (5.350383967558661151 * 10 ^ 7) +
                 mx * (Fin (3.892498869948708474 * 10 ^ 8) +
                 mx * (Fin (2.855288351100810619 * 10 ^ 9) +
                 mx * (Fin (2.109007703876684053 * 10 ^ 10) +
                 mx * (Fin (1.566998339477902014 * 10 ^ 11) +
                 mx * (Fin (1.170222242422439893 * 10 ^ 12) +
                 mx * (Fin (8.777948323668937971 * 10 ^ 12) +
                 mx * (Fin (6.610124275248495041 * 10 ^ 13) +
                 mx * (Fin (4.994880537133887989 * 10 ^ 14) +
                 mx * Fin (3.785974339724029920 * 10 ^ 15))))))))))))))))))))))"

section \<open>The complete elliptic integrals of the second kind\<close>

text \<open>
  \<open>FukushimaEllipticBD\<close> returns the pair \<open>(elb, eld)\<close> that the source writes
  through its reference parameters.
\<close>

definition FukushimaEllipticBD :: "double \<Rightarrow> double \<times> double" where
  "FukushimaEllipticBD mc =
    (let K1 = Fin 1 / Fin 4;
         K2 = Fin 9 / Fin 64;
         K3 = Fin 25 / Fin 256;
         K4 = Fin 1225 / Fin 16384;
         K5 = Fin 3969 / Fin 65536;
         K6 = Fin 53361 / Fin 1048576;
         K7 = Fin 184041 / Fin 4194304;
         B1 = Fin 1 / Fin 2;
         B2 = Fin 1 / Fin 16;
         B3 = Fin 3 / Fin 128;
         B4 = Fin 25 / Fin 2048;
         B5 = Fin 245 / Fin 32768;
         B6 = Fin 1323 / Fin 262144;
         B7 = Fin 7623 / Fin 2097152;
         B8 = Fin 184041 / Fin 67108864;
         D1 = Fin 1 / Fin 2;
         D2 = Fin 3 / Fin 16;
         D3 = Fin 15 / Fin 128;
         D4 = Fin 175 / Fin 2048;
         D5 = Fin 2205 / Fin 32768;
         D6 = Fin 14553 / Fin 262144;
         D7 = Fin 99099 / Fin 2097152;
         D8 = Fin 2760615 / Fin 67108864;
         m = Fin 1 - mc
     in (if m < Fin (1.11 / 10 ^ 16) then
            (let elb = Fin pi / Fin 4;
                 eld = Fin pi / Fin 4
             in (elb, eld))
          else if mc < Fin (1.11 / 10 ^ 16) then
            (let elb = Fin 1;
                 eld = Fin 0.3862943611198906188344642429164 - Fin 0.5 * dlog mc
             in (elb, eld))
          else if mc < Fin 0.1 then
            (let nome = EllipticNomeQ 16 mc;
                 (dkkc, dddc) =
                   (if mc < Fin 0.01 then
                      (let dkkc = mc * (K1 + mc * (K2 + mc * (K3 + mc * (K4 + mc * (K5 + mc * (K6 +
                          mc * K7))))));
                           dddc = mc * (D1 + mc * (D2 + mc * (D3 + mc * (D4 + mc * (D5 + mc * (D6 +
                               mc * D7))))))
                       in (dkkc, dddc))
                    else
                      (let mx = mc - Fin 0.05;
                           dkkc = Fin 0.01286425658832983978282698630501405107893 +
                               mx * (Fin 0.26483429894479586582278131697637750604652 +
                               mx * (Fin 0.15647573786069663900214275050014481397750 +
                               mx * (Fin 0.11426146079748350067910196981167739749361 +
                               mx * (Fin 0.09202724415743445309239690377424239940545 +
                               mx * (Fin 0.07843218831801764082998285878311322932444 +
                               mx * (Fin 0.06935260142642158347117402021639363379689 +
                               mx * (Fin 0.06293203529021269706312943517695310879457 +
                               mx * (Fin 0.05821227592779397036582491084172892108196 +
                               mx * (Fin 0.05464909112091564816652510649708377642504 +
                               mx * (Fin 0.05191068843704411873477650167894906357568 +
                               mx * (Fin 0.04978344771840508342564702588639140680363 +
                               mx * Fin 0.04812375496807025605361215168677991360500)))))))))));
                           dddc = Fin 0.02548395442966088473597712420249483947953 +
                               mx * (Fin 0.51967384324140471318255255900132590084179 +
                               mx * (Fin 0.20644951110163173131719312525729037023377 +
                               mx * (Fin 0.13610952125712137420240739057403788152260 +
                               mx * (Fin 0.10458014040566978574883406877392984277718 +
                               mx * (Fin 0.08674612915759188982465635633597382093113 +
                               mx * (Fin 0.07536380269617058326770965489534014190391 +
                               mx * (Fin 0.06754544594618781950496091910264174396541 +
                               mx * (Fin 0.06190939688096410201497509102047998554900 +
                               mx * (Fin 0.05771071515451786553160533778648705873199 +
                               mx * (Fin 0.05451217098672207169493767625617704078257 +
                               mx * (Fin 0.05204028407582600387265992107877094920787 +
                               mx * Fin 0.05011532514520838441892567405879742720039)))))))))))
                       in (dkkc, dddc)));
                 kkc = Fin 1 + dkkc;
                 logq2 = - (Fin 0.5) * dlog nome;
                 elk = kkc * logq2;
                 dele = - dkkc / kkc + logq2 * dddc;
                 elk1 = elk - Fin 1;
                 delb = (dele - mc * elk1) / m;
                 elb = Fin 1 + delb;
                 eld = elk1 - delb
             in (elb, eld))
          else if m \<le> Fin 0.01 then
            (let elb = Fin pi / Fin 2 * (B1 + m * (B2 + m * (B3 + m * (B4 + m * (B5 + m * (B6 +
                m * (B7 + m * B8)))))));
                 eld = Fin pi / Fin 2 * (D1 + m * (D2 + m * (D3 + m * (D4 + m * (D5 + m * (D6 +
                     m * (D7 + m * D8)))))))
             in (elb, eld))
          else if m \<le> Fin 0.1 then
            (let mx = Fin 0.95 - mc;
                 elb = Fin 0.790401413584395132310045630540381158921005 +
                     mx * (Fin 0.102006266220019154892513446364386528537788 +
                     mx * (Fin 0.039878395558551460860377468871167215878458 +
                     mx * (Fin 0.021737136375982167333478696987134316809322 +
                     mx * (Fin 0.013960979767622057852185340153691548520857 +
                     mx * (Fin 0.009892518822669142478846083436285145400444 +
                     mx * (Fin 0.007484612400663335676130416571517444936951 +
                     mx * (Fin 0.005934625664295473695080715589652011420808 +
                     mx * (Fin 0.004874249053581664096949448689997843978535 +
                     mx * (Fin 0.004114606930310886136960940893002069423559 +
                     mx * (Fin 0.003550452989196176932747744728766021440856 +
                     mx * Fin 0.003119229959988474753291950759202798352266))))))))));
                 eld = Fin 0.800602040206397047799296975176819811774784 +
                     mx * (Fin 0.313994477771767756849615832867393028789057 +
                     mx * (Fin 0.205913118705551954501930953451976374435088 +
                     mx * (Fin 0.157744346538923994475225014971416837073598 +
                     mx * (Fin 0.130595077319933091909091103101366509387938 +
                     mx * (Fin 0.113308474489758568672985167742047066367053 +
                     mx * (Fin 0.101454199173630195376251916342483192174927 +
                     mx * (Fin 0.0929187842072974367037702927967784464949434 +
                     mx * (Fin 0.0865653801481680871714054745336652101162894 +
                     mx * (Fin 0.0817279846651030135350056216958053404884715 +
                     mx * (Fin 0.0779906657291070378163237851392095284454654 +
                     mx * Fin 0.075080426851268007156477347905308063808848))))))))))
             in (elb, eld))
          else if m \<le> Fin 0.2 then
            (let mx = Fin 0.85 - mc;
                 elb = Fin 0.80102406445284489393880821604009991524037 +
                     mx * (Fin 0.11069534452963401497502459778015097487115 +
                     mx * (Fin 0.047348746716993717753569559936346358937777 +
                     mx * (Fin 0.028484367255041422845322166419447281776162 +
                     mx * (Fin 0.020277811444003597057721308432225505126013 +
                     mx * (Fin 0.015965005853099119442287313909177068173564 +
                     mx * (Fin 0.013441320273553634762716845175446390822633 +
                     mx * (Fin 0.011871565736951439501853534319081030547931 +
                     mx * (Fin 0.010868363672485520630005005782151743785248 +
                     mx * (Fin 0.010231587232710564565903812652581252337697 +
                     mx * (Fin 0.009849585546666211201566987057592610884309 +
                     mx * Fin 0.009656606347153765129943681090056980586986))))))))));
                 eld = Fin 0.834232667811735098431315595374145207701720 +
                     mx * (Fin 0.360495281619098275577215529302260739976126 +
                     mx * (Fin 0.262379664114505869328637749459234348287432 +
                     mx * (Fin 0.223723944518094276386520735054801578584350 +
                     mx * (Fin 0.206447811775681052682922746753795148394463 +
                     mx * (Fin 0.199809440876486856438050774316751253389944 +
                     mx * (Fin 0.199667451603795274869211409350873244844882 +
                     mx * (Fin 0.204157558868236842039815028663379643303565 +
                     mx * (Fin 0.212387467960572375038025392458549025660994 +
                     mx * (Fin 0.223948914061499360356873401571821627069173 +
                     mx * (Fin 0.238708097425597860161720875806632864507536 +
                     mx * Fin 0.256707203545463755643710021815937785120030))))))))))
             in (elb, eld))
          else if m \<le> Fin 0.3 then
            (let mx = Fin 0.75 - mc;
                 elb = Fin 0.81259777291992049322557009456643357559904 +
                     mx * (Fin 0.12110961794551011284012693733241967660542 +
                     mx * (Fin 0.057293376831239877456538980381277010644332 +
                     mx * (Fin 0.038509451602167328057004166642521093142114 +
                     mx * (Fin 0.030783430301775232744816612250699163538318 +
                     mx * (Fin 0.027290564934732526869467118496664914274956 +
                     mx * (Fin 0.025916369289445198731886546557337255438083 +
                     mx * (Fin 0.025847203343361799141092472018796130324244 +
                     mx * (Fin 0.026740923539348854616932735567182946385269 +
                     mx * (Fin 0.028464314554825704963640157657034405579849 +
                     mx * (Fin 0.030995446237278954096189768338119395563447 +
                     mx * (Fin 0.034384369179940975864103666824736551261799 +
                     mx * Fin 0.038738002072493935952384233588242422046537)))))))))));
                 eld = Fin 0.873152581892675549645633563232643413901757 +
                     mx * (Fin 0.420622230667770215976919792378536040460605 +
                     mx * (Fin 0.344231061559450379368201151870166692934830 +
                     mx * (Fin 0.331133021818721761888662390999045979071436 +
                     mx * (Fin 0.345277285052808411877017306497954757532251 +
                     mx * (Fin 0.377945322150393391759797943135325823338761 +
                     mx * (Fin 0.427378012464553880508348757311170776829930 +
                     mx * (Fin 0.494671744307822405584118022550673740404732 +
                     mx * (Fin 0.582685115665646200824237214098764913658889 +
                     mx * (Fin 0.695799207728083164790111837174250683834359 +
                     mx * (Fin 0.840018401472533403272555302636558338772258 +
                     mx * (Fin 1.023268503573606060588689738498395211300483 +
                     mx * Fin 1.255859085136282496149035687741403985044122)))))))))))
             in (elb, eld))
          else if m \<le> Fin 0.4 then
            (let mx = Fin 0.65 - mc;
                 elb = Fin 0.8253235579835158949845697805395190063745 +
                     mx * (Fin 0.1338621160836877898575391383950840569989 +
                     mx * (Fin 0.0710112935979886745743770664203746758134 +
                     mx * (Fin 0.0541784774173873762208472152701393154906 +
                     mx * (Fin 0.0494517449481029932714386586401273353617 +
                     mx * (Fin 0.0502221962241074764652127892365024315554 +
                     mx * (Fin 0.0547429131718303528104722303305931350375 +
                     mx * (Fin 0.0627462579270016992000788492778894700075 +
                     mx * (Fin 0.0746698810434768864678760362745179321956 +
                     mx * (Fin 0.0914808451777334717996463421986810092918 +
                     mx * (Fin 0.1147050921109978235104185800057554574708 +
                     mx * (Fin 0.1465711325814398757043492181099197917984 +
                     mx * Fin 0.1902571373338462844225085057953823854177)))))))))));
                 eld = Fin 0.9190270392420973478848471774160778462738 +
                     mx * (Fin 0.5010021592882475139767453081737767171354 +
                     mx * (Fin 0.4688312705664568629356644841691659415972 +
                     mx * (Fin 0.5177142277764000147059587510833317474467 +
                     mx * (Fin 0.6208433913173031070711926900889045286988 +
                     mx * (Fin 0.7823643937868697229213240489900179142670 +
                     mx * (Fin 1.0191145350761029126165253557593691585239 +
                     mx * (Fin 1.3593452027484960522212885423056424704073 +
                     mx * (Fin 1.8457173023588279422916645725184952058635 +
                     mx * (Fin 2.5410717031539207287662105618152273788399 +
                     mx * (Fin 3.5374046552080413366422791595672470037341 +
                     mx * (Fin 4.9692960029774259303491034652093672488707 +
                     mx * (Fin 7.0338228700300311264031522795337352226926 +
                     mx * Fin 10.020043225034471401553194050933390974016))))))))))))
             in (elb, eld))
          else if m \<le> Fin 0.5 then
            (let mx = Fin 0.55 - mc;
                 elb = Fin 0.8394795702706129706783934654948360410325 +
                     mx * (Fin 0.1499164403063963359478614453083470750543 +
                     mx * (Fin 0.0908319358194288345999005586556105610069 +
                     mx * (Fin 0.0803470334833417864262134081954987019902 +
                     mx * (Fin 0.0856384405004704542717663971835424473169 +
                     mx * (Fin 0.1019547259329903716766105911448528069506 +
                     mx * (Fin 0.1305748115336160150072309911623351523284 +
                     mx * (Fin 0.1761050763588499277679704537732929242811 +
                     mx * (Fin 0.2468351644029554468698889593583314853486 +
                     mx * (Fin 0.3564244768677188553323196975301769697977 +
                     mx * (Fin 0.5270025622301027434418321205779314762241 +
                     mx * (Fin 0.7943896342593047502260866957039427731776 +
                     mx * Fin 1.2167625324297180206378753787253096783993)))))))))));
                 eld = Fin 0.9744043665463696730314687662723484085813 +
                     mx * (Fin 0.6132468053941609101234053415051402349752 +
                     mx * (Fin 0.6710966695021669963502789954058993004082 +
                     mx * (Fin 0.8707276201850861403618528872292437242726 +
                     mx * (Fin 1.2295422312026907609906452348037196571302 +
                     mx * (Fin 1.8266059675444205694817638548699906990301 +
                     mx * (Fin 2.8069345309977627400322167438821024032409 +
                     mx * (Fin 4.4187893290840281339827573139793805587268 +
                     mx * (Fin 7.0832360574787653249799018590860687062869 +
                     mx * (Fin 11.515088120557582942290563338274745712174 +
                     mx * (Fin 18.931511185999274639516732819605594455165 +
                     mx * (Fin 31.411996938204963878089048091424028309798 +
                     mx * (Fin 52.520729454575828537934780076768577185134 +
                     mx * (Fin 88.384854735065298062125622417251073520996 +
                     mx * (Fin 149.56637449398047835236703116483092644714 +
                     mx * Fin 254.31790843104117434615624121937495622372))))))))))))))
             in (elb, eld))
          else if m \<le> Fin 0.6 then
            (let mx = Fin 0.45 - mc;
                 elb = Fin 0.8554696151564199914087224774321783838373 +
                     mx * (Fin 0.1708960726897395844132234165994754905373 +
                     mx * (Fin 0.1213352290269482260207667564010437464156 +
                     mx * (Fin 0.1282018835749474096272901529341076494573 +
                     mx * (Fin 0.1646872814515275597348427294090563472179 +
                     mx * (Fin 0.2374189087493817423375114793658754489958 +
                     mx * (Fin 0.3692081047164954516884561039890508294508 +
                     mx * (Fin 0.6056587338479277173311618664015401963868 +
                     mx * (Fin 1.0337055615578127436826717513776452476106 +
                     mx * (Fin 1.8189884893632678849599091011718520567105 +
                     mx * (Fin 3.2793776512738509375806561547016925831128 +
                     mx * (Fin 6.0298883807175363312261449542978750456611 +
                     mx * (Fin 11.269796855577941715109155203721740735793 +
                     mx * Fin 21.354577850382834496786315532111529462693))))))))))));
                 eld = Fin 1.04345529511513353426326823569160142342838 +
                     mx * (Fin 0.77962572192850485048535711388072271372632 +
                     mx * (Fin 1.02974236093206758187389128668777397528702 +
                     mx * (Fin 1.62203722341135313022433907993860147395972 +
                     mx * (Fin 2.78798953118534762046989770119382209443756 +
                     mx * (Fin 5.04838148737206914685643655935236541332892 +
                     mx * (Fin 9.46327761194348429539987572314952029503864 +
                     mx * (Fin 18.1814899494276679043749394081463811247757 +
                     mx * (Fin 35.5809805911791687037085198750213045708148 +
                     mx * (Fin 70.6339354619144501276254906239838074917358 +
                     mx * (Fin 141.828580083433059297030133195739832297859 +
                     mx * (Fin 287.448751250132166257642182637978103762677 +
                     mx * (Fin 587.115384649923076181773192202238389711345 +
                     mx * (Fin 1207.06543522548061603657141890778290399603 +
                     mx * (Fin 2495.58872724866422273012188618178997342537 +
                     mx * (Fin 5184.69242939480644062471334944523925163600 +
                     mx * Fin 10817.2133369041327524988910635205356016939)))))))))))))))
             in (elb, eld))
          else if m \<le> Fin 0.7 then
            (let mx = Fin 0.35 - mc;
                 elb = Fin 0.8739200618486431359820482173294324246058 +
                     mx * (Fin 0.1998140574823769459497418213885348159654 +
                     mx * (Fin 0.1727696158780152128147094051876565603862 +
                     mx * (Fin 0.2281069132842021671319791750725846795701 +
                     mx * (Fin 0.3704681411180712197627619157146806221767 +
                     mx * (Fin 0.6792712528848205545443855883980014994450 +
                     mx * (Fin 1.3480084966817573020596179874311042267679 +
                     mx * (Fin 2.8276709768538207038046918250872679902352 +
                     mx * (Fin 6.1794682501239140840906583219887062092430 +
                     mx * (Fin 13.935686010342811497608625663457407447757 +
                     mx * (Fin 32.218929281059722026322932181420383764028 +
                     mx * (Fin 76.006962959226101026399085304912635262362 +
                     mx * (Fin 182.32144908775406957609058046006949657416 +
                     mx * (Fin 443.51507644112648158679360783118806161062 +
                     mx * (Fin 1091.8547229028388292980623647414961662223 +
                     mx * Fin 2715.7658664038195881056269799613407111521))))))))))))));
                 eld = Fin 1.13367833657573316571671258513452768536080 +
                     mx * (Fin 1.04864317372997039116746991765351150490010 +
                     mx * (Fin 1.75346504119846451588826580872136305225406 +
                     mx * (Fin 3.52318272680338551269021618722443199230946 +
                     mx * (Fin 7.74947641381397458240336356601913534598302 +
                     mx * (Fin 17.9864500558507330560532617743406294626849 +
                     mx * (Fin 43.2559163462326133313977294448984936591235 +
                     mx * (Fin 106.681534454096017031613223924991564429656 +
                     mx * (Fin 268.098486573117433951562111736259672695883 +
                     mx * (Fin 683.624114850289804796762005964155730439745 +
                     mx * (Fin 1763.49708521918740723028849567007874329637 +
                     mx * (Fin 4592.37475383116380899419201719007475759114 +
                     mx * (Fin 12053.4410190488892782190764838488156555734 +
                     mx * (Fin 31846.6630207420816960681624497373078887317 +
                     mx * (Fin 84621.2213590568080177035346867495326879117 +
                     mx * (Fin 225956.423182907889987641304430180593010940 +
                     mx * (Fin 605941.517281758859958050194535269219533685 +
                     mx * Fin (1.63108259953926832083633544697688841456604 *
                     10 ^ 6)))))))))))))))))
             in (elb, eld))
          else if m \<le> Fin 0.8 then
            (let mx = Fin 0.25 - mc;
                 elb = Fin 0.895902820924731621258525533131864225704 +
                     mx * (Fin 0.243140003766786661947749288357729051637 +
                     mx * (Fin 0.273081875594105531575351304277604081620 +
                     mx * (Fin 0.486280007533573323895498576715458103274 +
                     mx * (Fin 1.082747437228230914750752674136983406683 +
                     mx * (Fin 2.743445290986452500459431536349945437824 +
                     mx * (Fin 7.555817828670234627048618342026400847824 +
                     mx * (Fin 22.05194082493752427472777448620986154515 +
                     mx * (Fin 67.15640644740229407624192175802742979626 +
                     mx * (Fin 211.2722537881770961691291434845898538537 +
                     mx * (Fin 681.9037843053270682273212958093073895805 +
                     mx * (Fin 2246.956231592536516768812462150619631201 +
                     mx * (Fin 7531.483865999711792004783423815426725079 +
                     mx * (Fin 25608.51260130241579018675054866136922157 +
                     mx * (Fin 88140.74740089604971425934283371277143256 +
                     mx * (Fin 306564.4242098446591430938434419151070722 +
                     mx * (Fin (1.076036077811072193752770590363885180738 * 10 ^ 6) +
                     mx * (Fin (3.807218502573632648224286313875985190526 * 10 ^ 6) +
                     mx * Fin (1.356638224422139551020110323739879481042 *
                     10 ^ 7))))))))))))))))));
                 eld = Fin 1.26061282657491161418014946566845780315983 +
                     mx * (Fin 1.54866563808267658056930177790599939977154 +
                     mx * (Fin 3.55366941187160761540650011660758187283401 +
                     mx * (Fin 9.90044467610439875577300608183010716301714 +
                     mx * (Fin 30.3205666174524719862025105898574414438275 +
                     mx * (Fin 98.1802586588830891484913119780870074464833 +
                     mx * (Fin 329.771010434557055036273670551546757245808 +
                     mx * (Fin 1136.65598974289039303581967838947708073239 +
                     mx * (Fin 3993.83433574622979757935610692842933356144 +
                     mx * (Fin 14242.7295865552708506232731633468180669284 +
                     mx * (Fin 51394.7572916887209594591528374806790960057 +
                     mx * (Fin 187246.702914623152141768788258141932569037 +
                     mx * (Fin 687653.092375389902708761221294282367947659 +
                     mx * (Fin (2.54238553565398227033448846432182516906624 * 10 ^ 6) +
                     mx * (Fin (9.45378121934749027243313241962076028066811 * 10 ^ 6) +
                     mx * (Fin (3.53283630179709170835024033154326126569613 * 10 ^ 7) +
                     mx * (Fin (1.32593262383393014923560730485845833322771 * 10 ^ 8) +
                     mx * (Fin (4.99544968184054821463279808395426941549833 * 10 ^ 8) +
                     mx * (Fin (1.88840934729443872364972817525484292678543 * 10 ^ 9) +
                     mx * (Fin (7.16026753447893719179055010636502508063102 * 10 ^ 9) +
                     mx * Fin (2.72233079469633962247554894093591262281929 *
                     10 ^ 10))))))))))))))))))))
             in (elb, eld))
          else if m \<le> Fin 0.85 then
            (let mx = Fin 0.175 - mc;
                 elb = Fin 0.915922052601931494319853880201442948834592 +
                     mx * (Fin 0.294714252429483394379515488141632749820347 +
                     mx * (Fin 0.435776709264636140422971598963772380161131 +
                     mx * (Fin 1.067328246493644238508159085364429570207744 +
                     mx * (Fin 3.327844118563268085074646976514979307993733 +
                     mx * (Fin 11.90406004445092906188837729711173326621810 +
                     mx * (Fin 46.47838820224626393512400481776284680677096 +
                     mx * (Fin 192.7556002578809476962739389101964074608802 +
                     mx * (Fin 835.3356299261900063712302517586717381557137 +
                     mx * (Fin 3743.124548343029102644419963712353854902019 +
                     mx * (Fin 17219.07731004063094108708549153310467326395 +
                     mx * (Fin 80904.60401669850158353080543152212152282878 +
                     mx * (Fin 386808.3292751742460123683674607895217760313 +
                     mx * (Fin (1.876487670110449342170327796786290400635732 * 10 ^ 6) +
                     mx * Fin (9.216559908641567755240142886998737950775910 *
                     10 ^ 6))))))))))))));
                 eld = Fin 1.402200569110579095046054435635136986038164 +
                     mx * (Fin 2.322205897861749446534352741005347103992773 +
                     mx * (Fin 7.462158366466719682730245467372788273333992 +
                     mx * (Fin 29.43506890797307903104978364254987042421285 +
                     mx * (Fin 128.1590924337895775262509354898066132182429 +
                     mx * (Fin 591.0807036911982326384997979640812493154316 +
                     mx * (Fin 2830.546229607726377048576057043685514661188 +
                     mx * (Fin 13917.76431889392229954434840686741305556862 +
                     mx * (Fin 69786.10525163921228258055074102587429394212 +
                     mx * (Fin 355234.1420341879634781808899208309503519936 +
                     mx * (Fin (1.830019186413931053503912913904321703777885 * 10 ^ 6) +
                     mx * (Fin (9.519610812032515607466102200648641326190483 * 10 ^ 6) +
                     mx * (Fin (4.992086875574849453986274042758566713803723 * 10 ^ 7) +
                     mx * (Fin (2.635677009826023473846461512029006874800883 * 10 ^ 8) +
                     mx * (Fin (1.399645765120061118824228996253541612110338 * 10 ^ 9) +
                     mx * (Fin (7.469935792837635004663183580452618726280406 * 10 ^ 9) +
                     mx * (Fin (4.004155595835610574316003488168804738481448 * 10 ^ 10) +
                     mx * Fin (2.154630668144966654449602981243932210695662 *
                     10 ^ 11)))))))))))))))))
             in (elb, eld))
          else
            (let mx = Fin 0.125 - mc;
                 elb = Fin 0.931906061029524827613331428871579482766771 +
                     mx * (Fin 0.348448029538453860999386797137074571589376 +
                     mx * (Fin 0.666809178846938247558793864839434184202736 +
                     mx * (Fin 2.210769135708128662563678717558631573758222 +
                     mx * (Fin 9.491765048913406881414290930355300611703187 +
                     mx * (Fin 47.09304791027740853381457907791343619298913 +
                     mx * (Fin 255.9200460211233087050940506395442544885608 +
                     mx * (Fin 1480.029532675805407554800779436693505109703 +
                     mx * (Fin 8954.040904734313578374783155553041065984547 +
                     mx * (Fin 56052.48220982686949967604699243627330816542 +
                     mx * (Fin 360395.7241626000916973524840479780937869149 +
                     mx * (Fin (2.367539415273216077520928806581689330885103 * 10 ^ 6) +
                     mx * (Fin (1.582994957277684102454906900025484391190264 * 10 ^ 7) +
                     mx * (Fin (1.074158093278511100137056972128875270067228 * 10 ^ 8) +
                     mx * (Fin (7.380585460239595691878086073095523043390649 * 10 ^ 8) +
                     mx * (Fin (5.126022002555101496684687154904781856830296 * 10 ^ 9) +
                     mx * (Fin (3.593534065502416588712409180013118409428367 * 10 ^ 10) +
                     mx * (Fin (2.539881257612812212004146637239987308133582 * 10 ^ 11) +
                     mx * Fin (1.808180007145359569674767150594344316702507 *
                     10 ^ 12))))))))))))))))));
                 eld = Fin 1.541690112721819084362258323861459983048179 +
                     mx * (Fin 3.379176214579645449453938918349243359477706 +
                     mx * (Fin 14.94058385670236671625328259137998668324435 +
                     mx * (Fin 81.91773929235074880784578753539752529822986 +
                     mx * (Fin 497.4900546551479866036061853049402721939835 +
                     mx * (Fin 3205.184010234846235275447901572262470252768 +
                     mx * (Fin 21457.32237355321925571253220641357074594515 +
                     mx * (Fin 147557.0156564174712105689758692929775004292 +
                     mx * (Fin (1.035045290185256525452269053775273002725343 * 10 ^ 6) +
                     mx * (Fin (7.371922334832212125197513363695905834126154 * 10 ^ 6) +
                     mx * (Fin (5.314344395142401141792228169170505958906345 * 10 ^ 7) +
                     mx * (Fin (3.868823475795976312985118115567305767603128 * 10 ^ 8) +
                     mx * (Fin (2.839458401528033778425531336599562337200510 * 10 ^ 9) +
                     mx * (Fin (2.098266122943898941547136470383199468548861 * 10 ^ 10) +
                     mx * (Fin (1.559617754017662417944194874282275405676282 * 10 ^ 11) +
                     mx * (Fin (1.165096220419884791236699872205721392201682 * 10 ^ 12) +
                     mx * (Fin (8.742012983013913804987431275193291316808766 * 10 ^ 12) +
                     mx * (Fin (6.584725462672366918676967847406180155459650 * 10 ^ 13) +
                     mx * (Fin (4.976798737062434393396993620379481464465749 * 10 ^ 14) +
                     mx * (Fin (3.773018634056605404718444239040628892506293 * 10 ^ 15) +
                     mx * Fin (2.868263194837819660109735981973458220407767 *
                     10 ^ 16))))))))))))))))))))
             in (elb, eld))))"

section \<open>Maclaurin series of the incomplete integrals\<close>

definition FukushimaEllipticBsDsMaclaurinSeries :: "double \<Rightarrow> double \<Rightarrow> double \<times> double" where
  "FukushimaEllipticBsDsMaclaurinSeries y m =
    (let F10 = Fin 1 / Fin 6;
         F20 = Fin 3 / Fin 40;
         F21 = Fin 2 / Fin 40;
         F30 = Fin 5 / Fin 112;
         F31 = Fin 3 / Fin 112;
         F40 = Fin 35 / Fin 1152;
         F41 = Fin 20 / Fin 1152;
         F42 = Fin 18 / Fin 1152;
         F50 = Fin 63 / Fin 2816;
         F51 = Fin 35 / Fin 2816;
         F52 = Fin 30 / Fin 2816;
         F60 = Fin 231 / Fin 13312;
         F61 = Fin 126 / Fin 13312;
         F62 = Fin 105 / Fin 13312;
         F63 = Fin 100 / Fin 13312;
         F70 = Fin 429 / Fin 30720;
         F71 = Fin 231 / Fin 30720;
         F72 = Fin 189 / Fin 30720;
         F73 = Fin 175 / Fin 30720;
         F80 = Fin 6435 / Fin 557056;
         F81 = Fin 3432 / Fin 557056;
         F82 = Fin 2722 / Fin 557056;
         F83 = Fin 2520 / Fin 557056;
         F84 = Fin 2450 / Fin 557056;
         F90 = Fin 12155 / Fin 1245184;
         F91 = Fin 6435 / Fin 1245184;
         F92 = Fin 5148 / Fin 1245184;
         F93 = Fin 4620 / Fin 1245184;
         F94 = Fin 4410 / Fin 1245184;
         FA0 = Fin 46189 / Fin 5505024;
         FA1 = Fin 24310 / Fin 5505024;
         FA2 = Fin 19305 / Fin 5505024;
         FA3 = Fin 17160 / Fin 5505024;
         FA4 = Fin 16170 / Fin 5505024;
         FA5 = Fin 15876 / Fin 5505024;
         FB0 = Fin 88179 / Fin 12058624;
         FB1 = Fin 46189 / Fin 12058624;
         FB2 = Fin 36465 / Fin 12058624;
         FB3 = Fin 32175 / Fin 12058624;
         FB4 = Fin 30030 / Fin 12058624;
         FB5 = Fin 29106 / Fin 12058624;
         A1 = Fin 3 / Fin 5;
         A2 = Fin 5 / Fin 7;
         A3 = Fin 7 / Fin 9;
         A4 = Fin 9 / Fin 11;
         A5 = Fin 11 / Fin 13;
         A6 = Fin 13 / Fin 15;
         A7 = Fin 15 / Fin 17;
         A8 = Fin 17 / Fin 19;
         A9 = Fin 19 / Fin 21;
         AA = Fin 21 / Fin 23;
         AB = Fin 23 / Fin 25;
         D0 = Fin 1 / Fin 3;
         F1 = F10 + m * F10;
         F2 = F20 + m * (F21 + m * F20);
         F3 = F30 + m * (F31 + m * (F31 + m * F30));
         F4 = F40 + m * (F41 + m * (F42 + m * (F41 + m * F40)));
         F5 = F50 + m * (F51 + m * (F52 + m * (F52 + m * (F51 + m * F50))));
         F6 = F60 + m * (F61 + m * (F62 + m * (F63 + m * (F62 + m * (F61 + m * F60)))));
         F7 = F70 + m * (F71 + m * (F72 + m * (F73 + m * (F73 + m * (F72 + m * (F71 +
             m * F70))))));
         F8 = F80 + m * (F81 + m * (F82 + m * (F83 + m * (F84 + m * (F83 + m * (F82 + m * (F81 +
             m * F80)))))));
         F9 = F90 + m * (F91 + m * (F92 + m * (F93 + m * (F94 + m * (F94 + m * (F93 + m * (F92 +
             m * (F91 + m * F90))))))));
         FA = FA0 + m * (FA1 + m * (FA2 + m * (FA3 + m * (FA4 + m * (FA5 + m * (FA4 + m * (FA3 +
             m * (FA2 + m * (FA1 + m * FA0)))))))));
         FB = FB0 + m * (FB1 + m * (FB2 + m * (FB3 + m * (FB4 + m * (FB5 + m * (FB5 + m * (FB4 +
             m * (FB3 + m * (FB2 + m * (FB1 + m * FB0))))))))));
         D1 = F1 * A1;
         D2 = F2 * A2;
         D3 = F3 * A3;
         D4 = F4 * A4;
         D5 = F5 * A5;
         D6 = F6 * A6;
         D7 = F7 * A7;
         D8 = F8 * A8;
         D9 = F9 * A9;
         DA = FA * AA;
         DB = FB * AB;
         d = D0 + y * (D1 + y * (D2 + y * (D3 + y * (D4 + y * (D5 + y * (D6 + y * (D7 + y * (D8 +
             y * (D9 + y * (DA + y * DB))))))))));
         B1 = F1 - D0;
         B2 = F2 - D1;
         B3 = F3 - D2;
         B4 = F4 - D3;
         B5 = F5 - D4;
         B6 = F6 - D5;
         B7 = F7 - D6;
         B8 = F8 - D7;
         B9 = F9 - D8;
         BA = FA - D9;
         BB = FB - DA;
         b = Fin 1 + y * (B1 + y * (B2 + y * (B3 + y * (B4 + y * (B5 + y * (B6 + y * (B7 + y * (B8 +
             y * (B9 + y * (BA + y * BB))))))))))
     in (b, d))"

definition FukushimaEllipticJsMaclaurinSeries :: "double \<Rightarrow> double \<Rightarrow> double \<Rightarrow> double" where
  "FukushimaEllipticJsMaclaurinSeries y n m =
    (let J100 = Fin 1 / Fin 3;
         J200 = Fin 1 / Fin 10;
         J201 = Fin 2 / Fin 10;
         J210 = Fin 1 / Fin 10;
         J300 = Fin 3 / Fin 56;
         J301 = Fin 4 / Fin 56;
         J302 = Fin 8 / Fin 56;
         J310 = Fin 2 / Fin 56;
         J311 = Fin 4 / Fin 56;
         J320 = Fin 3 / Fin 56;
         J400 = Fin 5 / Fin 144;
         J401 = Fin 6 / Fin 144;
         J402 = Fin 8 / Fin 144;
         J403 = Fin 16 / Fin 144;
         J410 = Fin 3 / Fin 144;
         J411 = Fin 4 / Fin 144;
         J412 = Fin 8 / Fin 144;
         J420 = Fin 3 / Fin 144;
         J421 = Fin 6 / Fin 144;
         J430 = Fin 5 / Fin 144;
         J500 = Fin 35 / Fin 1408;
         J501 = Fin 40 / Fin 1408;
         J502 = Fin 48 / Fin 1408;
         J503 = Fin 64 / Fin 1408;
         J504 = Fin 128 / Fin 1408;
         J510 = Fin 20 / Fin 1408;
         J511 = Fin 24 / Fin 1408;
         J512 = Fin 32 / Fin 1408;
         J513 = Fin 64 / Fin 1408;
         J520 = Fin 18 / Fin 1408;
         J521 = Fin 24 / Fin 1408;
         J522 = Fin 48 / Fin 1408;
         J530 = Fin 20 / Fin 1408;
         J531 = Fin 40 / Fin 1408;
         J540 = Fin 35 / Fin 1408;
         J600 = Fin 63 / Fin 3328;
         J601 = Fin 70 / Fin 3328;
         J602 = Fin 80 / Fin 3328;
         J603 = Fin 96 / Fin 3328;
         J604 = Fin 128 / Fin 3328;
         J605 = Fin 256 / Fin 3328;
         J610 = Fin 35 / Fin 3328;
         J611 = Fin 40 / Fin 3328;
         J612 = Fin 48 / Fin 3328;
         J613 = Fin 64 / Fin 3328;
         J614 = Fin 128 / Fin 3328;
         J620 = Fin 30 / Fin 3328;
         J621 = Fin 36 / Fin 3328;
         J622 = Fin 48 / Fin 3328;
         J623 = Fin 96 / Fin 3328;
         J630 = Fin 30 / Fin 3328;
         J631 = Fin 40 / Fin 3328;
         J632 = Fin 80 / Fin 3328;
         J640 = Fin 35 / Fin 3328;
         J641 = Fin 70 / Fin 3328;
         J650 = Fin 63 / Fin 3328;
         J700 = Fin 231 / Fin 15360;
         J701 = Fin 252 / Fin 15360;
         J702 = Fin 280 / Fin 15360;
         J703 = Fin 320 / Fin 15360;
         J704 = Fin 384 / Fin 15360;
         J705 = Fin 512 / Fin 15360;
         J706 = Fin 1024 / Fin 15360;
         J710 = Fin 126 / Fin 15360;
         J711 = Fin 140 / Fin 15360;
         J712 = Fin 160 / Fin 15360;
         J713 = Fin 192 / Fin 15360;
         J714 = Fin 256 / Fin 15360;
         J715 = Fin 512 / Fin 15360;
         J720 = Fin 105 / Fin 15360;
         J721 = Fin 120 / Fin 15360;
         J722 = Fin 144 / Fin 15360;
         J723 = Fin 192 / Fin 15360;
         J724 = Fin 384 / Fin 15360;
         J730 = Fin 100 / Fin 15360;
         J731 = Fin 120 / Fin 15360;
         J732 = Fin 160 / Fin 15360;
         J733 = Fin 320 / Fin 15360;
         J740 = Fin 105 / Fin 15360;
         J741 = Fin 140 / Fin 15360;
         J742 = Fin 280 / Fin 15360;
         J750 = Fin 126 / Fin 15360;
         J751 = Fin 252 / Fin 15360;
         J760 = Fin 231 / Fin 15360;
         J800 = Fin 429 / Fin 34816;
         J801 = Fin 462 / Fin 34816;
         J802 = Fin 504 / Fin 34816;
         J803 = Fin 560 / Fin 34816;
         J804 = Fin 640 / Fin 34816;
         J805 = Fin 768 / Fin 34816;
         J806 = Fin 1024 / Fin 34816;
         J807 = Fin 2048 / Fin 34816;
         J810 = Fin 231 / Fin 34816;
         J811 = Fin 252 / Fin 34816;
         J812 = Fin 280 / Fin 34816;
         J813 = Fin 320 / Fin 34816;
         J814 = Fin 384 / Fin 34816;
         J815 = Fin 512 / Fin 34816;
         J816 = Fin 1024 / Fin 34816;
         J820 = Fin 189 / Fin 34816;
         J821 = Fin 210 / Fin 34816;
         J822 = Fin 240 / Fin 34816;
         J823 = Fin 288 / Fin 34816;
         J824 = Fin 284 / Fin 34816;
         J825 = Fin 768 / Fin 34816;
         J830 = Fin 175 / Fin 34816;
         J831 = Fin 200 / Fin 34816;
         J832 = Fin 240 / Fin 34816;
         J833 = Fin 320 / Fin 34816;
         J834 = Fin 640 / Fin 34816;
         J840 = Fin 175 / Fin 34816;
         J841 = Fin 210 / Fin 34816;
         J842 = Fin 280 / Fin 34816;
         J843 = Fin 560 / Fin 34816;
         J850 = Fin 189 / Fin 34816;
         J851 = Fin 252 / Fin 34816;
         J852 = Fin 504 / Fin 34816;
         J860 = Fin 231 / Fin 34816;
         J861 = Fin 462 / Fin 34816;
         J870 = Fin 429 / Fin 34816;
         J900 = Fin 6435 / Fin 622592;
         J901 = Fin 6864 / Fin 622592;
         J902 = Fin 7392 / Fin 622592;
         J903 = Fin 8064 / Fin 622592;
         J904 = Fin 8960 / Fin 622592;
         J905 = Fin 10240 / Fin 622592;
         J906 = Fin 12288 / Fin 622592;
         J907 = Fin 16384 / Fin 622592;
         J908 = Fin 32768 / Fin 622592;
         J910 = Fin 3432 / Fin 622592;
         J911 = Fin 3696 / Fin 622592;
         J912 = Fin 4032 / Fin 622592;
         J913 = Fin 4480 / Fin 622592;
         J914 = Fin 5120 / Fin 622592;
         J915 = Fin 6144 / Fin 622592;
         J916 = Fin 8192 / Fin 622592;
         J917 = Fin 16384 / Fin 622592;
         J920 = Fin 2772 / Fin 622592;
         J921 = Fin 3024 / Fin 622592;
         J922 = Fin 3360 / Fin 622592;
         J923 = Fin 3840 / Fin 622592;
         J924 = Fin 4608 / Fin 622592;
         J925 = Fin 6144 / Fin 622592;
         J926 = Fin 12288 / Fin 622592;
         J930 = Fin 2520 / Fin 622592;
         J931 = Fin 2800 / Fin 622592;
         J932 = Fin 3200 / Fin 622592;
         J933 = Fin 3840 / Fin 622592;
         J934 = Fin 5120 / Fin 622592;
         J935 = Fin 10240 / Fin 622592;
         J940 = Fin 2450 / Fin 622592;
         J941 = Fin 2800 / Fin 622592;
         J942 = Fin 3360 / Fin 622592;
         J943 = Fin 4480 / Fin 622592;
         J944 = Fin 8960 / Fin 622592;
         J950 = Fin 2520 / Fin 622592;
         J951 = Fin 3024 / Fin 622592;
         J952 = Fin 4032 / Fin 622592;
         J953 = Fin 8064 / Fin 622592;
         J960 = Fin 2772 / Fin 622592;
         J961 = Fin 3696 / Fin 622592;
         J962 = Fin 7392 / Fin 622592;
         J970 = Fin 3432 / Fin 622592;
         J971 = Fin 6864 / Fin 622592;
         J980 = Fin 6435 / Fin 622592;
         JA00 = Fin 12155 / Fin 1376256;
         JA01 = Fin 12870 / Fin 1376256;
         JA02 = Fin 13728 / Fin 1376256;
         JA03 = Fin 14784 / Fin 1376256;
         JA04 = Fin 16128 / Fin 1376256;
         JA05 = Fin 17920 / Fin 1376256;
         JA06 = Fin 20480 / Fin 1376256;
         JA07 = Fin 24576 / Fin 1376256;
         JA08 = Fin 32768 / Fin 1376256;
         JA09 = Fin 65536 / Fin 1376256;
         JA10 = Fin 6435 / Fin 1376256;
         JA11 = Fin 6864 / Fin 1376256;
         JA12 = Fin 7392 / Fin 1376256;
         JA13 = Fin 8064 / Fin 1376256;
         JA14 = Fin 8960 / Fin 1376256;
         JA15 = Fin 10240 / Fin 1376256;
         JA16 = Fin 12288 / Fin 1376256;
         JA17 = Fin 16384 / Fin 1376256;
         JA18 = Fin 32768 / Fin 1376256;
         JA20 = Fin 5148 / Fin 1376256;
         JA21 = Fin 5544 / Fin 1376256;
         JA22 = Fin 6048 / Fin 1376256;
         JA23 = Fin 6720 / Fin 1376256;
         JA24 = Fin 7680 / Fin 1376256;
         JA25 = Fin 9216 / Fin 1376256;
         JA26 = Fin 12288 / Fin 1376256;
         JA27 = Fin 24576 / Fin 1376256;
         JA30 = Fin 4620 / Fin 1376256;
         JA31 = Fin 5040 / Fin 1376256;
         JA32 = Fin 5600 / Fin 1376256;
         JA33 = Fin 6400 / Fin 1376256;
         JA34 = Fin 7680 / Fin 1376256;
         JA35 = Fin 10240 / Fin 1376256;
         JA36 = Fin 20480 / Fin 1376256;
         JA40 = Fin 4410 / Fin 1376256;
         JA41 = Fin 4900 / Fin 1376256;
         JA42 = Fin 5600 / Fin 1376256;
         JA43 = Fin 6720 / Fin 1376256;
         JA44 = Fin 8960 / Fin 1376256;
         JA45 = Fin 17920 / Fin 1376256;
         JA50 = Fin 4410 / Fin 1376256;
         JA51 = Fin 5040 / Fin 1376256;
         JA52 = Fin 6048 / Fin 1376256;
         JA53 = Fin 8064 / Fin 1376256;
         JA54 = Fin 16128 / Fin 1376256;
         JA60 = Fin 4620 / Fin 1376256;
         JA61 = Fin 5544 / Fin 1376256;
         JA62 = Fin 7392 / Fin 1376256;
         JA63 = Fin 14784 / Fin 1376256;
         JA70 = Fin 5148 / Fin 1376256;
         JA71 = Fin 6864 / Fin 1376256;
         JA72 = Fin 13728 / Fin 1376256;
         JA80 = Fin 6435 / Fin 1376256;
         JA81 = Fin 12870 / Fin 1376256;
         JA90 = Fin 12155 / Fin 1376256;
         J1 = J100;
         J2 = J200 + n * J201 + m * J210;
         J3 = J300 + n * (J301 + n * J302) + m * (J310 + n * J311 + m * J320);
         J4 = J400 + n * (J401 + n * (J402 + n * J403)) + m * (J410 + n * (J411 + n * J412) +
             m * (J420 + n * J421 + m * J430));
         J5 = J500 + n * (J501 + n * (J502 + n * (J503 + n * J504))) + m * (J510 + n * (J511 +
             n * (J512 + n * J513)) + m * (J520 + n * (J521 + n * J522) + m * (J530 + n * J531 +
             m * J540)))
     in (if y \<le> Fin (6.0369310 / 10 ^ 4) then
            y * (J1 + y * (J2 + y * (J3 + y * (J4 + y * J5))))
          else
            (let J6 = J600 + n * (J601 + n * (J602 + n * (J603 + n * (J604 + n * J605)))) +
                m * (J610 + n * (J611 + n * (J612 + n * (J613 + n * J614))) + m * (J620 +
                n * (J621 + n * (J622 + n * J623)) + m * (J630 + n * (J631 + n * J632) + m * (J640 +
                n * J641 + m * J650))))
             in (if y \<le> Fin (2.0727505 / 10 ^ 3) then
                    y * (J1 + y * (J2 + y * (J3 + y * (J4 + y * (J5 + y * J6)))))
                  else
                    (let J7 = J700 + n * (J701 + n * (J702 + n * (J703 + n * (J704 + n * (J705 +
                        n * J706))))) + m * (J710 + n * (J711 + n * (J712 + n * (J713 + n * (J714 +
                        n * J715)))) + m * (J720 + n * (J721 + n * (J722 + n * (J723 + n * J724))) +
                        m * (J730 + n * (J731 + n * (J732 + n * J733)) + m * (J740 + n * (J741 +
                        n * J742) + m * (J750 + n * J751 + m * J760)))))
                     in (if y \<le> Fin (5.0047026 / 10 ^ 3) then
                            y * (J1 + y * (J2 + y * (J3 + y * (J4 + y * (J5 + y * (J6 +
                                y * J7))))))
                          else
                            (let J8 = J800 + n * (J801 + n * (J802 + n * (J803 + n * (J804 +
                                n * (J805 + n * (J806 + n * J807)))))) + m * (J810 + n * (J811 +
                                n * (J812 + n * (J813 + n * (J814 + n * (J815 + n * J816))))) +
                                m * (J820 + n * (J821 + n * (J822 + n * (J823 + n * (J824 +
                                n * J825)))) + m * (J830 + n * (J831 + n * (J832 + n * (J833 +
                                n * J834))) + m * (J840 + n * (J841 + n * (J842 + n * J843)) +
                                m * (J850 + n * (J851 + n * J852) + m * (J860 + n * J861 +
                                m * J870))))))
                             in (if y \<le> Fin (9.6961652 / 10 ^ 3) then
                                    y * (J1 + y * (J2 + y * (J3 + y * (J4 + y * (J5 + y * (J6 +
                                        y * (J7 + y * J8)))))))
                                  else
                                    (let J9 = J900 + n * (J901 + n * (J902 + n * (J903 + n * (J904 +
                                        n * (J905 + n * (J906 + n * (J907 + n * J908))))))) +
                                        m * (J910 + n * (J911 + n * (J912 + n * (J913 + n * (J914 +
                                        n * (J915 + n * (J916 + n * J917)))))) + m * (J920 +
                                        n * (J921 + n * (J922 + n * (J923 + n * (J924 + n * (J925 +
                                        n * J926))))) + m * (J930 + n * (J931 + n * (J932 +
                                        n * (J933 + n * (J934 + n * J935)))) + m * (J940 +
                                        n * (J941 + n * (J942 + n * (J943 + n * J944))) +
                                        m * (J950 + n * (J951 + n * (J952 + n * J953)) + m * (J960 +
                                        n * (J961 + n * J962) + m * (J970 + n * J971 +
                                        m * J980)))))))
                                     in (if y \<le> Fin (1.6220210 / 10 ^ 2) then
                                            y * (J1 + y * (J2 + y * (J3 + y * (J4 + y * (J5 +
                                                y * (J6 + y * (J7 + y * (J8 + y * J9))))))))
                                          else
                                            (let JA = JA00 + n * (JA01 + n * (JA02 + n * (JA03 +
                                                n * (JA04 + n * (JA05 + n * (JA06 + n * (JA07 +
                                                n * (JA08 + n * JA09)))))))) + m * (JA10 +
                                                n * (JA11 + n * (JA12 + n * (JA13 + n * (JA14 +
                                                n * (JA15 + n * (JA16 + n * (JA17 +
                                                n * JA18))))))) + m * (JA20 + n * (JA21 +
                                                n * (JA22 + n * (JA23 + n * (JA24 + n * (JA25 +
                                                n * (JA26 + n * JA27)))))) + m * (JA30 + n * (JA31 +
                                                n * (JA32 + n * (JA33 + n * (JA34 + n * (JA35 +
                                                n * JA36))))) + m * (JA40 + n * (JA41 + n * (JA42 +
                                                n * (JA43 + n * (JA44 + n * JA45)))) + m * (JA50 +
                                                n * (JA51 + n * (JA52 + n * (JA53 + n * JA54))) +
                                                m * (JA60 + n * (JA61 + n * (JA62 + n * JA63)) +
                                                m * (JA70 + n * (JA71 + n * JA72) + m * (JA80 +
                                                n * JA81 + m * JA90))))))))
                                             in y * (J1 + y * (J2 + y * (J3 + y * (J4 + y * (J5 +
                                                 y * (J6 + y * (J7 + y * (J8 + y * (J9 +
                                                 y * JA))))))))))))))))))))"

section \<open>The incomplete integrals of the second and third kind\<close>

text \<open>
  The ways in which a call can fail to return a value.  \<^verbatim>\<open>DCHECK_LT(i, max_transformations)\<close>
  guards the writes to the arrays \<open>y\<close>, \<open>s\<close> and \<open>cd\<close> of \<open>max_transformations + 1\<close>
  elements: where it fails, the call ends with \<open>LevelBoundExceeded\<close>.  \<open>OutOfFuel\<close> is
  the loop of \<open>BulirschCel\<close> not breaking within its fuel.
\<close>

datatype failure = LevelBoundExceeded | OutOfFuel

definition max_transformations :: nat where
  "max_transformations = 10"

text \<open>
  The arrays are lists of \<open>max_transformations + 1\<close> elements.  C++ leaves their elements
  uninitialised; the model fills them with \<open>NaN\<close>.  An element is written before it is
  read.
\<close>

definition new_array :: "double list" where
  "new_array = replicate (max_transformations + 1) NaN"

text \<open>
  The double argument transformation of \<open>B\<close>, \<open>D\<close>, \<open>J\<close>: the loop
  \<^verbatim>\<open>for (int k = i; k > 0; --k)\<close>, which is the same text in \<open>FukushimaEllipticBcDcJc\<close>
  and \<open>FukushimaEllipticBsDsJs\<close>.
\<close>

fun DoubleArgumentTransformation ::
  "double \<Rightarrow> double \<Rightarrow> double list \<Rightarrow> double list \<Rightarrow> double list \<Rightarrow> nat \<Rightarrow>
   double \<times> double \<times> double \<Rightarrow> double \<times> double \<times> double" where
  "DoubleArgumentTransformation n h y s cd 0 (b, d, j) = (b, d, j)"
| "DoubleArgumentTransformation n h y s cd (Suc k') (b, d, j) =
    (let k = Suc k';
         sy = s ! (k - 1) * y ! k;
         t = sy / (Fin 1 - n * (y ! (k - 1) - y ! k * cd ! (k - 1)));
         b = Fin 2 * b - sy;
         d = d + (d + sy);
         j = j + (j + FukushimaT t h)
     in DoubleArgumentTransformation n h y s cd k' (b, d, j))"

text \<open>
  The half argument transformation of \<open>s\<close>: the first loop of \<open>FukushimaEllipticBsDsJs\<close>.
  It yields the arrays, the last \<open>y\<^sub>i\<close> and the number \<open>i\<close> of transformations.
\<close>

function BsDsJs_half_argument ::
  "double \<Rightarrow> double list \<Rightarrow> double list \<Rightarrow> double list \<Rightarrow> double \<Rightarrow> nat \<Rightarrow>
   failure + (double list \<times> double list \<times> double list \<times> double \<times> nat)" where
  "BsDsJs_half_argument m y s cd y_i i =
    (if Fin 0.01622 \<le> y_i then
       (if \<not> i < max_transformations then Inl LevelBoundExceeded
        else
          (let c_i = dsqrt (Fin 1 - y_i);
               d_i = dsqrt (Fin 1 - m * y_i);
               y_i = y_i / ((Fin 1 + c_i) * (Fin 1 + d_i));
               y = y[i + 1 := y_i];
               s = s[i + 1 := dsqrt y_i];
               cd = cd[i := c_i * d_i]
           in BsDsJs_half_argument m y s cd y_i (i + 1)))
     else Inr (y, s, cd, y_i, i))"
  by pat_completeness auto
termination
  by (relation "measure (\<lambda>(m, y, s, cd, y_i, i). max_transformations - i)") auto

definition FukushimaEllipticBsDsJs ::
  "double \<Rightarrow> double \<Rightarrow> double \<Rightarrow> failure + (double \<times> double \<times> double)" where
  "FukushimaEllipticBsDsJs s0 n mc =
    (let y = new_array;
         s = new_array;
         cd = new_array;
         m = Fin 1 - mc;
         h = n * (Fin 1 - n) * (n - m);
         y0 = s0 * s0;
         y = y[0 := y0];
         s = s[0 := s0]
     in case BsDsJs_half_argument m y s cd y0 0 of
          Inl failure \<Rightarrow> Inl failure
        | Inr (y, s, cd, y_i, i) \<Rightarrow>
            (let (b, d) = FukushimaEllipticBsDsMaclaurinSeries y_i m;
                 b = s ! i * b;
                 d = s ! i * y_i * d;
                 j = s ! i * FukushimaEllipticJsMaclaurinSeries y_i n m
             in Inr (DoubleArgumentTransformation n h y s cd i (b, d, j))))"

text \<open>
  The half argument transformation of \<open>c\<close>: the first loop of \<open>FukushimaEllipticBcDcJc\<close>.
\<close>

function BcDcJc_half_argument ::
  "double \<Rightarrow> double \<Rightarrow> double list \<Rightarrow> double list \<Rightarrow> double list \<Rightarrow> double \<Rightarrow> double \<Rightarrow> nat \<Rightarrow>
   failure + (double list \<times> double list \<times> double list \<times> nat)" where
  "BcDcJc_half_argument mc m y s cd c_i x_i i =
    (if x_i \<le> Fin 0.1 then
       (if \<not> i < max_transformations then Inl LevelBoundExceeded
        else
          (let d_i = dsqrt (mc + m * x_i);
               x_i = (c_i + d_i) / (Fin 1 + d_i);
               y_i = Fin 1 - x_i;
               y = y[i + 1 := y_i];
               s = s[i + 1 := dsqrt y_i];
               cd = cd[i := c_i * d_i];
               c_i = dsqrt x_i
           in BcDcJc_half_argument mc m y s cd c_i x_i (i + 1)))
     else Inr (y, s, cd, i))"
  by pat_completeness auto
termination
  by (relation "measure (\<lambda>(mc, m, y, s, cd, c_i, x_i, i). max_transformations - i)") auto

definition FukushimaEllipticBcDcJc ::
  "double \<Rightarrow> double \<Rightarrow> double \<Rightarrow> failure + (double \<times> double \<times> double)" where
  "FukushimaEllipticBcDcJc c0 n mc =
    (let y = new_array;
         s = new_array;
         cd = new_array;
         m = Fin 1 - mc;
         h = n * (Fin 1 - n) * (n - m);
         x0 = c0 * c0;
         y0 = Fin 1 - x0;
         y = y[0 := y0];
         s = s[0 := dsqrt y0]
     in case BcDcJc_half_argument mc m y s cd c0 x0 0 of
          Inl failure \<Rightarrow> Inl failure
        | Inr (y, s, cd, i) \<Rightarrow>
            (case FukushimaEllipticBsDsJs (s ! i) n mc of
               Inl failure \<Rightarrow> Inl failure
             | Inr (b, d, j) \<Rightarrow> Inr (DoubleArgumentTransformation n h y s cd i (b, d, j))))"

text \<open>
  The complete integrals of the second and third kind, the overload of
  \<^verbatim>\<open>FukushimaEllipticBDJ\<close> with the arguments \<open>nc\<close> and \<open>mc\<close>.  It hands on the fuel
  and the log of \<open>BulirschCel\<close>.
\<close>

definition FukushimaEllipticBDJ_complete ::
  "nat \<Rightarrow> double \<Rightarrow> double \<Rightarrow> failure + ((double \<times> double \<times> double) \<times> log_entry list)" where
  "FukushimaEllipticBDJ_complete fuel nc mc =
    (let (bc, dc) = FukushimaEllipticBD mc;
         kc = dsqrt mc
     in case BulirschCel fuel kc nc (Fin 0) (Fin 1) of
          None \<Rightarrow> Inl OutOfFuel
        | Some (jc, logged) \<Rightarrow> Inr ((bc, dc, jc), logged))"

text \<open>
  The incomplete integrals, the overload of \<^verbatim>\<open>FukushimaEllipticBDJ\<close> with the
  arguments \<open>\<phi>\<close>, \<open>n\<close> and \<open>mc\<close>; the angle is a double, in radians.
\<close>

definition FukushimaEllipticBDJ ::
  "nat \<Rightarrow> double \<Rightarrow> double \<Rightarrow> double \<Rightarrow>
   failure + ((double \<times> double \<times> double) \<times> log_entry list)" where
  "FukushimaEllipticBDJ fuel \<phi> n mc =
    (let \<phi>s = Fin 1.249;
         ys = Fin 0.9
     in if \<phi> < \<phi>s then
          (case FukushimaEllipticBsDsJs (dsin \<phi>) n mc of
             Inl failure \<Rightarrow> Inl failure
           | Inr (b, d, j) \<Rightarrow> Inr ((b, d, j), []))
        else
          (let m = Fin 1 - mc;
               nc = Fin 1 - n;
               h = n * nc * (n - m);
               c = dcos \<phi>;
               c2 = c * c;
               z2_denominator = mc + m * c2
           in if c2 < ys * z2_denominator then
                (let z = c / dsqrt z2_denominator
                 in case FukushimaEllipticBsDsJs z n mc of
                      Inl failure \<Rightarrow> Inl failure
                    | Inr (b, d, j) \<Rightarrow>
                        (case FukushimaEllipticBDJ_complete fuel nc mc of
                           Inl failure \<Rightarrow> Inl failure
                         | Inr ((bc, dc, jc), logged) \<Rightarrow>
                             (let sz = z * dsqrt (Fin 1 - c2);
                                  t = sz / nc;
                                  b = bc - (b - sz);
                                  d = dc - (d + sz);
                                  j = jc - (j + FukushimaT t h)
                              in Inr ((b, d, j), logged))))
              else
                (let w2_numerator = mc * (Fin 1 - c2)
                 in if w2_numerator < c2 * z2_denominator then
                      (case FukushimaEllipticBcDcJc c n mc of
                         Inl failure \<Rightarrow> Inl failure
                       | Inr (b, d, j) \<Rightarrow> Inr ((b, d, j), []))
                    else
                      (let w2_denominator = z2_denominator;
                           w2_over_mc = (Fin 1 - c2) / w2_denominator
                       in case FukushimaEllipticBcDcJc (dsqrt (mc * w2_over_mc)) n mc of
                            Inl failure \<Rightarrow> Inl failure
                          | Inr (b, d, j) \<Rightarrow>
                              (case FukushimaEllipticBDJ_complete fuel nc mc of
                                 Inl failure \<Rightarrow> Inl failure
                               | Inr ((bc, dc, jc), logged) \<Rightarrow>
                                   (let sz = c * dsqrt w2_over_mc;
                                        t = sz / nc;
                                        b = bc - (b - sz);
                                        d = dc - (d + sz);
                                        j = jc - (j + FukushimaT t h)
                                    in Inr ((b, d, j), logged)))))))"

text \<open>
  \<open>BsDsJs_loop_exits k Y\<close>: started with \<open>0 \<le> y\<^sub>i \<le> Y\<close>, a parameter \<open>m\<close> in
  \<open>[0, 1]\<close> and at most \<open>max_transformations - k\<close> transformations done, the half argument
  loop of \<open>FukushimaEllipticBsDsJs\<close> reaches its end without exceeding the level bound.
\<close>

definition BsDsJs_loop_exits :: "nat \<Rightarrow> real \<Rightarrow> bool" where
  "BsDsJs_loop_exits k Y =
    (\<forall>m y s cd t i. 0 \<le> m \<longrightarrow> m \<le> 1 \<longrightarrow> 0 \<le> t \<longrightarrow> t \<le> Y \<longrightarrow> i + k \<le> max_transformations \<longrightarrow>
       (\<exists>r. BsDsJs_half_argument (Fin m) y s cd (Fin t) i = Inr r))"

text \<open>
  \<open>BcDcJc_loop_exits k L\<close>: started with \<open>c\<^sub>i \<ge> 0\<close>, \<open>L \<le> x\<^sub>i = c\<^sub>i\<^sup>2 \<le> 1\<close>, \<open>mc\<close> in
  \<open>[0, 1]\<close>, \<open>s[i] = sqrt (1 - x\<^sub>i)\<close> and at most \<open>max_transformations - k\<close> transformations
  done, the half argument loop of \<open>FukushimaEllipticBcDcJc\<close> reaches its end without
  exceeding the level bound, and leaves in \<open>s[i]\<close> a finite \<open>\<sigma> \<ge> 0\<close> with
  \<open>\<sigma>\<^sup>2 \<le> 0.9\<close>.
\<close>

definition BcDcJc_loop_exits :: "nat \<Rightarrow> real \<Rightarrow> bool" where
  "BcDcJc_loop_exits k L =
    (\<forall>mc y s cd c x i. 0 \<le> mc \<longrightarrow> mc \<le> 1 \<longrightarrow> 0 \<le> c \<longrightarrow> x = c * c \<longrightarrow> x \<le> 1 \<longrightarrow> L \<le> x \<longrightarrow>
       i + k \<le> max_transformations \<longrightarrow> length s = max_transformations + 1 \<longrightarrow>
       s ! i = Fin (sqrt (1 - x)) \<longrightarrow>
       (\<exists>y' s' cd' i' \<sigma>.
          BcDcJc_half_argument (Fin mc) (Fin (1 - mc)) y s cd (Fin c) (Fin x) i =
            Inr (y', s', cd', i') \<and>
          s' ! i' = Fin \<sigma> \<and> 0 \<le> \<sigma> \<and> \<sigma> * \<sigma> \<le> 0.9))"

text \<open>
  The double nearest to \<open>\<pi>/2\<close>, the value that \<^verbatim>\<open>\<pi> / 2\<close> has in the code.  It lies
  below \<open>\<pi>/2\<close>, and its cosine is about \<open>6.1e-17\<close>, not zero.
\<close>

definition double_pi_2 :: real where
  "double_pi_2 = 884279719003555 / 2 ^ 49"

text \<open>
  \<open>dbounded x K\<close>: the double \<open>x\<close> is finite and of magnitude at most \<open>K\<close>.
\<close>

definition dbounded :: "double \<Rightarrow> real \<Rightarrow> bool" where
  "dbounded x K = (\<exists>r. x = Fin r \<and> \<bar>r\<bar> \<le> K)"

section \<open>The Jacobi elliptic functions\<close>

text \<open>
  \<^verbatim>\<open>elliptic_functions.cpp\<close> holds Fukushima's routines half way between Fortran and
  C++.  The routine \<open>elk\<close> keeps the variables named in its \<^verbatim>\<open>save\<close> statement from
  one call to the next: \<open>first\<close>, \<open>mcold\<close>, \<open>PIHALF\<close>, \<open>PIINV\<close>, \<open>elkold\<close>, \<open>TINY\<close>,
  in this order.  A call takes them and returns them updated.  Before the first call
  \<open>first\<close> is true and the others hold no value yet.  The unary minus of Fortran
  applies to the whole product that follows it.
\<close>

type_synonym elk_saved = "bool \<times> double \<times> double \<times> double \<times> double \<times> double"

text \<open>
  The branches of \<open>elk\<close> that follow the two tests on \<open>|m|\<close> and on the saved
  argument: the closed forms near \<open>mc = 0\<close>, the nome series and the polynomials.  They
  read \<open>PIINV\<close> and \<open>TINY\<close> among the saved variables.
\<close>

definition elk_branches :: "double \<Rightarrow> double \<Rightarrow> double \<Rightarrow> double \<Rightarrow> double" where
  "elk_branches mc m PIINV TINY =
    (let D1 = Fin 1 / Fin 16;
         D2 = Fin 1 / Fin 32;
         D3 = Fin 21 / Fin 1024;
         D4 = Fin 31 / Fin 2048;
         D5 = Fin 6257 / Fin 524288;
         D6 = Fin 10293 / Fin 1048576;
         D7 = Fin 279025 / Fin 33554432;
         D8 = Fin 483127 / Fin 67108864;
         D9 = Fin 435506703 / Fin 68719476736;
         D10 = Fin 776957575 / Fin 137438953472;
         D11 = Fin 22417045555 / Fin 4398046511104;
         D12 = Fin 40784671953 / Fin 8796093022208;
         D13 = Fin 9569130097211 / Fin 2251799813685248;
         D14 = Fin 17652604545791 / Fin 4503599627370496
     in (if mc < TINY then
           (let elk = Fin 1.3862943611198906 - Fin 0.5 * dlog TINY
            in elk)
         else if mc < Fin (1.11 / 10 ^ 16) then
           (let elk = Fin 1.3862943611198906 - Fin 0.5 * dlog mc
            in elk)
         else if mc < Fin 0.1 then
           (let nome = mc * (D1 + mc * (D2 + mc * (D3 + mc * (D4 + mc * (D5 + mc * (D6 + mc * (D7 +
               mc * (D8 + mc * (D9 + mc * (D10 + mc * (D11 + mc * (D12 + mc * (D13 +
               mc * D14)))))))))))));
                mx = mc - Fin 0.05;
                kkc = Fin 1.591003453790792180 + mx * (Fin 0.416000743991786912 +
                    mx * (Fin 0.245791514264103415 + mx * (Fin 0.179481482914906162 +
                    mx * (Fin 0.144556057087555150 + mx * (Fin 0.123200993312427711 +
                    mx * (Fin 0.108938811574293531 + mx * (Fin 0.098853409871592910 +
                    mx * (Fin 0.091439629201749751 + mx * (Fin 0.085842591595413900 +
                    mx * Fin 0.081541118718303215)))))))));
                elk = - (kkc * PIINV * dlog nome)
            in elk)
         else if m \<le> Fin 0.1 then
           (let mx = m - Fin 0.05;
                elk = Fin 1.591003453790792180 + mx * (Fin 0.416000743991786912 +
                    mx * (Fin 0.245791514264103415 + mx * (Fin 0.179481482914906162 +
                    mx * (Fin 0.144556057087555150 + mx * (Fin 0.123200993312427711 +
                    mx * (Fin 0.108938811574293531 + mx * (Fin 0.098853409871592910 +
                    mx * (Fin 0.091439629201749751 + mx * (Fin 0.085842591595413900 +
                    mx * Fin 0.081541118718303215)))))))))
            in elk)
         else if m \<le> Fin 0.2 then
           (let mx = m - Fin 0.15;
                elk = Fin 1.635256732264579992 + mx * (Fin 0.471190626148732291 +
                    mx * (Fin 0.309728410831499587 + mx * (Fin 0.252208311773135699 +
                    mx * (Fin 0.226725623219684650 + mx * (Fin 0.215774446729585976 +
                    mx * (Fin 0.213108771877348910 + mx * (Fin 0.216029124605188282 +
                    mx * (Fin 0.223255831633057896 + mx * (Fin 0.234180501294209925 +
                    mx * (Fin 0.248557682972264071 + mx * (Fin 0.266363809892617521 +
                    mx * Fin 0.287728452156114668)))))))))))
            in elk)
         else if m \<le> Fin 0.3 then
           (let mx = m - Fin 0.25;
                elk = Fin 1.685750354812596043 + mx * (Fin 0.541731848613280329 +
                    mx * (Fin 0.401524438390690257 + mx * (Fin 0.369642473420889090 +
                    mx * (Fin 0.376060715354583645 + mx * (Fin 0.405235887085125919 +
                    mx * (Fin 0.453294381753999079 + mx * (Fin 0.520518947651184205 +
                    mx * (Fin 0.609426039204995055 + mx * (Fin 0.724263522282908870 +
                    mx * (Fin 0.871013847709812357 + mx * Fin 1.057652872753547036))))))))))
            in elk)
         else if m \<le> Fin 0.4 then
           (let mx = m - Fin 0.35;
                elk = Fin 1.744350597225613243 + mx * (Fin 0.634864275371935304 +
                    mx * (Fin 0.539842564164445538 + mx * (Fin 0.571892705193787391 +
                    mx * (Fin 0.670295136265406100 + mx * (Fin 0.832586590010977199 +
                    mx * (Fin 1.073857448247933265 + mx * (Fin 1.422091460675497751 +
                    mx * (Fin 1.920387183402304829 + mx * (Fin 2.632552548331654201 +
                    mx * (Fin 3.652109747319039160 + mx * (Fin 5.115867135558865806 +
                    mx * Fin 7.224080007363877411)))))))))))
            in elk)
         else if m \<le> Fin 0.5 then
           (let mx = m - Fin 0.45;
                elk = Fin 1.813883936816982644 + mx * (Fin 0.763163245700557246 +
                    mx * (Fin 0.761928605321595831 + mx * (Fin 0.951074653668427927 +
                    mx * (Fin 1.315180671703161215 + mx * (Fin 1.928560693477410941 +
                    mx * (Fin 2.937509342531378755 + mx * (Fin 4.594894405442878062 +
                    mx * (Fin 7.330071221881720772 + mx * (Fin 11.87151259742530180 +
                    mx * (Fin 19.45851374822937738 + mx * (Fin 32.20638657246426863 +
                    mx * (Fin 53.73749198700554656 + mx * Fin 90.27388602940998849))))))))))))
            in elk)
         else if m \<le> Fin 0.6 then
           (let mx = m - Fin 0.55;
                elk = Fin 1.898924910271553526 + mx * (Fin 0.950521794618244435 +
                    mx * (Fin 1.151077589959015808 + mx * (Fin 1.750239106986300540 +
                    mx * (Fin 2.952676812636875180 + mx * (Fin 5.285800396121450889 +
                    mx * (Fin 9.832485716659979747 + mx * (Fin 18.78714868327559562 +
                    mx * (Fin 36.61468615273698145 + mx * (Fin 72.45292395127771801 +
                    mx * (Fin 145.1079577347069102 + mx * (Fin 293.4786396308497026 +
                    mx * (Fin 598.3851815055010179 + mx * (Fin 1228.420013075863451 +
                    mx * Fin 2536.529755382764488)))))))))))))
            in elk)
         else if m \<le> Fin 0.7 then
           (let mx = m - Fin 0.65;
                elk = Fin 2.007598398424376302 + mx * (Fin 1.248457231212347337 +
                    mx * (Fin 1.926234657076479729 + mx * (Fin 3.751289640087587680 +
                    mx * (Fin 8.119944554932045802 + mx * (Fin 18.66572130873555361 +
                    mx * (Fin 44.60392484291437063 + mx * (Fin 109.5092054309498377 +
                    mx * (Fin 274.2779548232413480 + mx * (Fin 697.5598008606326163 +
                    mx * (Fin 1795.716014500247129 + mx * (Fin 4668.381716790389910 +
                    mx * (Fin 12235.76246813664335 + mx * (Fin 32290.17809718320818 +
                    mx * (Fin 85713.07608195964685 + mx * (Fin 228672.1890493117096 +
                    mx * Fin 612757.2711915852774)))))))))))))))
            in elk)
         else if m \<le> Fin 0.8 then
           (let mx = m - Fin 0.75;
                elk = Fin 2.156515647499643235 + mx * (Fin 1.791805641849463243 +
                    mx * (Fin 3.826751287465713147 + mx * (Fin 10.38672468363797208 +
                    mx * (Fin 31.40331405468070290 + mx * (Fin 100.9237039498695416 +
                    mx * (Fin 337.3268282632272897 + mx * (Fin 1158.707930567827917 +
                    mx * (Fin 4060.990742193632092 + mx * (Fin 14454.00184034344795 +
                    mx * (Fin 52076.66107599404803 + mx * (Fin 189493.6591462156887 +
                    mx * (Fin 695184.5762413896145 + mx * (Fin (2.567994048255284686 * 10 ^ 6) +
                    mx * (Fin (9.541921966748386322 * 10 ^ 6) +
                    mx * (Fin (3.563492744218076174 * 10 ^ 7) +
                    mx * (Fin (1.336692984612040871 * 10 ^ 8) +
                    mx * (Fin (5.033521866866284541 * 10 ^ 8) +
                    mx * (Fin (1.901975729538660119 * 10 ^ 9) +
                    mx * Fin (7.208915015330103756 * 10 ^ 9)))))))))))))))))))
            in elk)
         else if m \<le> Fin 0.85 then
           (let mx = m - Fin 0.825;
                elk = Fin 2.318122621712510589 + mx * (Fin 2.616920150291232841 +
                    mx * (Fin 7.897935075731355823 + mx * (Fin 30.50239715446672327 +
                    mx * (Fin 131.4869365523528456 + mx * (Fin 602.9847637356491617 +
                    mx * (Fin 2877.024617809972641 + mx * (Fin 14110.51991915180325 +
                    mx * (Fin 70621.44088156540229 + mx * (Fin 358977.2665825309926 +
                    mx * (Fin (1.847238263723971684 * 10 ^ 6) +
                    mx * (Fin (9.600515416049214109 * 10 ^ 6) +
                    mx * (Fin (5.030767708502366879 * 10 ^ 7) +
                    mx * (Fin (2.654441886527127967 * 10 ^ 8) +
                    mx * (Fin (1.408862325028702687 * 10 ^ 9) +
                    mx * Fin (7.515687935373774627 * 10 ^ 9)))))))))))))))
            in elk)
         else
           (let mx = m - Fin 0.875;
                elk = Fin 2.473596173751343912 + mx * (Fin 3.727624244118099310 +
                    mx * (Fin 15.60739303554930496 + mx * (Fin 84.12850842805887747 +
                    mx * (Fin 506.9818197040613935 + mx * (Fin 3252.277058145123644 +
                    mx * (Fin 21713.24241957434256 + mx * (Fin 149037.0451890932766 +
                    mx * (Fin (1.043999331089990839 * 10 ^ 6) +
                    mx * (Fin (7.427974817042038995 * 10 ^ 6) +
                    mx * (Fin (5.350383967558661151 * 10 ^ 7) +
                    mx * (Fin (3.892498869948708474 * 10 ^ 8) +
                    mx * (Fin (2.855288351100810619 * 10 ^ 9) +
                    mx * (Fin (2.109007703876684053 * 10 ^ 10) +
                    mx * (Fin (1.566998339477902014 * 10 ^ 11) +
                    mx * (Fin (1.170222242422439893 * 10 ^ 12) +
                    mx * (Fin (8.777948323668937971 * 10 ^ 12) +
                    mx * (Fin (6.610124275248495041 * 10 ^ 13) +
                    mx * (Fin (4.994880537133887989 * 10 ^ 14) +
                    mx * Fin (3.785974339724029920 * 10 ^ 15)))))))))))))))))))
            in elk)))"

definition elk :: "double \<Rightarrow> elk_saved \<Rightarrow> double \<times> elk_saved" where
  "elk mc saved =
    (let (first, mcold, PIHALF, PIINV, elkold, TINY) = saved;
         (first, mcold, PIHALF, PIINV, elkold, TINY) =
           (if first then
              (let first = False;
                   mcold = Fin 1;
                   PIHALF = datan (Fin 1) * Fin 2;
                   PIINV = Fin 0.5 / PIHALF;
                   elkold = PIHALF;
                   TINY = Fin (1 / 10 ^ 99)
               in (first, mcold, PIHALF, PIINV, elkold, TINY))
            else (first, mcold, PIHALF, PIINV, elkold, TINY));
         m = Fin 1 - mc;
         elk =
           (if abs m < Fin (1 / 10 ^ 16) then PIHALF
            else if abs (mc - mcold) < Fin (1.11 / 10 ^ 16) * mc then elkold
            else elk_branches mc m PIINV TINY);
         mcold = mc;
         elkold = elk
     in (elk, (first, mcold, PIHALF, PIINV, elkold, TINY)))"

text \<open>
  The model lets \<open>mc\<close> and \<open>mcold\<close> be any real numbers, among which the test
  \<open>|mc - mcold| < 1.11e-16 mc\<close> is met by distinct values; between two doubles it is
  met only when they are equal.  What is proved of the results of \<open>elk\<close> is stated for
  arguments that are \<open>representable\<close>, defined below.
\<close>

text \<open>The saved variables before the first call: only \<open>first\<close> holds a value.\<close>

definition elk_before_first_call :: elk_saved where
  "elk_before_first_call = (True, NaN, NaN, NaN, NaN, NaN)"

text \<open>
  The saved variables after a sequence of calls of \<open>elk\<close>, the arguments given in the
  order of the calls.
\<close>

fun elk_calls :: "double list \<Rightarrow> elk_saved \<Rightarrow> elk_saved" where
  "elk_calls [] saved = saved"
| "elk_calls (mc # history) saved = elk_calls history (snd (elk mc saved))"

text \<open>
  The finite values of the type double are the numbers \<open>m 2\<^sup>e\<close> with an integer
  \<open>|m| < 2\<^sup>5\<^sup>3\<close> and \<open>-1074 \<le> e \<le> 971\<close>.  \<open>dyadic53\<close> keeps the bound on \<open>m\<close> and
  leaves the exponent free, so that every finite double satisfies it.  An argument of
  \<open>elk\<close> is \<open>representable\<close> when it is infinite, a NaN, or such a number.
\<close>

definition dyadic53 :: "real \<Rightarrow> bool" where
  "dyadic53 x = (\<exists>(m :: int) (a :: nat) (b :: nat). \<bar>m\<bar> < 2 ^ 53 \<and> x = of_int m * 2 ^ a / 2 ^ b)"

fun representable :: "double \<Rightarrow> bool" where
  "representable (Fin x) = dyadic53 x"
| "representable PInf = True"
| "representable NInf = True"
| "representable NaN = True"

text \<open>
  \<open>scd2\<close>, for \<open>0 \<le> u < K/2\<close>.  The loop \<^verbatim>\<open>do n=0,20\<close> halves \<open>u0\<close> until it is
  below \<open>uT\<close>; it leaves \<open>n\<close> at the number of halvings, or at \<open>21\<close> when it runs to
  its end, after which the routine writes its message and goes on.
\<close>

datatype scd_message = TooLargeInputArgument double

function scd2_halving :: "double \<Rightarrow> double \<Rightarrow> nat \<Rightarrow> nat \<times> double \<times> bool" where
  "scd2_halving uT u0 n =
    (if 20 < n then (n, u0, True)
     else if u0 < uT then (n, u0, False)
     else scd2_halving uT (u0 * Fin 0.5) (n + 1))"
  by pat_completeness auto
termination
  by (relation "measure (\<lambda>(uT, u0, n). 21 - n)") auto

text \<open>The loop \<^verbatim>\<open>do j=1,n\<close> of the branch \<open>u < uA\<close>: \<open>n\<close> duplications.\<close>

fun scd2_duplication :: "double \<Rightarrow> nat \<Rightarrow> double \<times> double \<Rightarrow> double \<times> double" where
  "scd2_duplication m 0 (a, b) = (a, b)"
| "scd2_duplication m (Suc n) (a, b) =
    (let y = b * (a * Fin 2 - b);
         z = a * a;
         my = m * y;
         b = (y * Fin 2) * (z - my);
         a = z * z - my * y
     in scd2_duplication m n (a, b))"

text \<open>
  The loop \<^verbatim>\<open>do j=1,n\<close> of the other branch, which leaves by \<^verbatim>\<open>goto 2\<close> when
  \<open>z < 2 m y\<close>: \<open>Inl (j, a, b)\<close> is the state at that jump, \<open>Inr (a, b)\<close> the state when
  the loop runs to its end.
\<close>

function scd2_conditional_duplication ::
  "double \<Rightarrow> nat \<Rightarrow> nat \<Rightarrow> double \<times> double \<Rightarrow> (nat \<times> double \<times> double) + (double \<times> double)" where
  "scd2_conditional_duplication m n j (a, b) =
    (if n < j then Inr (a, b)
     else
       (let y = b * (a * Fin 2 - b);
            z = a * a;
            my = m * y
        in if z < my * Fin 2 then Inl (j, a, b)
           else
             (let b = (y * Fin 2) * (z - my);
                  a = z * z - my * y
              in scd2_conditional_duplication m n (j + 1) (a, b))))"
  by pat_completeness auto
termination
  by (relation "measure (\<lambda>(m, n, j, ab). Suc n - j)") auto

text \<open>The loop \<^verbatim>\<open>do i=j,n\<close> after the label \<open>2\<close>.\<close>

function scd2_complementary_duplication ::
  "double \<Rightarrow> double \<Rightarrow> double \<Rightarrow> double \<Rightarrow> nat \<Rightarrow> nat \<Rightarrow> double \<times> double \<Rightarrow> double \<times> double" where
  "scd2_complementary_duplication m mc mc2 m2 n i (c, a) =
    (if n < i then (c, a)
     else
       (let x = c * c;
            z = a * a;
            w = m * x * x - mc * z * z;
            xz = x * z;
            c = mc2 * xz + w;
            a = m2 * xz - w
        in scd2_complementary_duplication m mc mc2 m2 n (i + 1) (c, a)))"
  by pat_completeness auto
termination
  by (relation "measure (\<lambda>(m, mc, mc2, m2, n, i, ca). Suc n - i)") auto

definition Scd2 :: "double \<Rightarrow> double \<Rightarrow> (double \<times> double \<times> double) \<times> scd_message list" where
  "Scd2 u mc =
    (let B10 = Fin 1 / Fin 24;
         B11 = Fin 1 / Fin 6;
         B20 = Fin 1 / Fin 720;
         B21 = Fin 11 / Fin 180;
         B22 = Fin 1 / Fin 45;
         m = Fin 1 - mc;
         uA = Fin 1.76269 + mc * Fin 1.16357;
         uT = Fin (5.217 / 10 ^ 3) - m * Fin (2.143 / 10 ^ 3);
         u0 = u;
         (n, u0, too_large) = scd2_halving uT u0 0;
         messages = (if too_large then [TooLargeInputArgument u] else []);
         v = u0 * u0;
         a = Fin 1;
         b = v * (Fin 0.5 - v * (B10 + m * B11 - v * (B20 + m * (B21 + m * B22))))
     in case (if u < uA then Inr (scd2_duplication m n (a, b))
              else scd2_conditional_duplication m n 1 (a, b)) of
          Inr (a, b) \<Rightarrow>
            (let b = b / a;
                 y = b * (Fin 2 - b);
                 c = Fin 1 - b;
                 s = dsqrt y;
                 d = dsqrt (Fin 1 - m * y)
             in ((s, c, d), messages))
        | Inl (j, a, b) \<Rightarrow>
            (let c = a - b;
                 mc2 = mc * Fin 2;
                 m2 = m * Fin 2;
                 (c, a) = scd2_complementary_duplication m mc mc2 m2 n j (c, a);
                 c = c / a;
                 x = c * c;
                 s = dsqrt (Fin 1 - x);
                 d = dsqrt (mc + m * x)
             in ((s, c, d), messages)))"

text \<open>
  The conversion \<^verbatim>\<open>static_cast<int>\<close> of a double truncates towards zero and has no
  defined result when the truncated value is not an \<open>int\<close> of 32 bits.
\<close>

fun double_to_int :: "double \<Rightarrow> int option" where
  "double_to_int (Fin x) =
    (let t = (if 0 \<le> x then \<lfloor>x\<rfloor> else \<lceil>x\<rceil>)
     in if - (2 ^ 31) \<le> t \<and> t < 2 ^ 31 then Some t else None)"
| "double_to_int PInf = None"
| "double_to_int NInf = None"
| "double_to_int NaN = None"

text \<open>The sign change of \<open>s\<close> in a result of \<open>Gscd\<close>.\<close>

definition negate_sn ::
  "((double \<times> double \<times> double) \<times> scd_message list \<times> elk_saved) \<Rightarrow>
   ((double \<times> double \<times> double) \<times> scd_message list \<times> elk_saved)" where
  "negate_sn = (\<lambda>((s, c, d), messages, saved). ((- s, c, d), messages, saved))"

text \<open>
  \<open>Gscd\<close>, for any argument.  It returns \<open>(s, c, d)\<close>, the messages of \<open>scd2\<close> and the
  saved variables of \<open>elk\<close>, or \<open>None\<close> where the conversion to \<^verbatim>\<open>int\<close> is undefined.
\<close>

definition Gscd ::
  "double \<Rightarrow> double \<Rightarrow> elk_saved \<Rightarrow>
   ((double \<times> double \<times> double) \<times> scd_message list \<times> elk_saved) option" where
  "Gscd u mc saved =
    (let m = Fin 1 - mc;
         kc = dsqrt mc;
         ux = abs u;
         negate_s = (\<lambda>((s, c, d), messages). ((if u < Fin 0 then - s else s, c, d), messages))
     in if ux < Fin 0.785 then
          (let (scd, messages) = negate_s (Scd2 ux mc) in Some (scd, messages, saved))
        else
          (let (k, saved) = elk mc saved;
               kh = k * Fin 0.5;
               kh3 = k * Fin 1.5;
               kh5 = k * Fin 2.5;
               kh7 = k * Fin 3.5;
               k2 = k * Fin 2;
               k3 = k * Fin 3;
               k4 = k * Fin 4
           in case double_to_int (ux / k4) of
                None \<Rightarrow> None
              | Some q \<Rightarrow>
                  (let ux = ux - k4 * Fin (of_int q);
                       (scd, messages) = negate_s
                         (if ux < kh then Scd2 ux mc
                          else if ux < k then
                            (let ux = k - ux;
                                 ((s, c, d), messages) = Scd2 ux mc;
                                 sx = c / d;
                                 c = kc * s / d;
                                 s = sx;
                                 d = kc / d
                             in ((s, c, d), messages))
                          else if ux < kh3 then
                            (let ux = ux - k;
                                 ((s, c, d), messages) = Scd2 ux mc;
                                 sx = c / d;
                                 c = - kc * s / d;
                                 s = sx;
                                 d = kc / d
                             in ((s, c, d), messages))
                          else if ux < k2 then
                            (let ux = k2 - ux;
                                 ((s, c, d), messages) = Scd2 ux mc;
                                 c = - c
                             in ((s, c, d), messages))
                          else if ux < kh5 then
                            (let ux = ux - k2;
                                 ((s, c, d), messages) = Scd2 ux mc;
                                 s = - s;
                                 c = - c
                             in ((s, c, d), messages))
                          else if ux < k3 then
                            (let ux = k3 - ux;
                                 ((s, c, d), messages) = Scd2 ux mc;
                                 sx = - c / d;
                                 c = - kc * s / d;
                                 s = sx;
                                 d = kc / d
                             in ((s, c, d), messages))
                          else if ux < kh7 then
                            (let ux = ux - k3;
                                 ((s, c, d), messages) = Scd2 ux mc;
                                 sx = - c / d;
                                 c = kc * s / d;
                                 s = sx;
                                 d = kc / d
                             in ((s, c, d), messages))
                          else
                            (let ux = k4 - ux;
                                 ((s, c, d), messages) = Scd2 ux mc;
                                 s = - s
                             in ((s, c, d), messages)))
                   in Some (scd, messages, saved))))"

section \<open>Facts about the reals\<close>

text \<open>
  The partial sums of the alternating series of the arc tangent enclose it; Machin's
  formula then bounds \<open>\<pi>\<close> from below.
\<close>

lemma arctan_series_bounds:
  fixes x :: real
  assumes x: "0 \<le> x" "x \<le> 1"
  shows "(\<Sum>i<2 * n. (- 1) ^ i * (1 / real (i * 2 + 1) * x ^ (i * 2 + 1))) \<le> arctan x"
    and "arctan x \<le> (\<Sum>i<2 * n + 1. (- 1) ^ i * (1 / real (i * 2 + 1) * x ^ (i * 2 + 1)))"
proof -
  define a where "a = (\<lambda>k::nat. 1 / real (k * 2 + 1) * x ^ (k * 2 + 1))"
  have zero: "a \<longlonglongrightarrow> 0"
    unfolding a_def by (rule zeroseq_arctan_series) (use x in simp)
  have pos: "0 \<le> a k" for k
    unfolding a_def using x by simp
  have mono: "a (Suc k) \<le> a k" for k
  proof -
    have "1 / real (Suc k * 2 + 1) \<le> 1 / real (k * 2 + 1)"
      by (simp add: field_simps)
    moreover have "x ^ (Suc k * 2 + 1) \<le> x ^ (k * 2 + 1)"
      by (rule power_decreasing) (use x in simp_all)
    ultimately show ?thesis
      unfolding a_def using x by (intro mult_mono) simp_all
  qed
  have series: "arctan x = (\<Sum>k. (- 1) ^ k * a k)"
    unfolding a_def by (rule arctan_series) (use x in simp)
  show "(\<Sum>i<2 * n. (- 1) ^ i * (1 / real (i * 2 + 1) * x ^ (i * 2 + 1))) \<le> arctan x"
    using summable_Leibniz'(2)[of a n, OF zero pos mono] unfolding series a_def .
  show "arctan x \<le> (\<Sum>i<2 * n + 1. (- 1) ^ i * (1 / real (i * 2 + 1) * x ^ (i * 2 + 1)))"
    using summable_Leibniz'(4)[of a n, OF zero pos mono] unfolding series a_def .
qed

lemma pi_gt_3: "3 < pi"
proof -
  have l: "1 / 5 - 1 / 375 \<le> arctan (1 / 5)"
    using arctan_series_bounds(1)[of "1 / 5" 1] by (simp add: eval_nat_numeral)
  have u: "arctan (1 / 239) \<le> 1 / 239"
    using arctan_series_bounds(2)[of "1 / 239" 0] by simp
  have "pi / 4 = 4 * arctan (1 / 5) - arctan (1 / 239)" by (rule machin)
  with l u show ?thesis by simp
qed

lemma arctan_fifth_upper:
  "arctan (1 / 5) \<le> (\<Sum>i<13. (- 1) ^ i * (1 / real (i * 2 + 1) * (1 / 5) ^ (i * 2 + 1)))"
  using arctan_series_bounds(2)[of "1 / 5" 6] by simp


lemma sqrt_25th: "sqrt (1 / 25) = 1 / 5"
  by (rule real_sqrt_unique) (simp_all add: power2_eq_square)

text \<open>
  Machin's formula with enclosures of the two arc tangents to 21 digits places \<open>\<pi>/2\<close>
  between \<open>6.1e-17\<close> and \<open>6.2e-17\<close> above the double nearest to it, whose cosine is
  therefore between \<open>6e-17\<close> and \<open>6.2e-17\<close>.
\<close>

lemma arctan_fifth_enclosure:
  "197395559849880758369 / 10 ^ 21 \<le> arctan (1 / 5)"
  "arctan (1 / 5) \<le> 197395559849880758375 / 10 ^ 21"
proof -
  show "197395559849880758369 / 10 ^ 21 \<le> arctan (1 / 5)"
    using arctan_series_bounds(1)[of "1 / 5" 7] by (simp add: eval_nat_numeral)
  show "arctan (1 / 5) \<le> 197395559849880758375 / 10 ^ 21"
    using arctan_series_bounds(2)[of "1 / 5" 6] by (simp add: eval_nat_numeral)
qed

lemma arctan_239th_enclosure:
  "4184076002074723864 / 10 ^ 21 \<le> arctan (1 / 239)"
  "arctan (1 / 239) \<le> 4184076002074723865 / 10 ^ 21"
proof -
  show "4184076002074723864 / 10 ^ 21 \<le> arctan (1 / 239)"
    using arctan_series_bounds(1)[of "1 / 239" 2] by (simp add: eval_nat_numeral)
  show "arctan (1 / 239) \<le> 4184076002074723865 / 10 ^ 21"
    using arctan_series_bounds(2)[of "1 / 239" 2] by (simp add: eval_nat_numeral)
qed

lemma pi_half_minus_double:
  "61 / 10 ^ 18 \<le> pi / 2 - double_pi_2" "pi / 2 - double_pi_2 \<le> 62 / 10 ^ 18"
proof -
  have m: "pi / 2 = 8 * arctan (1 / 5) - 2 * arctan (1 / 239)" using machin by simp
  show "61 / 10 ^ 18 \<le> pi / 2 - double_pi_2"
    unfolding m double_pi_2_def
    using arctan_fifth_enclosure(1) arctan_239th_enclosure(2) by simp
  show "pi / 2 - double_pi_2 \<le> 62 / 10 ^ 18"
    unfolding m double_pi_2_def
    using arctan_fifth_enclosure(2) arctan_239th_enclosure(1) by simp
qed

lemma cos_double_pi_2:
  "6 / 10 ^ 17 \<le> cos double_pi_2" "cos double_pi_2 \<le> 62 / 10 ^ 18"
proof -
  define x where "x = pi / 2 - double_pi_2"
  have x: "61 / 10 ^ 18 \<le> x" "x \<le> 62 / 10 ^ 18"
    unfolding x_def by (rule pi_half_minus_double)+
  have x0: "0 \<le> x" using x(1) by simp
  have c: "cos double_pi_2 = sin x" unfolding x_def by (simp add: sin_diff)
  have "sin x \<le> x" using x0 by (rule sin_x_le_x)
  then show "cos double_pi_2 \<le> 62 / 10 ^ 18" unfolding c using x(2) by simp
  have "\<bar>sin x - (\<Sum>m<3. sin_coeff m * x ^ m)\<bar> \<le> inverse (fact 3) * \<bar>x\<bar> ^ 3"
    by (rule Maclaurin_sin_bound)
  moreover have "(\<Sum>m<3. sin_coeff m * x ^ m) = x"
    by (simp add: sin_coeff_def eval_nat_numeral)
  moreover have "inverse (fact 3) * \<bar>x\<bar> ^ 3 = x ^ 3 / 6"
  proof -
    have "(fact 3 :: real) = 6" by (simp add: eval_nat_numeral)
    moreover have "\<bar>x\<bar> = x" using x0 by simp
    ultimately show ?thesis by simp
  qed
  ultimately have "\<bar>sin x - x\<bar> \<le> x ^ 3 / 6" by simp
  then have lo: "x - x ^ 3 / 6 \<le> sin x" by linarith
  have "x ^ 3 \<le> (62 / 10 ^ 18) ^ 3" using x(2) x0 by (rule power_mono)
  moreover have "(62 / 10 ^ 18 :: real) ^ 3 \<le> 6 / 10 ^ 18" by (simp add: power_divide)
  ultimately have "x ^ 3 \<le> 6 / 10 ^ 18" by (rule order_trans)
  then have "x ^ 3 / 6 \<le> 1 / 10 ^ 18" by simp
  then show "6 / 10 ^ 17 \<le> cos double_pi_2" unfolding c using lo x(1) by simp
qed

section \<open>Properties of the arithmetic on doubles\<close>

lemmas double_defs = zero_double_def one_double_def plus_double_def uminus_double_def
  minus_double_def times_double_def divide_double_def inverse_double_def abs_double_def
  less_double_def less_eq_double_def

lemma dneg_dneg [simp]: "dneg (dneg x) = x"
  by (cases x) auto

lemma dabs_dneg [simp]: "dabs (dneg x) = dabs x"
  by (cases x) auto

lemma dmul_dneg_left: "dmul (dneg a) b = dneg (dmul a b)"
  by (cases a; cases b) auto

lemma dmul_dneg_right: "dmul a (dneg b) = dneg (dmul a b)"
  by (cases a; cases b) auto

lemma ddiv_dneg_left: "ddiv (dneg a) b = dneg (ddiv a b)"
  by (cases a; cases b) auto

lemma datan_dneg: "datan (dneg a) = dneg (datan a)"
  by (cases a) (auto simp: arctan_minus)

lemma datanh_dneg: "datanh (dneg a) = dneg (datanh a)"
  by (cases a) auto

lemma dmul_one_right [simp]: "dmul t (Fin 1) = t"
  by (cases t) auto

lemma dmul_one_left [simp]: "dmul (Fin 1) t = t"
  by (cases t) auto

section \<open>Fukushima's T function: parity and dispatch\<close>

lemma FukushimaTMaclaurin_unfold:
  "FukushimaTMaclaurin 0 = [Fin 1]"
  "FukushimaTMaclaurin (Suc n) = FukushimaTMaclaurin n @ [Fin (1 / (2 * real (Suc n) + 1))]"
  by (simp_all add: FukushimaTMaclaurin_def)

text \<open>
  Claim C10.  \<open>FukushimaT\<close> is an odd function of its first argument:
  \<open>FukushimaT (- t) h = - FukushimaT t h\<close> for all doubles \<open>t\<close> and \<open>h\<close>, the special
  values included.
\<close>

theorem FukushimaT_odd: "FukushimaT (- t) h = - FukushimaT t h"
  unfolding FukushimaT_def Let_def double_defs
  by (simp add: dmul_dneg_left dmul_dneg_right ddiv_dneg_left datan_dneg datanh_dneg)

text \<open>
  Claim C5, as amended.  With \<open>z = - h t\<^sup>2\<close>, \<open>FukushimaT t h\<close> is \<open>t\<close> times the
  Maclaurin polynomial whose degree is the position (from 0 to 12) of the first of the
  thirteen thresholds exceeding \<open>|z|\<close>, provided \<open>|z|\<close> is below the tenth threshold,
  or \<open>|z|\<close> is below the thirteenth and \<open>z \<ge> 0\<close>.  Otherwise it is the arc tangent
  form when \<open>z < 0\<close>, and the inverse hyperbolic tangent form in the remaining case.
  The thresholds are the doubles that the literals \<^verbatim>\<open>3.3306691e-16\<close>, ...,
  \<^verbatim>\<open>7.6353468e-02\<close> of the source denote; the tenth is that of
  \<^verbatim>\<open>3.4416203e-02\<close>, which lies below the decimal, and the thirteenth that of
  \<^verbatim>\<open>7.6353468e-02\<close>.
\<close>

theorem FukushimaT_dispatch: "FukushimaT t h = FukushimaT_code_dispatch t h"
proof -
  obtain z where z: "z = - h * t * t" by simp
  show ?thesis
  proof (cases z)
    case (Fin y)
    then show ?thesis
      unfolding FukushimaT_def FukushimaT_code_dispatch_def Let_def FukushimaT_thresholds_def
        z[symmetric]
      by (simp add: double_defs FukushimaTMaclaurin_unfold eval_nat_numeral)
  next
    case PInf
    then show ?thesis
      unfolding FukushimaT_def FukushimaT_code_dispatch_def Let_def FukushimaT_thresholds_def
        z[symmetric]
      by (simp add: double_defs)
  next
    case NInf
    then show ?thesis
      unfolding FukushimaT_def FukushimaT_code_dispatch_def Let_def FukushimaT_thresholds_def
        z[symmetric]
      by (simp add: double_defs)
  next
    case NaN
    then show ?thesis
      unfolding FukushimaT_def FukushimaT_code_dispatch_def Let_def FukushimaT_thresholds_def
        z[symmetric]
      by (simp add: double_defs)
  qed
qed

lemma FukushimaT_at_1_25th: "FukushimaT (Fin 1) (Fin (1 / 25)) = Fin (arctan (1 / 5) * 5)"
  unfolding FukushimaT_def Let_def
  by (simp add: double_defs sqrt_25th)

lemma FukushimaT_spec_dispatch_at_1_25th:
  "FukushimaT_spec_dispatch (Fin 1) (Fin (1 / 25)) =
     Fin 1 * Evaluate (FukushimaTMaclaurin 10) (Fin (- (1 / 25)))"
  unfolding FukushimaT_spec_dispatch_def Let_def FukushimaT_thresholds_def
  by (simp add: double_defs eval_nat_numeral)

lemma arctan_fifth_below_series:
  "Fin (arctan (1 / 5) * 5) \<noteq> Fin 1 * Evaluate (FukushimaTMaclaurin 10) (Fin (- (1 / 25)))"
proof -
  have "arctan (1 / 5) * 5 <
    (1 + - 1 / 25 * (1 / 3 + - 1 / 25 * (1 / 5 + - 1 / 25 * (1 / 7 + - 1 / 25 * (1 / 9 + - 1 / 25 *
      (1 / 11 + - 1 / 25 * (1 / 13 + - 1 / 25 * (1 / 15 + - 1 / 25 * (1 / 17 + - 1 / 25 *
      (1 / 19 + - 1 / 25 * (1 / 21)))))))))))"
    using arctan_fifth_upper by (simp add: eval_nat_numeral)
  then show ?thesis
    by (simp add: double_defs FukushimaTMaclaurin_unfold eval_nat_numeral)
qed

text \<open>
  Claim C5, as stated, fails at \<open>t = 1\<close>, \<open>h = 1/25\<close>: there \<open>z = - 0.04\<close>, whose
  magnitude lies between the tenth and the eleventh threshold, and the code returns
  \<open>atan (1/5) / (1/5)\<close>, not the polynomial of degree 10.
\<close>

theorem FukushimaT_spec_dispatch_counterexample:
  "FukushimaT (Fin 1) (Fin (1 / 25)) = Fin (arctan (1 / 5) * 5) \<and>
   FukushimaT_spec_dispatch (Fin 1) (Fin (1 / 25)) =
     Fin 1 * Evaluate (FukushimaTMaclaurin 10) (Fin (- (1 / 25))) \<and>
   FukushimaT (Fin 1) (Fin (1 / 25)) \<noteq> FukushimaT_spec_dispatch (Fin 1) (Fin (1 / 25))"
  using FukushimaT_at_1_25th FukushimaT_spec_dispatch_at_1_25th arctan_fifth_below_series
  by simp

text \<open>
  At \<open>t = 1\<close> and \<open>h\<close> the double of \<^verbatim>\<open>3.4416203e-02\<close>, \<open>|z|\<close> equals the tenth
  threshold and is not below it: the call takes the arc tangent form.
\<close>

lemma FukushimaT_at_tenth_threshold:
  "FukushimaT (Fin 1) (Fin (4959897568201835 / 2 ^ 57)) =
     Fin (arctan (sqrt (4959897568201835 / 2 ^ 57)) / sqrt (4959897568201835 / 2 ^ 57))"
  unfolding FukushimaT_def Let_def
  by (simp add: double_defs)

section \<open>Bulirsch's cel: the case split on \<open>kc\<close>\<close>


lemma dabs_dabs [simp]: "dabs (dabs x) = dabs x"
  by (cases x) auto

section \<open>Bulirsch's cel: termination of Bartky's algorithm\<close>

text \<open>
  One iteration of the loop on finite variables: it breaks when the gap \<open>m - kc\<close> is
  within the tolerance, and otherwise replaces \<open>kc\<close> and \<open>m\<close> by twice their geometric
  and arithmetic means.
\<close>

lemma Bartky_break:
  assumes "0 < p" "m - kc \<le> m * ca" "kc \<le> m" "0 < kc"
  shows "Bartky (Suc n) (Fin ca) (Fin a) (Fin b) (Fin p) (Fin e) (Fin m) (Fin kc)
            = Some (Fin (b / p + a), Fin (a * (e / p) + b + (a * (e / p) + b)), Fin (e / p + p), Fin (kc + m))"
  using assms by (simp add: double_defs Let_def)

lemma Bartky_continue:
  assumes "0 < p" "\<not> m - kc \<le> m * ca" "kc \<le> m" "0 < kc" "0 < e"
  shows "Bartky (Suc n) (Fin ca) (Fin a) (Fin b) (Fin p) (Fin e) (Fin m) (Fin kc)
            = Bartky n (Fin ca) (Fin (b / p + a)) (Fin (a * (e / p) + b + (a * (e / p) + b))) (Fin (e / p + p))
                (Fin ((sqrt e + sqrt e) * (kc + m))) (Fin (kc + m)) (Fin (sqrt e + sqrt e))"
  using assms by (simp add: double_defs Let_def)

text \<open>
  One step of the arithmetic-geometric mean squares the gap relative to \<open>m\<close>.
\<close>

lemma agm_gap:
  fixes kc m d :: real
  assumes "0 < kc" "kc \<le> m" "m - kc \<le> d * m" "0 \<le> d" "d \<le> 1 / 2"
  shows "(kc + m) - (sqrt (kc * m) + sqrt (kc * m)) \<le> (d\<^sup>2 / ((4 - 3 * d) * (2 - d))) * (kc + m)"
proof -
  define s where "s = sqrt (kc * m)"
  have m: "0 < m" using assms by linarith
  have s2: "s * s = kc * m" unfolding s_def using assms m by simp
  have s_ge: "kc \<le> s"
  proof -
    have "kc * kc \<le> kc * m" using assms by (simp add: mult_left_mono)
    then have "sqrt (kc * kc) \<le> sqrt (kc * m)" by (simp only: real_sqrt_le_iff)
    then show ?thesis using assms unfolding s_def by simp
  qed
  have kc_lb: "(1 - d) * m \<le> kc" using assms by (simp add: algebra_simps)
  have den: "(4 - 3 * d) * m \<le> kc + m + (s + s)" using s_ge kc_lb by (simp add: algebra_simps)
  have den_pos: "0 < (4 - 3 * d) * m" using assms m by simp
  have eq: "((kc + m) - (s + s)) * (kc + m + (s + s)) = (m - kc)\<^sup>2"
    using s2 by (simp add: algebra_simps power2_eq_square)
  have gap_nonneg: "0 \<le> m - kc" using assms by simp
  have sq: "(m - kc)\<^sup>2 \<le> (d * m)\<^sup>2"
    using assms gap_nonneg by (intro power_mono) simp_all
  have pos: "0 < kc + m + (s + s)" using den den_pos by linarith
  have "(kc + m) - (s + s) = (m - kc)\<^sup>2 / (kc + m + (s + s))"
    using eq pos by (simp add: field_simps)
  also have "\<dots> \<le> (d * m)\<^sup>2 / (kc + m + (s + s))"
    using sq pos by (simp add: divide_right_mono)
  also have "\<dots> \<le> (d * m)\<^sup>2 / ((4 - 3 * d) * m)"
    using den den_pos pos by (intro divide_left_mono) simp_all
  also have "\<dots> = d\<^sup>2 / (4 - 3 * d) * m"
  proof -
    have "4 - 3 * d \<noteq> 0" using assms by simp
    then show ?thesis using m by (simp add: power2_eq_square field_simps)
  qed
  also have "\<dots> \<le> d\<^sup>2 / (4 - 3 * d) * ((kc + m) / (2 - d))"
  proof -
    have "(2 - d) * m \<le> kc + m" using kc_lb by (simp add: algebra_simps)
    then have "m \<le> (kc + m) / (2 - d)" using assms by (simp add: field_simps)
    moreover have "0 \<le> d\<^sup>2 / (4 - 3 * d)" using assms by simp
    ultimately show ?thesis by (rule mult_left_mono)
  qed
  finally show ?thesis unfolding s_def by simp
qed


lemma agm_le:
  fixes kc m :: real
  assumes "0 < kc" "kc \<le> m"
  shows "sqrt (kc * m) + sqrt (kc * m) \<le> kc + m"
proof -
  have "(kc + m) - (sqrt (kc * m) + sqrt (kc * m)) \<ge> 0"
  proof -
    have "(sqrt m - sqrt kc)\<^sup>2 = (kc + m) - (sqrt (kc * m) + sqrt (kc * m))"
      using assms by (simp add: power2_eq_square algebra_simps real_sqrt_mult)
    then show ?thesis by (metis zero_le_power2)
  qed
  then show ?thesis by simp
qed

lemma Bartky_converges_ca: "Bartky_converges (Suc n) (1 / 10 ^ 7)"
  unfolding Bartky_converges_def
proof (intro allI impI)
  fix a b p kc m :: real
  assume h: "0 < kc" "kc \<le> m" "0 < p" "m - kc \<le> 1 / 10 ^ 7 * m"
  have "m - kc \<le> m * (1 / 10 ^ 7)" using h(4) by (simp add: mult.commute)
  from Bartky_break[OF h(3) this h(2) h(1), of n a b "kc * m"]
  show "\<exists>a' b' p' m'.
          Bartky (Suc n) (Fin (1 / 10 ^ 7)) (Fin a) (Fin b) (Fin p) (Fin (kc * m)) (Fin m) (Fin kc) =
            Some (Fin a', Fin b', Fin p', Fin m') \<and> 0 < p' \<and> 0 < m'"
    using h by (auto intro!: add_pos_pos divide_pos_pos mult_pos_pos)
qed

lemma Bartky_converges_step:
  assumes IH: "Bartky_converges n d'"
    and gap: "\<And>kc m :: real. 0 < kc \<Longrightarrow> kc \<le> m \<Longrightarrow> m - kc \<le> d * m \<Longrightarrow>
               (kc + m) - (sqrt (kc * m) + sqrt (kc * m)) \<le> d' * (kc + m)"
  shows "Bartky_converges (Suc n) d"
  unfolding Bartky_converges_def
proof (intro allI impI)
  fix a b p kc m :: real
  assume h: "0 < kc" "kc \<le> m" "0 < p" "m - kc \<le> d * m"
  let ?ca = "1 / 10 ^ 7 :: real"
  have m: "0 < m" using h by linarith
  have e: "0 < kc * m" using h m by simp
  show "\<exists>a' b' p' m'.
          Bartky (Suc n) (Fin ?ca) (Fin a) (Fin b) (Fin p) (Fin (kc * m)) (Fin m) (Fin kc) =
            Some (Fin a', Fin b', Fin p', Fin m') \<and> 0 < p' \<and> 0 < m'"
  proof (cases "m - kc \<le> m * ?ca")
    case True
    from Bartky_break[OF h(3) True h(2) h(1), of n a b "kc * m"]
    show ?thesis using h e by (auto intro!: add_pos_pos divide_pos_pos)
  next
    case False
    let ?kc' = "sqrt (kc * m) + sqrt (kc * m)"
    let ?m' = "kc + m"
    let ?p' = "kc * m / p + p"
    have step: "Bartky (Suc n) (Fin ?ca) (Fin a) (Fin b) (Fin p) (Fin (kc * m)) (Fin m) (Fin kc)
        = Bartky n (Fin ?ca) (Fin (b / p + a)) (Fin (a * (kc * m / p) + b + (a * (kc * m / p) + b)))
            (Fin ?p') (Fin (?kc' * ?m')) (Fin ?m') (Fin ?kc')"
      by (rule Bartky_continue[OF h(3) False h(2) h(1) e])
    have 1: "0 < ?kc'" using e by (simp add: add_pos_pos)
    have 2: "?kc' \<le> ?m'" by (rule agm_le[OF h(1) h(2)])
    have 3: "0 < ?p'" using e h by (simp add: add_pos_pos)
    have 4: "?m' - ?kc' \<le> d' * ?m'" by (rule gap[OF h(1) h(2) h(4)])
    from IH[unfolded Bartky_converges_def, rule_format, OF 1 2 3 4]
    show ?thesis unfolding step .
  qed
qed

lemma Bartky_converges_gap:
  assumes IH: "Bartky_converges n d'" and d: "0 \<le> d" "d \<le> 1 / 2"
    and d': "d\<^sup>2 / ((4 - 3 * d) * (2 - d)) \<le> d'"
  shows "Bartky_converges (Suc n) d"
proof (rule Bartky_converges_step[OF IH])
  fix kc m :: real
  assume h: "0 < kc" "kc \<le> m" "m - kc \<le> d * m"
  have "(kc + m) - (sqrt (kc * m) + sqrt (kc * m)) \<le> (d\<^sup>2 / ((4 - 3 * d) * (2 - d))) * (kc + m)"
    by (rule agm_gap[OF h d])
  also have "\<dots> \<le> d' * (kc + m)"
    using d' h by (intro mult_right_mono) simp_all
  finally show "(kc + m) - (sqrt (kc * m) + sqrt (kc * m)) \<le> d' * (kc + m)" .
qed

lemma Bartky_converges_sqrt:
  assumes IH: "Bartky_converges n (1 - r)" and r: "0 < r" "r \<le> 1"
  shows "Bartky_converges (Suc n) (1 - r\<^sup>2)"
proof (rule Bartky_converges_step[OF IH])
  fix kc m :: real
  assume h: "0 < kc" "kc \<le> m" "m - kc \<le> (1 - r\<^sup>2) * m"
  have m: "0 < m" using h by linarith
  have "r\<^sup>2 * m \<le> kc" using h(3) by (simp add: algebra_simps)
  then have "(r * m)\<^sup>2 \<le> kc * m"
    using m by (simp add: power2_eq_square mult_right_mono algebra_simps)
  then have "sqrt ((r * m)\<^sup>2) \<le> sqrt (kc * m)" by (simp only: real_sqrt_le_iff)
  then have s: "r * m \<le> sqrt (kc * m)" using r m by simp
  have "r * (kc + m) \<le> r * m + r * m" using h r by (simp add: algebra_simps)
  also have "\<dots> \<le> sqrt (kc * m) + sqrt (kc * m)" using s by linarith
  finally show "(kc + m) - (sqrt (kc * m) + sqrt (kc * m)) \<le> (1 - r) * (kc + m)"
    by (simp add: algebra_simps)
qed

lemma Bartky_converges_2: "Bartky_converges (Suc (Suc n)) (7 / 10 ^ 4)"
  by (rule Bartky_converges_gap[OF Bartky_converges_ca]) (simp_all add: power2_eq_square)

lemma Bartky_converges_3: "Bartky_converges (Suc (Suc (Suc n))) (7 / 10 ^ 2)"
  by (rule Bartky_converges_gap[OF Bartky_converges_2]) (simp_all add: power2_eq_square)

lemma Bartky_converges_4: "Bartky_converges (Suc (Suc (Suc (Suc n)))) (1 / 2)"
  by (rule Bartky_converges_gap[OF Bartky_converges_3]) (simp_all add: power2_eq_square)

lemma Bartky_converges_pow: "Bartky_converges (j + 4) (1 - (1 / 2) ^ (2 ^ j))"
proof (induction j)
  case 0
  show ?case using Bartky_converges_4[of 0] by (simp add: eval_nat_numeral)
next
  case (Suc j)
  have "Bartky_converges (Suc (j + 4)) (1 - ((1 / 2) ^ (2 ^ j))\<^sup>2)"
    by (rule Bartky_converges_sqrt[OF Suc.IH]) (simp_all add: power_le_one)
  moreover have "((1 / 2 :: real) ^ (2 ^ j))\<^sup>2 = (1 / 2) ^ (2 ^ Suc j)"
    by (simp add: power_mult[symmetric] mult.commute)
  ultimately show ?case by simp
qed

lemma Bartky_converges_denorm: "Bartky_converges 15 (1 - denorm_min)"
proof -
  have c: "Bartky_converges 15 (1 - (1 / 2) ^ (2 ^ 11))"
    using Bartky_converges_pow[of 11] by simp
  have le: "(1 / 2 :: real) ^ (2 ^ 11) \<le> denorm_min"
  proof -
    have "(1 / 2 :: real) ^ (2 ^ 11) \<le> (1 / 2) ^ 1074"
      by (rule power_decreasing) simp_all
    also have "\<dots> = 1 / 2 ^ 1074"
      by (rule power_one_over)
    finally show ?thesis unfolding denorm_min_def .
  qed
  show ?thesis
    unfolding Bartky_converges_def
  proof (intro allI impI)
    fix a b p kc m :: real
    assume h: "0 < kc" "kc \<le> m" "0 < p" "m - kc \<le> (1 - denorm_min) * m"
    have m: "0 < m" using h by linarith
    have "(1 - denorm_min) * m \<le> (1 - (1 / 2) ^ (2 ^ 11)) * m"
      using le m by (intro mult_right_mono) simp_all
    then have "m - kc \<le> (1 - (1 / 2) ^ (2 ^ 11)) * m" using h(4) by linarith
    from c[unfolded Bartky_converges_def, rule_format, OF h(1) h(2) h(3) this]
    show "\<exists>a' b' p' m'.
          Bartky 15 (Fin (1 / 10 ^ 7)) (Fin a) (Fin b) (Fin p) (Fin (kc * m)) (Fin m) (Fin kc) =
            Some (Fin a', Fin b', Fin p', Fin m') \<and> 0 < p' \<and> 0 < m'" .
  qed
qed

lemma Bartky_mono:
  "Bartky n ca a b p e m kc = Some x \<Longrightarrow> n \<le> n' \<Longrightarrow> Bartky n' ca a b p e m kc = Some x"
proof (induction n ca a b p e m kc arbitrary: n' rule: Bartky.induct)
  case (1 ca a b p e m kc)
  then show ?case by simp
next
  case (2 fuel ca a b p e m kc)
  from "2.prems"(2) obtain k where n': "n' = Suc k" and k: "fuel \<le> k"
    by (cases n') auto
  show ?case
    using "2.prems"(1) "2.IH" k unfolding n'
    by (auto simp: Let_def split: if_splits)
qed


lemma Bartky_from_start:
  assumes x: "denorm_min \<le> x" "x \<le> 1" and p: "0 < p" and fuel: "15 \<le> fuel"
  shows "\<exists>a' b' p' m'.
          Bartky fuel (Fin (1 / 10 ^ 7)) (Fin a) (Fin b) (Fin p) (Fin x) (Fin 1) (Fin x) =
            Some (Fin a', Fin b', Fin p', Fin m') \<and> 0 < p' \<and> 0 < m'"
proof -
  have x0: "0 < x" using x(1) unfolding denorm_min_def
    by (rule less_le_trans[rotated]) simp
  have gap: "1 - x \<le> (1 - denorm_min) * 1" using x by simp
  from Bartky_converges_denorm[unfolded Bartky_converges_def, rule_format, OF x0 x(2) p gap, of a b]
  obtain a' b' p' m' where
    r: "Bartky 15 (Fin (1 / 10 ^ 7)) (Fin a) (Fin b) (Fin p) (Fin x) (Fin 1) (Fin x) =
          Some (Fin a', Fin b', Fin p', Fin m')" and pos: "0 < p'" "0 < m'"
    by auto
  from Bartky_mono[OF r fuel] pos show ?thesis by blast
qed

text \<open>
  The loop keeps the signs of \<open>a\<close> and \<open>b\<close>: from nonnegative \<open>a\<close> and \<open>b\<close> it yields
  an \<open>a\<close> that is no smaller and a nonnegative \<open>b\<close>, and likewise for nonpositive ones.
\<close>

lemma Bartky_sign:
  assumes "Bartky n (Fin ca) (Fin a) (Fin b) (Fin p) (Fin (kc * m)) (Fin m) (Fin kc) =
             Some (Fin a', Fin b', Fin p', Fin m')"
    and "0 < p" "0 < kc" "kc \<le> m"
  shows "(0 \<le> a \<longrightarrow> 0 \<le> b \<longrightarrow> a \<le> a' \<and> 0 \<le> b') \<and> (a \<le> 0 \<longrightarrow> b \<le> 0 \<longrightarrow> a' \<le> a \<and> b' \<le> 0)"
  using assms
proof (induction n arbitrary: a b p kc m)
  case 0
  then show ?case by simp
next
  case (Suc n)
  have m: "0 < m" using Suc.prems by linarith
  have e: "0 < kc * m" using Suc.prems m by simp
  have g: "0 < kc * m / p" using e Suc.prems by simp
  have up: "0 \<le> a \<Longrightarrow> 0 \<le> b \<Longrightarrow> a \<le> b / p + a \<and> 0 \<le> a * (kc * m / p) + b + (a * (kc * m / p) + b)"
  proof -
    assume h: "0 \<le> a" "0 \<le> b"
    have "0 \<le> b / p" using h(2) Suc.prems(2) by simp
    moreover have "0 \<le> a * (kc * m / p)" using h(1) g by (intro mult_nonneg_nonneg) simp_all
    ultimately show ?thesis using h by simp
  qed
  have down: "a \<le> 0 \<Longrightarrow> b \<le> 0 \<Longrightarrow> b / p + a \<le> a \<and> a * (kc * m / p) + b + (a * (kc * m / p) + b) \<le> 0"
  proof -
    assume h: "a \<le> 0" "b \<le> 0"
    have "b / p \<le> 0" using h(2) Suc.prems(2) by (simp add: divide_nonpos_pos)
    moreover have "a * (kc * m / p) \<le> 0" using h(1) g by (intro mult_nonpos_nonneg) simp_all
    ultimately show ?thesis using h by simp
  qed
  show ?case
  proof (cases "m - kc \<le> m * ca")
    case True
    from Bartky_break[OF Suc.prems(2) True Suc.prems(4) Suc.prems(3), of n a b "kc * m"] Suc.prems(1)
    have "a' = b / p + a" "b' = a * (kc * m / p) + b + (a * (kc * m / p) + b)" by simp_all
    then show ?thesis using up down by simp
  next
    case False
    let ?kc' = "sqrt (kc * m) + sqrt (kc * m)"
    let ?m' = "kc + m"
    let ?p' = "kc * m / p + p"
    let ?a1 = "b / p + a"
    let ?b1 = "a * (kc * m / p) + b + (a * (kc * m / p) + b)"
    from Bartky_continue[OF Suc.prems(2) False Suc.prems(4) Suc.prems(3) e, of n a b] Suc.prems(1)
    have r: "Bartky n (Fin ca) (Fin ?a1) (Fin ?b1) (Fin ?p') (Fin (?kc' * ?m')) (Fin ?m') (Fin ?kc') =
        Some (Fin a', Fin b', Fin p', Fin m')" by simp
    have 1: "0 < ?kc'" using e by (simp add: add_pos_pos)
    have 2: "?kc' \<le> ?m'" by (rule agm_le[OF Suc.prems(3) Suc.prems(4)])
    have 3: "0 < ?p'" using e Suc.prems by (simp add: add_pos_pos)
    from Suc.IH[OF r 3 1 2]
    have IH: "(0 \<le> ?a1 \<longrightarrow> 0 \<le> ?b1 \<longrightarrow> ?a1 \<le> a' \<and> 0 \<le> b') \<and>
              (?a1 \<le> 0 \<longrightarrow> ?b1 \<le> 0 \<longrightarrow> a' \<le> ?a1 \<and> b' \<le> 0)" .
    show ?thesis
    proof (intro conjI impI)
      assume h: "0 \<le> a" "0 \<le> b"
      from up[OF h] IH h show "a \<le> a'" by linarith
      from up[OF h] IH h show "0 \<le> b'" by linarith
    next
      assume h: "a \<le> 0" "b \<le> 0"
      from down[OF h] IH h show "a' \<le> a" by linarith
      from down[OF h] IH h show "b' \<le> 0" by linarith
    qed
  qed
qed

text \<open>
  The loop started as \<open>BulirschCel\<close> starts it, followed by the return statement: the
  value is finite, positive when \<open>a\<close> is positive and \<open>b\<close> nonnegative at the start of
  the loop, negative in the opposite case, and zero when both are zero.
\<close>

lemma cel_loop_result:
  assumes x: "denorm_min \<le> x" "x \<le> 1" and p: "0 < p" and fuel: "15 \<le> fuel"
  shows "\<exists>r. (case Bartky fuel (Fin (1 / 10 ^ 7)) (Fin a) (Fin b) (Fin p) (Fin x) (Fin 1) (Fin x) of
                None \<Rightarrow> None
              | Some (a, b, p, m) \<Rightarrow> Some (Fin pi / Fin 2 * (a * m + b) / (m * (m + p)), [])) =
            Some (Fin r, [] :: log_entry list) \<and>
          (0 < a \<longrightarrow> 0 \<le> b \<longrightarrow> 0 < r) \<and> (a < 0 \<longrightarrow> b \<le> 0 \<longrightarrow> r < 0) \<and>
          (a = 0 \<longrightarrow> b = 0 \<longrightarrow> r = 0)"
proof -
  have x0: "0 < x" using x(1) unfolding denorm_min_def
    by (rule less_le_trans[rotated]) simp
  from Bartky_from_start[OF x p fuel, of a b] obtain a' b' p' m' where
    r: "Bartky fuel (Fin (1 / 10 ^ 7)) (Fin a) (Fin b) (Fin p) (Fin x) (Fin 1) (Fin x) =
          Some (Fin a', Fin b', Fin p', Fin m')" and pos: "0 < p'" "0 < m'"
    by auto
  have "Bartky fuel (Fin (1 / 10 ^ 7)) (Fin a) (Fin b) (Fin p) (Fin (x * 1)) (Fin 1) (Fin x) =
          Some (Fin a', Fin b', Fin p', Fin m')" using r by simp
  from Bartky_sign[OF this p x0 x(2)]
  have s: "0 \<le> a \<Longrightarrow> 0 \<le> b \<Longrightarrow> a \<le> a' \<and> 0 \<le> b'" "a \<le> 0 \<Longrightarrow> b \<le> 0 \<Longrightarrow> a' \<le> a \<and> b' \<le> 0"
    by simp_all
  define r' where "r' = pi / 2 * (a' * m' + b') / (m' * (m' + p'))"
  have den: "0 < m' * (m' + p')" using pos by (simp add: add_pos_pos)
  have nz: "m' \<noteq> 0" "m' + p' \<noteq> 0" using pos by simp_all
  have val: "Fin pi / Fin 2 * (Fin a' * Fin m' + Fin b') / (Fin m' * (Fin m' + Fin p')) = Fin r'"
    using nz by (simp add: double_defs r'_def)
  have sgn_pos: "0 < a' * m' + b' \<Longrightarrow> 0 < r'"
    unfolding r'_def using den by (simp add: pi_gt_zero)
  have sgn_neg: "a' * m' + b' < 0 \<Longrightarrow> r' < 0"
    unfolding r'_def using den by (simp add: divide_neg_pos mult_pos_neg)
  have 1: "0 < r'" if "0 < a" "0 \<le> b"
  proof -
    from s(1) that have "0 < a'" "0 \<le> b'" by simp_all
    then have "0 < a' * m' + b'" using pos by (simp add: add_pos_nonneg)
    then show ?thesis by (rule sgn_pos)
  qed
  have 2: "r' < 0" if "a < 0" "b \<le> 0"
  proof -
    from s(2) that have "a' < 0" "b' \<le> 0" by simp_all
    then have "a' * m' < 0" using pos by (simp add: mult_neg_pos)
    then have "a' * m' + b' < 0" using \<open>b' \<le> 0\<close> by simp
    then show ?thesis by (rule sgn_neg)
  qed
  have 3: "r' = 0" if "a = 0" "b = 0"
  proof -
    from s that have "a' = 0" "b' = 0" by simp_all
    then show ?thesis by (simp add: r'_def)
  qed
  show ?thesis unfolding r using val 1 2 3 by auto
qed

text \<open>
  \<open>BulirschCel\<close> on finite arguments with \<open>0 \<le> nc \<le> 1\<close> and either \<open>kc = 0\<close>, \<open>b = 0\<close>
  or \<open>denorm_min \<le> |kc| \<le> 1\<close>: with fuel for 15 iterations the call returns a finite
  value and logs nothing; when \<open>b = 0\<close> the value has the sign of \<open>a\<close>.
\<close>

lemma cel_returns:
  assumes xv: "x = 0 \<and> v = 0 \<or> denorm_min \<le> \<bar>x\<bar> \<and> \<bar>x\<bar> \<le> 1"
    and y: "0 \<le> y" "y \<le> 1" and fuel: "15 \<le> fuel"
  shows "\<exists>r. BulirschCel fuel (Fin x) (Fin y) (Fin u) (Fin v) = Some (Fin r, []) \<and>
           (v = 0 \<longrightarrow> (0 < u \<longrightarrow> 0 < r) \<and> (u < 0 \<longrightarrow> r < 0) \<and> (u = 0 \<longrightarrow> r = 0))"
proof -
  define x' where "x' = (if x = 0 then 1 / 10 ^ 14 else \<bar>x\<bar>)"
  have dm: "0 < denorm_min" unfolding denorm_min_def by simp
  have x': "denorm_min \<le> x'" "x' \<le> 1"
    using xv dm unfolding x'_def denorm_min_def by (auto split: if_splits)
  have x'0: "0 < x'" using x'(1) dm by linarith
  have xv0: "x = 0 \<Longrightarrow> v = 0" using xv dm by auto
  have absx: "\<bar>x'\<bar> = x'" using x'0 by simp
  show ?thesis
  proof (cases "0 < y")
    case True
    then have sy: "0 < sqrt y" by simp
    from cel_loop_result[OF x' sy fuel, of u "v / sqrt y"] obtain r where
      r: "(case Bartky fuel (Fin (1 / 10 ^ 7)) (Fin u) (Fin (v / sqrt y)) (Fin (sqrt y)) (Fin x')
                 (Fin 1) (Fin x') of
            None \<Rightarrow> None
          | Some (a, b, p, m) \<Rightarrow> Some (Fin pi / Fin 2 * (a * m + b) / (m * (m + p)), [])) =
          Some (Fin r, [] :: log_entry list)"
      and s: "0 < u \<longrightarrow> 0 \<le> v / sqrt y \<longrightarrow> 0 < r" "u < 0 \<longrightarrow> v / sqrt y \<le> 0 \<longrightarrow> r < 0"
        "u = 0 \<longrightarrow> v / sqrt y = 0 \<longrightarrow> r = 0"
      by blast
    have "BulirschCel fuel (Fin x) (Fin y) (Fin u) (Fin v) = Some (Fin r, [])"
      using r True y xv0
      unfolding BulirschCel_def
      by (simp add: double_defs Let_def x'_def split: if_splits)
    then show ?thesis using s by auto
  next
    case False
    then have y0: "y = 0" using y by simp
    have sq: "sqrt (x' * x') = x'" using x'0 by simp
    have sq0: "sqrt (1 / 10000000000000000000000000000) = 1 / 100000000000000"
      by (rule real_sqrt_unique) (simp_all add: power2_eq_square)
    have sqa: "sqrt (x * x) = \<bar>x\<bar>" by simp
    from cel_loop_result[OF x' x'0 fuel, of "u - v" "(u - v) * x' - v * (1 - x' * x') / x'"]
    obtain r where
      r: "(case Bartky fuel (Fin (1 / 10 ^ 7)) (Fin (u - v))
                 (Fin ((u - v) * x' - v * (1 - x' * x') / x')) (Fin x') (Fin x') (Fin 1) (Fin x') of
            None \<Rightarrow> None
          | Some (a, b, p, m) \<Rightarrow> Some (Fin pi / Fin 2 * (a * m + b) / (m * (m + p)), [])) =
          Some (Fin r, [] :: log_entry list)"
      and s: "0 < u - v \<longrightarrow> 0 \<le> (u - v) * x' - v * (1 - x' * x') / x' \<longrightarrow> 0 < r"
        "u - v < 0 \<longrightarrow> (u - v) * x' - v * (1 - x' * x') / x' \<le> 0 \<longrightarrow> r < 0"
        "u - v = 0 \<longrightarrow> (u - v) * x' - v * (1 - x' * x') / x' = 0 \<longrightarrow> r = 0"
      by blast
    have eq: "BulirschCel fuel (Fin x) (Fin y) (Fin u) (Fin v) = Some (Fin r, [])"
      using r xv0 sq x'0
      unfolding BulirschCel_def y0
      by (simp add: double_defs Let_def x'_def sq0 split: if_splits)
    have sg: "(0 < u \<longrightarrow> 0 < r) \<and> (u < 0 \<longrightarrow> r < 0) \<and> (u = 0 \<longrightarrow> r = 0)" if "v = 0"
    proof -
      have "0 < u \<Longrightarrow> 0 \<le> u * x'" using x'0 by simp
      moreover have "u < 0 \<Longrightarrow> u * x' \<le> 0" using x'0 by (simp add: mult_nonpos_nonneg)
      ultimately show ?thesis using s that by simp
    qed
    show ?thesis using eq sg by auto
  qed
qed



text \<open>
  Claim C2.  On the domain of \<open>BulirschCel\<close> (\<open>0 \<le> kc \<le> 1\<close>, \<open>0 \<le> nc \<le> 1\<close>, finite
  \<open>a\<close> and \<open>b\<close>, the undefined case \<open>kc = 0\<close>, \<open>b \<noteq> 0\<close> excluded, a positive \<open>kc\<close>
  being at least the smallest positive double), Bartky's loop breaks within 15
  iterations, hence within any budget of at least 15 such as 100, and \<open>BulirschCel\<close>
  returns a value and logs nothing: it is total on its domain.  The source gives the
  loop no budget; the fuel of the model stands for one, and the theorem says that it is
  never used up.
\<close>

theorem BulirschCel_total:
  assumes dom: "cel_domain kc nc a b" and fuel: "15 \<le> fuel"
  shows "\<exists>v. BulirschCel fuel kc nc a b = Some (v, [])"
proof -
  from dom obtain x y u v where
    kc: "kc = Fin x" and nc: "nc = Fin y" and a: "a = Fin u" and b: "b = Fin v"
    unfolding cel_domain_def by (cases kc; cases nc; cases a; cases b) auto
  from dom have x: "0 \<le> x" "x \<le> 1" and y: "0 \<le> y" "y \<le> 1"
    and xv: "if x = 0 then v = 0 else denorm_min \<le> x"
    unfolding cel_domain_def kc nc a b by (auto simp: double_defs split: if_splits)
  have "x = 0 \<and> v = 0 \<or> denorm_min \<le> \<bar>x\<bar> \<and> \<bar>x\<bar> \<le> 1"
    using x xv by (auto split: if_splits)
  from cel_returns[OF this y fuel, of u]
  show ?thesis unfolding kc nc a b by auto
qed

theorem BulirschCel_total_witness:
  "\<exists>v. BulirschCel 100 (Fin (1 / 2)) (Fin (1 / 2)) (Fin 1) (Fin 1) = Some (v, [])"
  using BulirschCel_total[of "Fin (1 / 2)" "Fin (1 / 2)" "Fin 1" "Fin 1" 100]
  by (simp add: cel_domain_def double_defs denorm_min_def)

section \<open>The complete integral of the first kind: the closed forms at the ends\<close>

text \<open>
  Claim C3.  \<open>EllipticK mc\<close> is exactly \<open>\<pi>/2\<close> whenever \<open>|1 - mc| < 1e-16\<close>, in
  particular at \<open>mc = 1\<close>; for \<open>mc\<close> below \<open>1.11e-16\<close> it is
  \<open>1.3862943611198906 - 0.5 ln mc\<close>, where an \<open>mc\<close> below \<open>1e-99\<close> is replaced by
  \<open>1e-99\<close>.
\<close>

theorem EllipticK_special_cases:
  "(abs (Fin 1 - mc) < Fin (1 / 10 ^ 16) \<longrightarrow> EllipticK mc = Fin (pi / 2)) \<and>
   (mc < Fin (1.11 / 10 ^ 16) \<longrightarrow>
      EllipticK mc =
        Fin 1.3862943611198906 -
          Fin 0.5 * dlog (if mc < Fin (1 / 10 ^ 99) then Fin (1 / 10 ^ 99) else mc))"
  by (cases mc) (simp_all add: EllipticK_def Let_def double_defs)

theorem EllipticK_special_cases_witness:
  "EllipticK (Fin 1) = Fin (pi / 2) \<and>
   EllipticK (Fin 0) = Fin 1.3862943611198906 - Fin 0.5 * dlog (Fin (1 / 10 ^ 99)) \<and>
   EllipticK (Fin (1 / 10 ^ 20)) = Fin 1.3862943611198906 - Fin 0.5 * dlog (Fin (1 / 10 ^ 20))"
  using EllipticK_special_cases[of "Fin 1"] EllipticK_special_cases[of "Fin 0"]
    EllipticK_special_cases[of "Fin (1 / 10 ^ 20)"]
  by (simp add: double_defs)

section \<open>The incomplete integrals at the ends of the quarter period\<close>

declare BsDsJs_half_argument.simps [simp del] BcDcJc_half_argument.simps [simp del]

lemma BsDsMaclaurin_finite:
  "\<exists>b d. FukushimaEllipticBsDsMaclaurinSeries (Fin y) (Fin m) = (Fin b, Fin d)"
  unfolding FukushimaEllipticBsDsMaclaurinSeries_def Let_def double_defs
  by simp

lemma JsMaclaurin_finite:
  "\<exists>j. FukushimaEllipticJsMaclaurinSeries (Fin y) (Fin n) (Fin m) = Fin j"
  unfolding FukushimaEllipticJsMaclaurinSeries_def Let_def double_defs
  by simp

lemma BsDsJs_half_argument_at_zero:
  "BsDsJs_half_argument m y s cd (Fin 0) 0 = Inr (y, s, cd, Fin 0, 0)"
  by (simp add: BsDsJs_half_argument.simps double_defs)

lemma BsDsJs_at_zero:
  "FukushimaEllipticBsDsJs (Fin 0) (Fin n) (Fin mc) = Inr (Fin 0, Fin 0, Fin 0)"
proof -
  obtain b d where
    bd: "FukushimaEllipticBsDsMaclaurinSeries (Fin 0) (Fin (1 - mc)) = (Fin b, Fin d)"
    using BsDsMaclaurin_finite by blast
  obtain j where j: "FukushimaEllipticJsMaclaurinSeries (Fin 0) (Fin n) (Fin (1 - mc)) = Fin j"
    using JsMaclaurin_finite by blast
  show ?thesis
    unfolding FukushimaEllipticBsDsJs_def Let_def
    by (simp add: double_defs BsDsJs_half_argument_at_zero bd j new_array_def
        max_transformations_def)
qed

text \<open>
  Claim C9.  For \<open>n\<close> and \<open>mc\<close> in \<open>[0, 1]\<close>, \<open>FukushimaEllipticBsDsJs\<close> at \<open>s\<^sub>0 = 0\<close>
  returns exactly \<open>(0, 0, 0)\<close>: with \<open>y\<^sub>0 = 0\<close> the half argument loop ends at once with
  \<open>i = 0\<close>, and each output is the product of \<open>s[0] = 0\<close> and a finite value.
\<close>

theorem BsDsJs_zero:
  assumes "in_unit_interval n" "in_unit_interval mc"
  shows "FukushimaEllipticBsDsJs (Fin 0) n mc = Inr (Fin 0, Fin 0, Fin 0) \<and>
         BsDsJs_half_argument (Fin 1 - mc) y s cd (Fin 0 * Fin 0) 0 = Inr (y, s, cd, Fin 0, 0)"
  using assms BsDsJs_at_zero BsDsJs_half_argument_at_zero
  by (cases n; cases mc) (simp_all add: double_defs)

theorem BsDsJs_zero_witness:
  "FukushimaEllipticBsDsJs (Fin 0) (Fin (1 / 2)) (Fin (1 / 2)) = Inr (Fin 0, Fin 0, Fin 0) \<and>
   BsDsJs_half_argument (Fin 1 - Fin (1 / 2)) new_array new_array new_array (Fin 0 * Fin 0) 0 =
     Inr (new_array, new_array, new_array, Fin 0, 0)"
  using BsDsJs_zero[of "Fin (1 / 2)" "Fin (1 / 2)" new_array new_array new_array] by simp

section \<open>The incomplete integrals at the quarter period\<close>

lemma FukushimaT_zero: "FukushimaT (Fin 0) (Fin h) = Fin 0"
  by (simp add: FukushimaT_def double_defs)

lemma FukushimaT_NaN: "FukushimaT NaN h = NaN"
  by (cases h) (simp_all add: FukushimaT_def double_defs Let_def)

lemma dadd_zero_right [simp]: "dadd a (Fin 0) = a"
  by (cases a) auto

lemma pi_half_not_small: "\<not> pi / 2 < (1.249 :: real)"
  using pi_gt_3 by simp

lemma cel_1_0_0_1:
  "BulirschCel (Suc fuel) (Fin 1) (Fin 0) (Fin 0) (Fin 1) = Some (Fin (- (pi / 2)), [])"
  by (simp add: BulirschCel_def Let_def double_defs)

lemma BD_at_1: "FukushimaEllipticBD (Fin 1) = (Fin (pi / 4), Fin (pi / 4))"
  by (simp add: FukushimaEllipticBD_def Let_def double_defs)

lemma complete_1_1: "FukushimaEllipticBDJ_complete (Suc fuel) (Fin 0) (Fin 1) =
   Inr ((Fin (pi / 4), Fin (pi / 4), Fin (- (pi / 2))), [])"
  by (simp add: FukushimaEllipticBDJ_complete_def BD_at_1 cel_1_0_0_1)

lemma incomplete_1_1: "FukushimaEllipticBDJ (Suc fuel) (Fin (pi / 2)) (Fin 1) (Fin 1) =
   Inr ((Fin (pi / 4), Fin (pi / 4), NaN), [])"
  unfolding FukushimaEllipticBDJ_def Let_def
  using pi_half_not_small
  by (simp add: double_defs BsDsJs_at_zero FukushimaT_NaN complete_1_1)


lemma BsDsJs_NaN: "FukushimaEllipticBsDsJs NaN n mc = Inr (NaN, NaN, NaN)"
proof -
  have loop: "BsDsJs_half_argument m y s cd NaN 0 = Inr (y, s, cd, NaN, 0)" for m y s cd
    by (simp add: BsDsJs_half_argument.simps double_defs)
  show ?thesis
    unfolding FukushimaEllipticBsDsJs_def Let_def
    by (simp add: double_defs loop new_array_def max_transformations_def
        split: prod.splits)
qed

lemma BcDcJc_NaN: "FukushimaEllipticBcDcJc NaN n mc = Inr (NaN, NaN, NaN)"
proof -
  have loop: "BcDcJc_half_argument mc m y s cd NaN NaN 0 = Inr (y, s, cd, 0)" for mc m y s cd
    by (simp add: BcDcJc_half_argument.simps double_defs)
  show ?thesis
    unfolding FukushimaEllipticBcDcJc_def Let_def
    by (simp add: double_defs loop new_array_def max_transformations_def BsDsJs_NaN)
qed

lemma BD_at_0: "FukushimaEllipticBD (Fin 0) = (Fin 1, PInf)"
  by (simp add: FukushimaEllipticBD_def Let_def double_defs)

lemma complete_at_mc_0: "FukushimaEllipticBDJ_complete fuel (Fin 1) (Fin 0) =
   Inr ((Fin 1, PInf, NaN), [CelUndefined (Fin 0) (Fin 1) (Fin 0) (Fin 1)])"
  by (simp add: FukushimaEllipticBDJ_complete_def BD_at_0 BulirschCel_def Let_def)

lemma incomplete_at_mc_0: "FukushimaEllipticBDJ fuel (Fin (pi / 2)) (Fin 0) (Fin 0) =
   Inr ((NaN, NaN, NaN), [CelUndefined (Fin 0) (Fin 1) (Fin 0) (Fin 1)])"
  unfolding FukushimaEllipticBDJ_def Let_def
  using pi_half_not_small
  by (simp add: double_defs BcDcJc_NaN FukushimaT_NaN complete_at_mc_0)


text \<open>
  The real number \<open>\<pi>/2\<close> is not a double, and the code never receives it; the double
  nearest to it is treated further down.  At the real \<open>\<pi>/2\<close> itself the cosine is
  exactly \<open>0\<close>, and for \<open>0 \<le> n < 1\<close> and \<open>0 < mc \<le> 1\<close> the incomplete integrals of the
  model are the complete integrals at \<open>nc = 1 - n\<close>, for every fuel given to both: the
  residual incomplete integral \<open>FukushimaEllipticBsDsJs 0 n mc\<close> is \<open>(0, 0, 0)\<close> and
  \<open>FukushimaT 0 h\<close> is \<open>0\<close>.
\<close>

theorem BDJ_at_quarter_period:
  assumes n: "n = Fin x" "0 \<le> x" "x < 1" and mc: "mc = Fin y" "0 < y" "y \<le> 1"
  shows "FukushimaEllipticBDJ fuel (Fin (pi / 2)) n mc =
         FukushimaEllipticBDJ_complete fuel (Fin 1 - n) mc"
proof -
  have sq: "sqrt y \<noteq> 0" using mc by simp
  show ?thesis
    unfolding FukushimaEllipticBDJ_def Let_def n(1) mc(1)
    using n mc pi_half_not_small sq
    by (simp add: double_defs BsDsJs_at_zero FukushimaT_zero split: sum.splits prod.splits)
qed

theorem BDJ_at_quarter_period_witness:
  "FukushimaEllipticBDJ 1 (Fin (pi / 2)) (Fin (1 / 2)) (Fin 1) =
   FukushimaEllipticBDJ_complete 1 (Fin 1 - Fin (1 / 2)) (Fin 1)"
  using BDJ_at_quarter_period[of "Fin (1 / 2)" "1 / 2" "Fin 1" 1 1] by simp

text \<open>
  Still at the real \<open>\<pi>/2\<close>, with a cosine of exactly \<open>0\<close>, the two differ at both
  ends of the parameters.  At \<open>n = 1\<close>, \<open>mc = 1\<close> the incomplete integral divides \<open>0\<close>
  by \<open>nc = 0\<close> and returns \<open>J = NaN\<close>, where the complete one returns \<open>J = - \<pi>/2\<close>.
  At \<open>n = 0\<close>, \<open>mc = 0\<close> the incomplete integral divides by \<open>mc + m c\<^sup>2 = 0\<close> and
  returns three \<open>NaN\<close>, where the complete one returns \<open>(1, +\<infinity>, NaN)\<close>.  With the
  cosine of a double, which is not \<open>0\<close>, the code does not take this path at \<open>mc = 0\<close>.
\<close>

theorem BDJ_at_quarter_period_counterexample:
  "FukushimaEllipticBDJ 1 (Fin (pi / 2)) (Fin 1) (Fin 1) =
     Inr ((Fin (pi / 4), Fin (pi / 4), NaN), []) \<and>
   FukushimaEllipticBDJ_complete 1 (Fin 1 - Fin 1) (Fin 1) =
     Inr ((Fin (pi / 4), Fin (pi / 4), Fin (- (pi / 2))), []) \<and>
   FukushimaEllipticBDJ 1 (Fin (pi / 2)) (Fin 0) (Fin 0) =
     Inr ((NaN, NaN, NaN), [CelUndefined (Fin 0) (Fin 1) (Fin 0) (Fin 1)]) \<and>
   FukushimaEllipticBDJ_complete 1 (Fin 1 - Fin 0) (Fin 0) =
     Inr ((Fin 1, PInf, NaN), [CelUndefined (Fin 0) (Fin 1) (Fin 0) (Fin 1)])"
  using incomplete_1_1[of 0] complete_1_1[of 0] incomplete_at_mc_0[of 1] complete_at_mc_0[of 1]
  by (simp add: double_defs)

section \<open>The level bound of the half argument transformations\<close>

text \<open>
  The sine loop divides \<open>y\<close> by \<open>(1 + c) (1 + d)\<close> with \<open>c = \<surd>(1 - y)\<close> and
  \<open>d = \<surd>(1 - m y)\<close>, both at least \<open>\<surd>(1 - y)\<close>.  A chain of five bounds,
  \<open>0.96, 0.67, 0.28, 0.09, 0.024\<close>, each sent below the next by one transformation, ends
  below \<open>0.01622\<close>.
\<close>

lemma BsDsJs_loop_exits_base:
  assumes "Y < 0.01622"
  shows "BsDsJs_loop_exits 0 Y"
  unfolding BsDsJs_loop_exits_def
proof (intro allI impI)
  fix m :: real and y s cd :: "double list" and t :: real and i :: nat
  assume "t \<le> Y"
  with assms have "\<not> 0.01622 \<le> t" by simp
  then show "\<exists>r. BsDsJs_half_argument (Fin m) y s cd (Fin t) i = Inr r"
    by (subst BsDsJs_half_argument.simps) (simp add: double_defs)
qed

lemma BsDsJs_loop_exits_step:
  assumes IH: "BsDsJs_loop_exits k Y'"
    and g: "0 \<le> g" "g * g \<le> 1 - Y" "Y \<le> Y' * ((1 + g) * (1 + g))"
  shows "BsDsJs_loop_exits (Suc k) Y"
  unfolding BsDsJs_loop_exits_def
proof (intro allI impI)
  fix m :: real and y s cd :: "double list" and t :: real and i :: nat
  assume h: "0 \<le> m" "m \<le> 1" "0 \<le> t" "t \<le> Y" "i + Suc k \<le> max_transformations"
  show "\<exists>r. BsDsJs_half_argument (Fin m) y s cd (Fin t) i = Inr r"
  proof (cases "0.01622 \<le> t")
    case False
    then show ?thesis
      by (subst BsDsJs_half_argument.simps) (simp add: double_defs)
  next
    case True
    have i: "i < max_transformations" using h(5) by simp
    have "0 \<le> g * g" by simp
    then have Y1: "Y \<le> 1" using g(2) by linarith
    have t1: "t \<le> 1" using h(4) Y1 by simp
    have mt: "m * t \<le> t" using h by (simp add: mult_left_le_one_le)
    define c where "c = sqrt (1 - t)"
    define d where "d = sqrt (1 - m * t)"
    have "g * g \<le> 1 - t" using g(2) h(4) by simp
    then have "sqrt (g * g) \<le> sqrt (1 - t)" by (simp only: real_sqrt_le_iff)
    then have gc: "g \<le> c" using g(1) unfolding c_def by simp
    have cd: "c \<le> d" unfolding c_def d_def using mt by simp
    have pos: "0 < (1 + c) * (1 + d)" using gc cd g(1) by (simp add: mult_pos_pos)
    have ge: "(1 + g) * (1 + g) \<le> (1 + c) * (1 + d)"
      using gc cd g(1) by (intro mult_mono) simp_all
    define t' where "t' = t / ((1 + c) * (1 + d))"
    have t'0: "0 \<le> t'" unfolding t'_def using h(3) pos by simp
    have "t \<le> Y' * ((1 + g) * (1 + g))" using h(4) g(3) by simp
    also have "\<dots> \<le> Y' * ((1 + c) * (1 + d))"
    proof -
      have K: "0 < (1 + g) * (1 + g)" using g(1) by (simp add: mult_pos_pos)
      have "0 \<le> Y' * ((1 + g) * (1 + g))"
        using \<open>t \<le> Y' * ((1 + g) * (1 + g))\<close> h(3) by linarith
      then have "0 \<le> Y'" using K by (simp add: zero_le_mult_iff)
      then show ?thesis using ge by (simp add: mult_left_mono)
    qed
    finally have t'Y: "t' \<le> Y'" unfolding t'_def using pos by (simp add: field_simps)
    have e1: "dsqrt (Fin 1 - Fin t) = Fin c"
      using t1 by (simp add: double_defs c_def)
    have e2: "dsqrt (Fin 1 - Fin m * Fin t) = Fin d"
      using mt t1 by (simp add: double_defs d_def)
    have nz: "1 + c \<noteq> 0" "1 + d \<noteq> 0"
      using gc cd g(1) by simp_all
    have e3: "Fin t / ((Fin 1 + Fin c) * (Fin 1 + Fin d)) = Fin t'"
      using nz by (simp add: double_defs t'_def)
    have e4: "dsqrt (Fin t') = Fin (sqrt t')"
      using t'0 by simp
    have e5: "Fin c * Fin d = Fin (c * d)"
      by (simp add: double_defs)
    have cond: "Fin 0.01622 \<le> Fin t"
      using True by (simp add: double_defs)
    have step: "BsDsJs_half_argument (Fin m) y s cd (Fin t) i =
        BsDsJs_half_argument (Fin m) (y[i + 1 := Fin t']) (s[i + 1 := Fin (sqrt t')])
          (cd[i := Fin (c * d)]) (Fin t') (i + 1)"
      using cond t'0 i
      by (subst BsDsJs_half_argument.simps) (simp add: Let_def e1 e2 e3 e5)
    have "i + 1 + k \<le> max_transformations" using h(5) by simp
    from IH[unfolded BsDsJs_loop_exits_def, rule_format, OF h(1) h(2) t'0 t'Y this]
    show ?thesis unfolding step .
  qed
qed

lemma BsDsJs_loop_exits_5: "BsDsJs_loop_exits 5 0.96"
proof -
  have 0: "BsDsJs_loop_exits 0 0.016"
    by (rule BsDsJs_loop_exits_base) simp
  have 1: "BsDsJs_loop_exits (Suc 0) 0.024"
    by (rule BsDsJs_loop_exits_step[OF 0, of "0.98"]) simp_all
  have 2: "BsDsJs_loop_exits (Suc (Suc 0)) 0.09"
    by (rule BsDsJs_loop_exits_step[OF 1, of "0.95"]) simp_all
  have 3: "BsDsJs_loop_exits (Suc (Suc (Suc 0))) 0.28"
    by (rule BsDsJs_loop_exits_step[OF 2, of "0.84"]) simp_all
  have 4: "BsDsJs_loop_exits (Suc (Suc (Suc (Suc 0)))) 0.67"
    by (rule BsDsJs_loop_exits_step[OF 3, of "0.57"]) simp_all
  have 5: "BsDsJs_loop_exits (Suc (Suc (Suc (Suc (Suc 0))))) 0.96"
    by (rule BsDsJs_loop_exits_step[OF 4, of "0.2"]) simp_all
  then show ?thesis by (simp add: eval_nat_numeral)
qed

lemma BsDsJs_returns:
  assumes "\<sigma> * \<sigma> \<le> 0.96" "0 \<le> mc" "mc \<le> 1"
  shows "\<exists>r. FukushimaEllipticBsDsJs (Fin \<sigma>) n (Fin mc) = Inr r"
proof -
  have m: "0 \<le> 1 - mc" "1 - mc \<le> 1" using assms by simp_all
  have t: "0 \<le> \<sigma> * \<sigma>" by simp
  have "0 + 5 \<le> max_transformations" by (simp add: max_transformations_def)
  from BsDsJs_loop_exits_5[unfolded BsDsJs_loop_exits_def, rule_format, OF m t assms(1) this]
  obtain r where
    "BsDsJs_half_argument (Fin (1 - mc)) (new_array[0 := Fin (\<sigma> * \<sigma>)]) (new_array[0 := Fin \<sigma>])
       new_array (Fin (\<sigma> * \<sigma>)) 0 = Inr r"
    by blast
  then show ?thesis
    unfolding FukushimaEllipticBsDsJs_def Let_def
    by (simp add: double_defs case_prod_beta) (metis prod_cases3)
qed

text \<open>
  The cosine loop replaces \<open>x\<close> by \<open>(c + d) / (1 + d)\<close> with \<open>c = \<surd>x\<close> and
  \<open>d = \<surd>(mc + m x) \<ge> c\<close>, which is at least \<open>c\<close>: one transformation takes the
  square root of a lower bound of \<open>x\<close>.  Ten of them bring \<open>0.11 ^ 1024\<close>, which is less
  than the square of the smallest positive double, above \<open>0.1\<close>.
\<close>

lemma BcDcJc_loop_exits_base:
  assumes "0.1 < L"
  shows "BcDcJc_loop_exits 0 L"
  unfolding BcDcJc_loop_exits_def
proof (intro allI impI)
  fix mc :: real and y s cd :: "double list" and c x :: real and i :: nat
  assume h: "0 \<le> c" "x = c * c" "x \<le> 1" "L \<le> x" "s ! i = Fin (sqrt (1 - x))"
  have x: "\<not> x \<le> 0.1" using assms h(4) by simp
  have r: "BcDcJc_half_argument (Fin mc) (Fin (1 - mc)) y s cd (Fin c) (Fin x) i = Inr (y, s, cd, i)"
    using x by (subst BcDcJc_half_argument.simps) (simp add: double_defs)
  have "sqrt (1 - x) * sqrt (1 - x) = 1 - x" using h(3) by simp
  then have "sqrt (1 - x) * sqrt (1 - x) \<le> 0.9" using x by simp
  then show "\<exists>y' s' cd' i' \<sigma>.
          BcDcJc_half_argument (Fin mc) (Fin (1 - mc)) y s cd (Fin c) (Fin x) i =
            Inr (y', s', cd', i') \<and>
          s' ! i' = Fin \<sigma> \<and> 0 \<le> \<sigma> \<and> \<sigma> * \<sigma> \<le> 0.9"
    unfolding r using h(5) h(3) by auto
qed

lemma BcDcJc_loop_exits_step:
  assumes IH: "BcDcJc_loop_exits k L'" and L': "0 \<le> L'"
  shows "BcDcJc_loop_exits (Suc k) (L' * L')"
  unfolding BcDcJc_loop_exits_def
proof (intro allI impI)
  fix mc :: real and y s cd :: "double list" and c x :: real and i :: nat
  assume h: "0 \<le> mc" "mc \<le> 1" "0 \<le> c" "x = c * c" "x \<le> 1" "L' * L' \<le> x"
    "i + Suc k \<le> max_transformations" "length s = max_transformations + 1"
    "s ! i = Fin (sqrt (1 - x))"
  show "\<exists>y' s' cd' i' \<sigma>.
          BcDcJc_half_argument (Fin mc) (Fin (1 - mc)) y s cd (Fin c) (Fin x) i =
            Inr (y', s', cd', i') \<and>
          s' ! i' = Fin \<sigma> \<and> 0 \<le> \<sigma> \<and> \<sigma> * \<sigma> \<le> 0.9"
  proof (cases "x \<le> 0.1")
    case False
    have r: "BcDcJc_half_argument (Fin mc) (Fin (1 - mc)) y s cd (Fin c) (Fin x) i =
        Inr (y, s, cd, i)"
      using False by (subst BcDcJc_half_argument.simps) (simp add: double_defs)
    have "sqrt (1 - x) * sqrt (1 - x) = 1 - x" using h(5) by simp
    then have "sqrt (1 - x) * sqrt (1 - x) \<le> 0.9" using False by simp
    then show ?thesis unfolding r using h(9) h(5) by auto
  next
    case True
    have i: "i < max_transformations" using h(7) by simp
    have c1: "c \<le> 1"
    proof (rule ccontr)
      assume "\<not> c \<le> 1"
      then have "1 < c" by simp
      then have "1 * 1 < c * c" by (intro mult_strict_mono) simp_all
      then show False using h(4,5) by simp
    qed
    define d where "d = sqrt (mc + (1 - mc) * x)"
    have x0: "0 \<le> x" using h(4) by simp
    have arg: "0 \<le> mc + (1 - mc) * x" using h(1,2) x0 by simp
    have d0: "0 \<le> d" unfolding d_def using arg by simp
    have "c * c \<le> mc + (1 - mc) * x"
    proof -
      have "mc + (1 - mc) * x = x + mc * (1 - x)" by (simp add: algebra_simps)
      moreover have "0 \<le> mc * (1 - x)" using h(1,5) by simp
      ultimately show ?thesis using h(4) by simp
    qed
    then have "sqrt (c * c) \<le> sqrt (mc + (1 - mc) * x)" by (simp only: real_sqrt_le_iff)
    then have cd: "c \<le> d" unfolding d_def using h(3) by simp
    define x' where "x' = (c + d) / (1 + d)"
    have den: "0 < 1 + d" using d0 by simp
    have x'1: "x' \<le> 1" unfolding x'_def using den c1 by (simp add: field_simps)
    have x'c: "c \<le> x'"
    proof -
      have "c * d \<le> 1 * d" using c1 d0 by (rule mult_right_mono)
      then have "c * (1 + d) \<le> c + d" by (simp add: algebra_simps)
      then show ?thesis unfolding x'_def using den by (simp add: field_simps)
    qed
    have x'0: "0 \<le> x'" using x'c h(3) by simp
    have "sqrt (L' * L') \<le> sqrt x" using h(6) by (simp only: real_sqrt_le_iff)
    then have "L' \<le> c" using L' h(3,4) by simp
    then have Lx': "L' \<le> x'" using x'c by simp
    define c' where "c' = sqrt x'"
    have c'0: "0 \<le> c'" unfolding c'_def using x'0 by simp
    have c'x': "x' = c' * c'" unfolding c'_def using x'0 by simp
    define s' where "s' = s[i + 1 := Fin (sqrt (1 - x'))]"
    have e1: "dsqrt (Fin mc + Fin (1 - mc) * Fin x) = Fin d"
      using arg by (simp add: double_defs d_def)
    have nz: "1 + d \<noteq> 0" using den by simp
    have e2: "(Fin c + Fin d) / (Fin 1 + Fin d) = Fin x'"
      using nz by (simp add: double_defs x'_def)
    have e3: "Fin 1 - Fin x' = Fin (1 - x')" by (simp add: double_defs)
    have e4: "Fin c * Fin d = Fin (c * d)" by (simp add: double_defs)
    have cond: "Fin x \<le> Fin 0.1" using True by (simp add: double_defs)
    have step: "BcDcJc_half_argument (Fin mc) (Fin (1 - mc)) y s cd (Fin c) (Fin x) i =
        BcDcJc_half_argument (Fin mc) (Fin (1 - mc)) (y[i + 1 := Fin (1 - x')]) s'
          (cd[i := Fin (c * d)]) (Fin c') (Fin x') (i + 1)"
      using cond i x'0 x'1
      by (subst BcDcJc_half_argument.simps) (simp add: Let_def e1 e2 e3 e4 s'_def c'_def)
    have len: "length s' = max_transformations + 1" unfolding s'_def using h(8) by simp
    have si: "s' ! (i + 1) = Fin (sqrt (1 - x'))"
      unfolding s'_def using h(8) i by simp
    have k: "i + 1 + k \<le> max_transformations" using h(7) by simp
    from IH[unfolded BcDcJc_loop_exits_def, rule_format, OF h(1) h(2) c'0 c'x' x'1 Lx' k len si]
    show ?thesis unfolding step .
  qed
qed

lemma BcDcJc_loop_exits_pow: "BcDcJc_loop_exits j ((11 / 100) ^ (2 ^ j))"
proof (induction j)
  case 0
  show ?case by (rule BcDcJc_loop_exits_base) simp
next
  case (Suc j)
  have "BcDcJc_loop_exits (Suc j) ((11 / 100) ^ (2 ^ j) * (11 / 100) ^ (2 ^ j))"
    by (rule BcDcJc_loop_exits_step[OF Suc.IH]) simp
  moreover have "(11 / 100 :: real) ^ (2 ^ j) * (11 / 100) ^ (2 ^ j) = (11 / 100) ^ (2 ^ Suc j)"
    by (simp add: power_add[symmetric] mult_2)
  ultimately show ?case by simp
qed

lemma BcDcJc_loop_exits_mono:
  assumes "BcDcJc_loop_exits k L" "L \<le> L'"
  shows "BcDcJc_loop_exits k L'"
  using assms unfolding BcDcJc_loop_exits_def by (meson order_trans)

lemma denorm_min_square_bound: "(11 / 100 :: real) ^ (2 ^ 10) \<le> denorm_min * denorm_min"
proof -
  have a: "(11 / 100 :: real) ^ 8 \<le> (1 / 2) ^ 17" by (simp add: power_divide)
  have "((11 / 100 :: real) ^ 8) ^ 128 \<le> ((1 / 2) ^ 17) ^ 128"
    by (rule power_mono[OF a]) simp
  then have "(11 / 100 :: real) ^ (8 * 128) \<le> (1 / 2) ^ (17 * 128)"
    by (simp only: power_mult)
  then have b: "(11 / 100 :: real) ^ 1024 \<le> (1 / 2) ^ 2176" by simp
  have c: "(1 / 2 :: real) ^ 2176 \<le> (1 / 2) ^ 2148"
    by (rule power_decreasing) simp_all
  have d: "denorm_min * denorm_min = (1 / 2) ^ 2148"
    unfolding denorm_min_def by (simp only: power_one_over power_add[symmetric]) simp
  have e: "(2 :: nat) ^ 10 = 1024" by simp
  show ?thesis unfolding d e using b c by (rule order_trans)
qed

lemma BcDcJc_loop_exits_10: "BcDcJc_loop_exits 10 (denorm_min * denorm_min)"
  by (rule BcDcJc_loop_exits_mono[OF BcDcJc_loop_exits_pow denorm_min_square_bound])

lemma BcDcJc_returns:
  assumes g: "denorm_min \<le> \<gamma>" "\<gamma> \<le> 1" and mc: "0 \<le> mc" "mc \<le> 1"
  shows "\<exists>r. FukushimaEllipticBcDcJc (Fin \<gamma>) n (Fin mc) = Inr r"
proof -
  have dm: "0 \<le> denorm_min" by (simp add: denorm_min_def)
  have g0: "0 \<le> \<gamma>" using dm g(1) by simp
  have x1: "\<gamma> * \<gamma> \<le> 1" using g0 g(2) by (simp add: mult_le_one)
  have L: "denorm_min * denorm_min \<le> \<gamma> * \<gamma>" using dm g(1) by (intro mult_mono) simp_all
  define s where "s = new_array[0 := Fin (sqrt (1 - \<gamma> * \<gamma>))]"
  have len: "length s = max_transformations + 1" by (simp add: s_def new_array_def)
  have s0: "s ! 0 = Fin (sqrt (1 - \<gamma> * \<gamma>))"
    by (simp add: s_def new_array_def max_transformations_def)
  have k: "0 + 10 \<le> max_transformations" by (simp add: max_transformations_def)
  from BcDcJc_loop_exits_10[unfolded BcDcJc_loop_exits_def, rule_format,
      OF mc g0 refl x1 L k len s0]
  obtain y' s' cd' i' \<sigma> where
    loop: "BcDcJc_half_argument (Fin mc) (Fin (1 - mc)) (new_array[0 := Fin (1 - \<gamma> * \<gamma>)]) s
        new_array (Fin \<gamma>) (Fin (\<gamma> * \<gamma>)) 0 = Inr (y', s', cd', i')"
    and s: "s' ! i' = Fin \<sigma>" "\<sigma> * \<sigma> \<le> 0.9"
    by blast
  have "\<sigma> * \<sigma> \<le> 0.96" using s(2) by simp
  from BsDsJs_returns[OF this mc]
  obtain r where r: "FukushimaEllipticBsDsJs (Fin \<sigma>) n (Fin mc) = Inr r" by blast
  have nx: "\<not> 1 < \<gamma> * \<gamma>" using x1 by simp
  show ?thesis
    unfolding FukushimaEllipticBcDcJc_def Let_def
    using loop r s(1) nx
    by (simp add: double_defs s_def[symmetric] case_prod_beta) (metis prod_cases3)
qed

lemma cos_lower_bound: "1 - p * p / 2 \<le> cos (p :: real)"
proof -
  have "\<bar>sin (p / 2)\<bar> \<le> \<bar>p / 2\<bar>" by (rule abs_sin_x_le_abs_x)
  then have "\<bar>sin (p / 2)\<bar> * \<bar>sin (p / 2)\<bar> \<le> \<bar>p / 2\<bar> * \<bar>p / 2\<bar>"
    by (intro mult_mono) simp_all
  then have a: "sin (p / 2) * sin (p / 2) \<le> p * p / 4" by (simp add: abs_mult_self_eq)
  have "cos (2 * (p / 2)) = 1 - 2 * sin (p / 2) ^ 2" by (rule cos_double_sin)
  then have "cos p = 1 - 2 * (sin (p / 2) * sin (p / 2))" by (simp add: power2_eq_square)
  then show ?thesis using a by simp
qed

lemma sin_square_bound:
  assumes "0 \<le> p" "p < 1.249"
  shows "sin p * sin p \<le> (0.96 :: real)"
proof -
  have "p * p \<le> 1.249 * 1.249" using assms by (intro mult_mono) simp_all
  then have "1 / 5 \<le> 1 - p * p / 2" by simp
  then have c: "1 / 5 \<le> cos p" using cos_lower_bound[of p] by simp
  have "(1 / 5) * (1 / 5) \<le> cos p * cos p" using c by (intro mult_mono) simp_all
  moreover have "sin p * sin p + cos p * cos p = 1"
    using sin_cos_squared_add[of p] by (simp add: power2_eq_square)
  ultimately show ?thesis by simp
qed

lemma complete_not_level_bound:
  "FukushimaEllipticBDJ_complete fuel nc mc \<noteq> Inl LevelBoundExceeded"
  unfolding FukushimaEllipticBDJ_complete_def Let_def
  by (simp add: case_prod_beta split: option.splits)

text \<open>
  The half argument loops fail in one way only, and the complete integrals return when
  the loop of \<open>BulirschCel\<close> has fuel for 15 iterations.
\<close>

lemma BsDsJs_half_argument_failure_aux:
  "max_transformations - i = k \<Longrightarrow> BsDsJs_half_argument m y s cd y_i i = Inl f \<Longrightarrow>
     f = LevelBoundExceeded"
proof (induction k arbitrary: y s cd y_i i)
  case 0
  from "0.prems" show ?case
    by (subst (asm) BsDsJs_half_argument.simps) (auto simp: Let_def split: if_splits)
next
  case (Suc k)
  show ?case
  proof (cases "Fin 0.01622 \<le> y_i \<and> i < max_transformations")
    case True
    have "\<exists>y' s' cd' y_i'. BsDsJs_half_argument m y' s' cd' y_i' (i + 1) = Inl f"
      using Suc.prems(2) True
      by (subst (asm) BsDsJs_half_argument.simps) (simp add: Let_def, blast)
    then obtain y' s' cd' y_i' where
      r: "BsDsJs_half_argument m y' s' cd' y_i' (i + 1) = Inl f" by blast
    have "max_transformations - (i + 1) = k" using Suc.prems(1) by simp
    from Suc.IH[OF this r] show ?thesis .
  next
    case False
    with Suc.prems(2) show ?thesis
      by (subst (asm) BsDsJs_half_argument.simps) (auto simp: Let_def split: if_splits)
  qed
qed

lemma BsDsJs_half_argument_failure:
  "BsDsJs_half_argument m y s cd y_i i = Inl f \<Longrightarrow> f = LevelBoundExceeded"
  by (rule BsDsJs_half_argument_failure_aux[OF refl])

lemma BcDcJc_half_argument_failure_aux:
  "max_transformations - i = k \<Longrightarrow> BcDcJc_half_argument mc m y s cd c_i x_i i = Inl f \<Longrightarrow>
     f = LevelBoundExceeded"
proof (induction k arbitrary: y s cd c_i x_i i)
  case 0
  from "0.prems" show ?case
    by (subst (asm) BcDcJc_half_argument.simps) (auto simp: Let_def split: if_splits)
next
  case (Suc k)
  show ?case
  proof (cases "x_i \<le> Fin 0.1 \<and> i < max_transformations")
    case True
    have "\<exists>y' s' cd' c_i' x_i'. BcDcJc_half_argument mc m y' s' cd' c_i' x_i' (i + 1) = Inl f"
      using Suc.prems(2) True
      by (subst (asm) BcDcJc_half_argument.simps) (simp add: Let_def, blast)
    then obtain y' s' cd' c_i' x_i' where
      r: "BcDcJc_half_argument mc m y' s' cd' c_i' x_i' (i + 1) = Inl f" by blast
    have "max_transformations - (i + 1) = k" using Suc.prems(1) by simp
    from Suc.IH[OF this r] show ?thesis .
  next
    case False
    with Suc.prems(2) show ?thesis
      by (subst (asm) BcDcJc_half_argument.simps) (auto simp: Let_def split: if_splits)
  qed
qed

lemma BcDcJc_half_argument_failure:
  "BcDcJc_half_argument mc m y s cd c_i x_i i = Inl f \<Longrightarrow> f = LevelBoundExceeded"
  by (rule BcDcJc_half_argument_failure_aux[OF refl])

lemma BsDsJs_failure: "FukushimaEllipticBsDsJs s0 n mc = Inl f \<Longrightarrow> f = LevelBoundExceeded"
  unfolding FukushimaEllipticBsDsJs_def Let_def
  by (auto simp: case_prod_beta split: sum.splits dest: BsDsJs_half_argument_failure)

lemma BcDcJc_failure: "FukushimaEllipticBcDcJc c0 n mc = Inl f \<Longrightarrow> f = LevelBoundExceeded"
  unfolding FukushimaEllipticBcDcJc_def Let_def
  by (auto simp: case_prod_beta split: sum.splits
        dest: BcDcJc_half_argument_failure BsDsJs_failure)

lemma BDJ_failure:
  "FukushimaEllipticBDJ fuel \<phi> n mc = Inl f \<Longrightarrow>
     f = LevelBoundExceeded \<or> FukushimaEllipticBDJ_complete fuel (Fin 1 - n) mc = Inl f"
  unfolding FukushimaEllipticBDJ_def Let_def
  by (auto split: if_splits sum.splits prod.splits dest: BsDsJs_failure BcDcJc_failure)

lemma complete_returns:
  assumes fuel: "15 \<le> fuel" and nc: "0 \<le> nc" "nc \<le> 1" and y: "0 \<le> y" "y \<le> 1"
    and rep: "y = 0 \<or> denorm_min \<le> sqrt y"
  shows "\<exists>r. FukushimaEllipticBDJ_complete fuel (Fin nc) (Fin y) = Inr r"
proof (cases "y = 0")
  case True
  then show ?thesis
    unfolding FukushimaEllipticBDJ_complete_def Let_def
    by (simp add: case_prod_beta BulirschCel_def)
next
  case False
  have s1: "sqrt y \<le> 1" using y by simp
  have s0: "0 \<le> sqrt y" using y by simp
  have "sqrt y = 0 \<and> (1 :: real) = 0 \<or> denorm_min \<le> \<bar>sqrt y\<bar> \<and> \<bar>sqrt y\<bar> \<le> 1"
    using rep False s1 s0 by simp
  from cel_returns[OF this nc fuel, of 0] obtain r where
    "BulirschCel fuel (Fin (sqrt y)) (Fin nc) (Fin 0) (Fin 1) = Some (Fin r, [])" by blast
  then show ?thesis
    unfolding FukushimaEllipticBDJ_complete_def Let_def
    using y by (simp add: case_prod_beta)
qed

text \<open>
  Claim C8.  For every angle \<open>\<phi>\<close> in \<open>[0, \<pi>/2]\<close>, every \<open>mc\<close> in \<open>[0, 1]\<close> and every
  \<open>n\<close> (those of \<open>[0, 1]\<close> among them), \<open>FukushimaEllipticBDJ\<close> does not end in the level
  bound error: in the call of \<open>FukushimaEllipticBsDsJs\<close> or
  \<open>FukushimaEllipticBcDcJc\<close> that it makes, and in the call of
  \<open>FukushimaEllipticBsDsJs\<close> that the latter makes, the half argument loop reaches
  \<open>y < 0.01622\<close>, respectively \<open>x > 0.1\<close>, with \<open>i \<le> max_transformations = 10\<close>, so that
  every write to the arrays of \<open>max_transformations + 1\<close> elements is within bounds.
  Arithmetic is exact; of the type double the proof uses that the cosine of the angle,
  where it is not zero, is at least the smallest positive value \<open>denorm_min\<close>.
\<close>

theorem BDJ_level_bound_unreachable:
  assumes p: "0 \<le> p" "p \<le> pi / 2" and y: "0 \<le> y" "y \<le> 1"
    and rep: "cos p = 0 \<or> denorm_min \<le> cos p"
  shows "FukushimaEllipticBDJ fuel (Fin p) n (Fin y) \<noteq> Inl LevelBoundExceeded"
proof (cases "p < 1.249")
  case True
  from BsDsJs_returns[OF sin_square_bound[OF p(1) True] y]
  obtain b d j where "FukushimaEllipticBsDsJs (Fin (sin p)) n (Fin y) = Inr (b, d, j)"
    by (metis prod_cases3)
  then show ?thesis
    unfolding FukushimaEllipticBDJ_def Let_def using True by (simp add: double_defs)
next
  case False
  define c where "c = cos p"
  have c0: "0 \<le> c" unfolding c_def using p by (intro cos_ge_zero) simp_all
  have c1: "c \<le> 1" unfolding c_def by simp
  define D where "D = y + (1 - y) * (c * c)"
  have cc0: "0 \<le> c * c" by simp
  have cc1: "c * c \<le> 1" using c0 c1 by (simp add: mult_le_one)
  have Dcc: "D = c * c + y * (1 - c * c)" unfolding D_def by (simp add: algebra_simps)
  have ycc: "0 \<le> y * (1 - c * c)" using y(1) cc1 by simp
  have DgeCC: "c * c \<le> D" unfolding Dcc using ycc by simp
  have e_c: "cos p = c" by (simp add: c_def)
  have e_c2: "Fin c * Fin c = Fin (c * c)" by (simp add: double_defs)
  have e_D: "Fin y + (Fin 1 - Fin y) * Fin (c * c) = Fin D" by (simp add: double_defs D_def)
  have e_num: "Fin y * (Fin 1 - Fin (c * c)) = Fin (y * (1 - c * c))" by (simp add: double_defs)
  have notA: "\<not> Fin p < Fin 1.249" using False by (simp add: double_defs)
  have complete: "FukushimaEllipticBDJ_complete fuel (Fin 1 - n) (Fin y) \<noteq> Inl LevelBoundExceeded"
    by (rule complete_not_level_bound)
  show ?thesis
  proof (cases "c * c < 0.9 * D")
    case True
    have "0 < 0.9 * D" using True cc0 by linarith
    then have Dpos: "0 < D" by simp
    define z where "z = c / sqrt D"
    have "z * z = c * c / (sqrt D * sqrt D)" unfolding z_def by simp
    also have "\<dots> = c * c / D" using Dpos by simp
    finally have zz: "z * z = c * c / D" .
    have "c * c / D < 0.9" using True Dpos by (simp add: pos_divide_less_eq)
    then have "z * z \<le> 0.96" unfolding zz by simp
    from BsDsJs_returns[OF this y]
    obtain b d j where r: "FukushimaEllipticBsDsJs (Fin z) n (Fin y) = Inr (b, d, j)"
      by (metis prod_cases3)
    have condB: "Fin (c * c) < Fin 0.9 * Fin D" using True by (simp add: double_defs)
    have nD: "\<not> D < 0" using Dpos by simp
    have e_z: "Fin c / Fin (sqrt D) = Fin z" using Dpos by (simp add: double_defs z_def)
    show ?thesis
      unfolding FukushimaEllipticBDJ_def Let_def using notA condB complete nD
      by (auto simp add: e_c e_c2 e_D e_z r split: sum.splits prod.splits)
  next
    case notB: False
    have condB: "\<not> Fin (c * c) < Fin 0.9 * Fin D" using notB by (simp add: double_defs)
    show ?thesis
    proof (cases "y * (1 - c * c) < c * c * D")
      case True
      have "c \<noteq> 0" using True y(1) by auto
      then have "denorm_min \<le> c" using rep unfolding c_def by simp
      from BcDcJc_returns[OF this c1 y]
      obtain b d j where r: "FukushimaEllipticBcDcJc (Fin c) n (Fin y) = Inr (b, d, j)"
        by (metis prod_cases3)
      have condC: "Fin (y * (1 - c * c)) < Fin (c * c) * Fin D"
        using True by (simp add: double_defs)
      show ?thesis
        unfolding FukushimaEllipticBDJ_def Let_def using notA condB condC
        by (simp add: e_c e_c2 e_D e_num r)
    next
      case notC: False
      have condC: "\<not> Fin (y * (1 - c * c)) < Fin (c * c) * Fin D"
        using notC by (simp add: double_defs)
      show ?thesis
      proof (cases "c = 0")
        case True
        have "D = y" unfolding D_def using True by simp
        then have "y = 0" using notB True y(1) by simp
        then have e_arg: "dsqrt (Fin y * ((Fin 1 - Fin (c * c)) / Fin D)) = NaN"
          using True \<open>D = y\<close> by (simp add: double_defs)
        show ?thesis
          unfolding FukushimaEllipticBDJ_def Let_def using notA condB condC complete
          by (auto simp add: e_c e_c2 e_D e_num e_arg BcDcJc_NaN split: sum.splits prod.splits)
      next
        case False
        then have cpos: "0 < c" using c0 by simp
        then have "0 < c * c" by simp
        then have Dpos: "0 < D" using DgeCC by linarith
        define w2 where "w2 = y * ((1 - c * c) / D)"
        define w where "w = sqrt w2"
        have w2eq: "w2 = y * (1 - c * c) / D" unfolding w2_def by simp
        have "c * c * D \<le> y * (1 - c * c)" using notC by simp
        then have lo: "c * c \<le> w2" unfolding w2eq using Dpos by (simp add: pos_le_divide_eq)
        have "y * (1 - c * c) \<le> D" unfolding Dcc using cc0 by simp
        then have hi: "w2 \<le> 1" unfolding w2eq using Dpos by (simp add: pos_divide_le_eq)
        have "sqrt (c * c) \<le> sqrt w2" using lo by (simp only: real_sqrt_le_iff)
        then have cw: "c \<le> w" unfolding w_def using c0 by simp
        have "sqrt w2 \<le> sqrt 1" using hi by (simp only: real_sqrt_le_iff)
        then have w1: "w \<le> 1" unfolding w_def by simp
        have "denorm_min \<le> c" using rep False unfolding c_def by simp
        then have "denorm_min \<le> w" using cw by simp
        from BcDcJc_returns[OF this w1 y]
        obtain b d j where r: "FukushimaEllipticBcDcJc (Fin w) n (Fin y) = Inr (b, d, j)"
          by (metis prod_cases3)
        have w20: "0 \<le> w2" using lo cc0 by linarith
        have Dnz: "D \<noteq> 0" using Dpos by simp
        have e_arg: "dsqrt (Fin y * ((Fin 1 - Fin (c * c)) / Fin D)) = Fin w"
          using w20 Dnz by (simp add: double_defs w_def w2_def)
        show ?thesis
          unfolding FukushimaEllipticBDJ_def Let_def using notA condB condC complete
          by (auto simp add: e_c e_c2 e_D e_num e_arg r split: sum.splits prod.splits)
      qed
    qed
  qed
qed

text \<open>
  At \<open>\<phi> = 11/8\<close>, \<open>n = 1/2\<close>, \<open>mc = 1/1024\<close> the cosine of the angle is about \<open>0.19\<close>
  and the call goes to \<open>FukushimaEllipticBcDcJc\<close>, whose loop is entered with
  \<open>x = cos\<^sup>2 \<phi> \<approx> 0.038 \<le> 0.1\<close>; the call returns a value.
\<close>

theorem BDJ_level_bound_unreachable_witness:
  "(0 :: real) \<le> 11 / 8 \<and> (11 / 8 :: real) \<le> pi / 2 \<and> denorm_min \<le> cos (11 / 8) \<and>
   (\<exists>r. FukushimaEllipticBDJ 100 (Fin (11 / 8)) (Fin (1 / 2)) (Fin (1 / 1024)) = Inr r)"
proof -
  have p: "(11 / 8 :: real) \<le> pi / 2" using pi_gt_3 by simp
  have "(7 / 128 :: real) \<le> cos (11 / 8)" using cos_lower_bound[of "11 / 8"] by simp
  moreover have "denorm_min \<le> 7 / 128" by (simp add: denorm_min_def)
  ultimately have c: "denorm_min \<le> cos (11 / 8)" by simp
  have y: "(0 :: real) \<le> 1 / 1024" "(1 / 1024 :: real) \<le> 1" by simp_all
  have "(0 :: real) \<le> 11 / 8" by simp
  from BDJ_level_bound_unreachable[OF this p y, of 100 "Fin (1 / 2)"] c
  have 1: "FukushimaEllipticBDJ 100 (Fin (11 / 8)) (Fin (1 / 2)) (Fin (1 / 1024)) \<noteq>
      Inl LevelBoundExceeded" by simp
  have sq: "sqrt (1 / 1024) = 1 / 32"
    by (rule real_sqrt_unique) (simp_all add: power2_eq_square)
  have "denorm_min \<le> sqrt (1 / 1024)" unfolding sq by (simp add: denorm_min_def)
  then have "\<exists>r. FukushimaEllipticBDJ_complete 100 (Fin (1 / 2)) (Fin (1 / 1024)) = Inr r"
    by (intro complete_returns) simp_all
  then have 2: "FukushimaEllipticBDJ_complete 100 (Fin 1 - Fin (1 / 2)) (Fin (1 / 1024)) \<noteq> Inl f"
    for f by (auto simp: double_defs)
  have "\<exists>r. FukushimaEllipticBDJ 100 (Fin (11 / 8)) (Fin (1 / 2)) (Fin (1 / 1024)) = Inr r"
  proof (cases "FukushimaEllipticBDJ 100 (Fin (11 / 8)) (Fin (1 / 2)) (Fin (1 / 1024))")
    case (Inl f)
    from BDJ_failure[OF Inl] 1 2 Inl show ?thesis by auto
  next
    case (Inr r)
    then show ?thesis by blast
  qed
  then show ?thesis using p c by simp
qed

section \<open>The incomplete integrals at the double nearest to \<open>\<pi>/2\<close>\<close>

text \<open>
  Bounds on the values of the Maclaurin series, from bounds on their arguments: every
  sum, difference and product is bounded by the sum or product of the bounds of its
  operands.
\<close>

lemma dbounded_const: "dbounded (Fin c) \<bar>c\<bar>"
  by (simp add: dbounded_def)

lemma dbounded_quot: "dbounded (Fin a / Fin (numeral k)) (\<bar>a\<bar> / numeral k)"
proof -
  have "Fin a / Fin (numeral k) = Fin (a / numeral k)" by (simp add: double_defs)
  moreover have "\<bar>a / numeral k\<bar> \<le> \<bar>a\<bar> / numeral k" by simp
  ultimately show ?thesis unfolding dbounded_def by blast
qed

lemma dbounded_add: "dbounded a A \<Longrightarrow> dbounded b B \<Longrightarrow> dbounded (a + b) (A + B)"
  unfolding dbounded_def by (auto simp: double_defs)

lemma dbounded_diff: "dbounded a A \<Longrightarrow> dbounded b B \<Longrightarrow> dbounded (a - b) (A + B)"
  unfolding dbounded_def by (auto simp: double_defs)

lemma dbounded_mult: "dbounded a A \<Longrightarrow> dbounded b B \<Longrightarrow> dbounded (a * b) (A * B)"
  unfolding dbounded_def by (auto simp: double_defs abs_mult intro!: mult_mono)

lemma dbounded_weaken: "dbounded x K' \<Longrightarrow> K' \<le> K \<Longrightarrow> dbounded x K"
  unfolding dbounded_def by force

lemmas dbounded_intros = dbounded_quot dbounded_const dbounded_add dbounded_diff dbounded_mult

lemma BsDsMaclaurin_bounds:
  assumes y: "dbounded y 1" and m: "dbounded m 1"
  shows "\<exists>rb d. FukushimaEllipticBsDsMaclaurinSeries y m = (Fin 1 + y * rb, d) \<and>
           dbounded rb 3 \<and> dbounded d 2"
  unfolding FukushimaEllipticBsDsMaclaurinSeries_def Let_def
  apply (intro exI conjI)
    apply (rule refl)
   apply (rule dbounded_weaken)
    apply (rule dbounded_intros y m)+
   apply simp
  apply (rule dbounded_weaken)
   apply (rule dbounded_intros y m)+
  apply simp
  done


lemma JsMaclaurin_bounds:
  assumes c: "y \<le> Fin (6.0369310 / 10 ^ 4)"
    and y: "dbounded y 1" and n: "dbounded n 1" and m: "dbounded m 1"
  shows "\<exists>rj. FukushimaEllipticJsMaclaurinSeries y n m = y * rj \<and> dbounded rj 3"
  unfolding FukushimaEllipticJsMaclaurinSeries_def Let_def
  apply (simp only: c if_True)
  apply (intro exI conjI)
   apply (rule refl)
  apply (rule dbounded_weaken)
   apply (rule dbounded_intros y n m)+
  apply simp
  done

text \<open>
  \<open>FukushimaEllipticBsDsJs\<close> at a small \<open>z\<close>: the loop is not entered, and the three
  results are \<open>z (1 + O(z\<^sup>2))\<close>, \<open>O(z\<^sup>3)\<close> and \<open>O(z\<^sup>3)\<close>.
\<close>

lemma BsDsJs_small:
  assumes z: "z * z \<le> 1 / 10 ^ 4" and n: "\<bar>n\<bar> \<le> 1" and mc: "0 \<le> mc" "mc \<le> 1"
  shows "\<exists>\<rho> \<delta> \<eta>. \<bar>\<rho>\<bar> \<le> 3 \<and> \<bar>\<delta>\<bar> \<le> 2 \<and> \<bar>\<eta>\<bar> \<le> 3 \<and>
           FukushimaEllipticBsDsJs (Fin z) (Fin n) (Fin mc) =
             Inr (Fin (z * (1 + z * z * \<rho>)), Fin (z * (z * z) * \<delta>), Fin (z * (z * z * \<eta>)))"
proof -
  have zz: "0 \<le> z * z" by simp
  have y: "dbounded (Fin (z * z)) 1" unfolding dbounded_def using z zz by auto
  have m: "dbounded (Fin (1 - mc)) 1" unfolding dbounded_def using mc by auto
  have n': "dbounded (Fin n) 1" unfolding dbounded_def using n by auto
  have c: "Fin (z * z) \<le> Fin (6.0369310 / 10 ^ 4)" using z by (simp add: double_defs)
  from BsDsMaclaurin_bounds[OF y m] obtain \<rho> \<delta> where
    bd: "FukushimaEllipticBsDsMaclaurinSeries (Fin (z * z)) (Fin (1 - mc)) =
           (Fin 1 + Fin (z * z) * Fin \<rho>, Fin \<delta>)"
    and r: "\<bar>\<rho>\<bar> \<le> 3" "\<bar>\<delta>\<bar> \<le> 2"
    unfolding dbounded_def by blast
  from JsMaclaurin_bounds[OF c y n' m] obtain \<eta> where
    j: "FukushimaEllipticJsMaclaurinSeries (Fin (z * z)) (Fin n) (Fin (1 - mc)) =
          Fin (z * z) * Fin \<eta>"
    and e: "\<bar>\<eta>\<bar> \<le> 3"
    unfolding dbounded_def by blast
  have loop: "BsDsJs_half_argument m' y' s' cd' (Fin (z * z)) 0 = Inr (y', s', cd', Fin (z * z), 0)"
    for m' y' s' cd'
    using z by (simp add: BsDsJs_half_argument.simps double_defs)
  have "FukushimaEllipticBsDsJs (Fin z) (Fin n) (Fin mc) =
          Inr (Fin (z * (1 + z * z * \<rho>)), Fin (z * (z * z) * \<delta>), Fin (z * (z * z * \<eta>)))"
    unfolding FukushimaEllipticBsDsJs_def Let_def
    by (simp add: double_defs loop bd j new_array_def max_transformations_def)
  with r e show ?thesis by blast
qed

lemma FukushimaT_tiny:
  assumes "\<bar>h * t * t\<bar> < 6755399494042587 / 2 ^ 104"
  shows "FukushimaT (Fin t) (Fin h) = Fin t"
  using assms unfolding FukushimaT_def Let_def
  by (simp add: double_defs)

text \<open>
  The arithmetic of the call at the double nearest to \<open>\<pi>/2\<close>, where the cosine \<open>c\<close>
  lies between \<open>6e-17\<close> and \<open>6.2e-17\<close>: the branch taken, the size of \<open>z\<close>, the
  argument of \<open>FukushimaT\<close> and the three corrections to the complete integrals.
\<close>

lemma sqrt_ge_self:
  fixes u :: real
  assumes "0 \<le> u" "u \<le> 1"
  shows "u \<le> sqrt u"
proof -
  have s: "0 \<le> sqrt u" "sqrt u \<le> 1" using assms by simp_all
  have "u = sqrt u * sqrt u" using assms by simp
  also have "\<dots> \<le> sqrt u * 1" using s by (intro mult_left_mono) simp_all
  finally show ?thesis by simp
qed

lemma quarter_period_reals:
  fixes c mc n :: real
  assumes c: "6 / 10 ^ 17 \<le> c" "c \<le> 62 / 10 ^ 18"
    and n: "0 \<le> n" "n < 1" and mc: "0 < mc" "mc \<le> 1"
    and away: "1 / 10 ^ 16 \<le> (1 - n) * mc"
    and D: "D = mc + (1 - mc) * (c * c)" and z: "z = c / sqrt D"
    and sz: "sz = z * sqrt (1 - c * c)" and t: "t = sz / (1 - n)"
    and h: "h = n * (1 - n) * (n - (1 - mc))"
  shows "0 < D" "c * c < 0.9 * D" "0 < z" "z * z \<le> 1 / 10 ^ 4"
    "\<bar>h * t * t\<bar> < 6755399494042587 / 2 ^ 104"
    "\<bar>\<rho>\<bar> \<le> 3 \<Longrightarrow> \<bar>z * (1 + z * z * \<rho>) - sz\<bar> \<le> 1 / 10 ^ 47 / (mc * sqrt mc)"
    "\<bar>\<delta>\<bar> \<le> 2 \<Longrightarrow> 0 < z * (z * z) * \<delta> + sz \<and> z * (z * z) * \<delta> + sz \<le> 1 / 10 ^ 15 / sqrt mc"
    "\<bar>\<eta>\<bar> \<le> 3 \<Longrightarrow> 0 < z * (z * z * \<eta>) + t \<and> z * (z * z * \<eta>) + t \<le> 1 / 10 ^ 15 / ((1 - n) * sqrt mc)"
proof -
  define nc where "nc = 1 - n"
  have nc: "0 < nc" "nc \<le> 1" unfolding nc_def using n by simp_all
  have c0: "0 < c" using c(1) by (rule less_le_trans[rotated]) simp
  have cc0: "0 \<le> c * c" by simp
  have "c * c \<le> (62 / 10 ^ 18) * (62 / 10 ^ 18)" using c(2) c0 by (intro mult_mono) simp_all
  then have cc: "c * c \<le> 3844 / 10 ^ 36" by simp
  have "nc * mc \<le> 1 * mc" using nc mc by (intro mult_right_mono) simp_all
  with away have mclo: "1 / 10 ^ 16 \<le> mc" unfolding nc_def by simp
  have "nc * mc \<le> nc * 1" using nc mc by (intro mult_left_mono) simp_all
  with away have nclo: "1 / 10 ^ 16 \<le> nc" unfolding nc_def by simp
  have "0 \<le> (1 - mc) * (c * c)" using mc by simp
  then have Dmc: "mc \<le> D" unfolding D by simp
  show Dpos: "0 < D" using Dmc mc by linarith
  have "(1 - mc) * (c * c) \<le> (1 - mc) * 1" using mc cc by (intro mult_left_mono) simp_all
  then have D1: "D \<le> 1" unfolding D by simp
  show "c * c < 0.9 * D" using cc Dmc mclo by simp
  define s where "s = sqrt D"
  have s0: "0 < s" unfolding s_def using Dpos by simp
  have s1: "s \<le> 1" unfolding s_def using D1 by simp
  have ss: "s * s = D" unfolding s_def using Dpos by simp
  define r where "r = sqrt mc"
  have r0: "0 < r" unfolding r_def using mc by simp
  have rr: "r * r = mc" unfolding r_def using mc by simp
  have rs: "r \<le> s" unfolding r_def s_def using Dmc by simp
  have r1: "r \<le> 1" using rs s1 by simp
  have zs: "z = c / s" unfolding z s_def ..
  show z0: "0 < z" unfolding zs using c0 s0 by simp
  have zz: "z * z = c * c / D" unfolding zs using ss by simp
  have "z \<le> c / r" unfolding zs using rs r0 c0 by (intro divide_left_mono) (simp_all add: s0)
  also have "\<dots> \<le> (62 / 10 ^ 18) / r" using c(2) r0 by (intro divide_right_mono) simp_all
  finally have zr: "z \<le> (62 / 10 ^ 18) / r" .
  have "c * c / D \<le> c * c / mc" using Dmc mc cc0 by (intro divide_left_mono) simp_all
  also have "\<dots> \<le> (3844 / 10 ^ 36) / mc" using cc mc by (intro divide_right_mono) simp_all
  also have "\<dots> \<le> (3844 / 10 ^ 36) / (1 / 10 ^ 16)"
    using mclo by (intro divide_left_mono) simp_all
  finally have zzs: "z * z \<le> 3844 / 10 ^ 20" unfolding zz by simp
  then show "z * z \<le> 1 / 10 ^ 4" by simp
  have zz0: "0 \<le> z * z" by simp
  have ccz: "c * c \<le> z * z"
  proof -
    have "c * c = z * z * D" unfolding zz using Dpos by simp
    also have "\<dots> \<le> z * z * 1" using D1 zz0 by (intro mult_left_mono) simp_all
    finally show ?thesis by simp
  qed
  define q where "q = sqrt (1 - c * c)"
  have u: "0 \<le> 1 - c * c" "1 - c * c \<le> 1" using cc by simp_all
  have q1: "q \<le> 1" unfolding q_def using u by simp
  have q0: "0 \<le> q" unfolding q_def using u by simp
  have qlo: "1 - c * c \<le> q" unfolding q_def by (rule sqrt_ge_self[OF u])
  have qz: "1 - z * z \<le> q" using qlo ccz by linarith
  have szq: "sz = z * q" unfolding sz q_def ..
  have tq: "t = z * q / nc" unfolding t szq nc_def ..
  have z3: "0 \<le> z * (z * z)" using z0 zz0 by simp

  have zsmall: "z * z \<le> 1 / 1000" using zzs by simp

  show "\<bar>h * t * t\<bar> < 6755399494042587 / 2 ^ 104"
  proof -
    have habs: "\<bar>h\<bar> \<le> nc"
    proof -
      have a: "\<bar>n - (1 - mc)\<bar> \<le> 1" using n mc by (simp add: abs_le_iff)
      have e: "\<bar>h\<bar> = n * nc * \<bar>n - (1 - mc)\<bar>"
        unfolding h nc_def using n by (simp add: abs_mult)
      have "n * nc \<le> 1 * nc" using n nc by (intro mult_right_mono) simp_all
      then have b: "n * nc \<le> nc" by simp
      have "n * nc * \<bar>n - (1 - mc)\<bar> \<le> nc * 1"
        using b a nc by (intro mult_mono) simp_all
      then show ?thesis unfolding e by simp
    qed
    have t0: "0 \<le> t" unfolding tq using z0 q0 nc by simp
    have "t \<le> z / nc" unfolding tq using q1 z0 nc
      by (intro divide_right_mono) (simp_all add: mult_left_le)
    then have "t * t \<le> (z / nc) * (z / nc)" using t0 by (intro mult_mono) simp_all
    then have tt: "t * t \<le> z * z / (nc * nc)" by simp
    have "\<bar>h * t * t\<bar> = \<bar>h\<bar> * (t * t)" by (simp add: abs_mult mult.assoc)
    also have "\<dots> \<le> nc * (z * z / (nc * nc))"
      using habs tt by (intro mult_mono) simp_all
    also have "\<dots> = z * z / nc" using nc by simp
    also have "\<dots> = c * c / (D * nc)" unfolding zz by simp
    also have "\<dots> \<le> c * c / (mc * nc)"
      using Dmc mc nc cc0 by (intro divide_left_mono mult_right_mono mult_pos_pos) simp_all
    also have "\<dots> \<le> (3844 / 10 ^ 36) / (mc * nc)"
      using cc mc nc by (intro divide_right_mono) simp_all
    also have "\<dots> \<le> (3844 / 10 ^ 36) / (1 / 10 ^ 16)"
      using away nc mc unfolding nc_def
      by (intro divide_left_mono) (simp_all add: mult.commute)
    also have "\<dots> < 6755399494042587 / 2 ^ 104" by simp
    finally show ?thesis .
  qed

  have rinv: "(62 / 10 ^ 18) / r \<le> (1 / 10 ^ 15) / (101 / 100) / r"
    using r0 by (intro divide_right_mono) simp_all

  show "\<bar>z * (1 + z * z * \<rho>) - sz\<bar> \<le> 1 / 10 ^ 47 / (mc * sqrt mc)" if rho: "\<bar>\<rho>\<bar> \<le> 3"
  proof -
    have e: "z * (1 + z * z * \<rho>) - sz = z * (z * z * \<rho> + (1 - q))"
      unfolding szq by (simp add: algebra_simps)
    have "\<bar>z * z * \<rho>\<bar> \<le> z * z * 3" using rho zz0 by (simp add: abs_mult mult_left_mono)
    moreover have "\<bar>1 - q\<bar> \<le> z * z" using q1 qz by simp
    ultimately have "\<bar>z * z * \<rho> + (1 - q)\<bar> \<le> 4 * (z * z)" by linarith
    then have "\<bar>z * (z * z * \<rho> + (1 - q))\<bar> \<le> z * (4 * (z * z))"
      using z0 by (simp add: abs_mult)
    then have b: "\<bar>z * (1 + z * z * \<rho>) - sz\<bar> \<le> 4 * (z * z * z)"
      unfolding e by (simp add: mult_ac)
    define Z where "Z = (62 / 10 ^ 18) / r"
    have Z0: "0 \<le> Z" unfolding Z_def using r0 by simp
    have zZ: "z \<le> Z" unfolding Z_def by (rule zr)
    have "z * z \<le> Z * Z" using zZ z0 by (intro mult_mono) simp_all
    then have "z * z * z \<le> Z * Z * Z" using zZ z0 Z0 by (intro mult_mono) simp_all
    moreover have "Z * Z * Z = (62 / 10 ^ 18) * (62 / 10 ^ 18) * (62 / 10 ^ 18) / (mc * r)"
      unfolding Z_def using rr by (simp add: mult_ac)
    ultimately have "4 * (z * z * z) \<le> 4 * ((62 / 10 ^ 18) * (62 / 10 ^ 18) * (62 / 10 ^ 18)) / (mc * r)"
      by simp
    also have "\<dots> \<le> (1 / 10 ^ 47) / (mc * r)"
      using mc r0 by (intro divide_right_mono) simp_all
    finally show ?thesis using b unfolding r_def by linarith
  qed

  show "0 < z * (z * z) * \<delta> + sz \<and> z * (z * z) * \<delta> + sz \<le> 1 / 10 ^ 15 / sqrt mc"
    if delta: "\<bar>\<delta>\<bar> \<le> 2"
  proof -
    have e: "z * (z * z) * \<delta> + sz = z * (z * z * \<delta> + q)"
      unfolding szq by (simp add: algebra_simps)
    have a: "\<bar>z * z * \<delta>\<bar> \<le> z * z * 2" using delta zz0 by (simp add: abs_mult mult_left_mono)
    have lo: "1 / 2 \<le> z * z * \<delta> + q" using a qz zsmall by linarith
    have hi: "z * z * \<delta> + q \<le> 101 / 100" using a q1 zsmall by linarith
    have "0 < z * z * \<delta> + q" using lo by linarith
    then have "0 < z * (z * z * \<delta> + q)" using z0 by (rule mult_pos_pos[rotated])
    moreover have "z * (z * z * \<delta> + q) \<le> z * (101 / 100)"
      using hi z0 by (intro mult_left_mono) simp_all
    moreover have "z * (101 / 100) \<le> (62 / 10 ^ 18) / r * (101 / 100)"
      using zr by (intro mult_right_mono) simp_all
    moreover have "(62 / 10 ^ 18) / r * (101 / 100) \<le> (1 / 10 ^ 15) / r"
      using r0 by (simp add: field_simps)
    ultimately show ?thesis unfolding e r_def by linarith
  qed

  show "0 < z * (z * z * \<eta>) + t \<and> z * (z * z * \<eta>) + t \<le> 1 / 10 ^ 15 / ((1 - n) * sqrt mc)"
    if eta: "\<bar>\<eta>\<bar> \<le> 3"
  proof -
    have inv: "1 \<le> 1 / nc" using nc by simp
    have e: "z * (z * z * \<eta>) + t = z * (z * z * \<eta> + q / nc)"
      unfolding tq by (simp add: algebra_simps)
    have a: "\<bar>z * z * \<eta>\<bar> \<le> z * z * 3" using eta zz0 by (simp add: abs_mult mult_left_mono)
    have "q * 1 \<le> q * (1 / nc)" using inv q0 by (intro mult_left_mono) simp_all
    then have qnc: "q \<le> q / nc" by simp
    have "q / nc \<le> 1 / nc" using q1 nc by (intro divide_right_mono) simp_all
    moreover have "z * z * 3 \<le> (3 / 100) * (1 / nc)"
    proof -
      have "z * z * 3 \<le> 3 / 100" using zsmall by simp
      also have "\<dots> = (3 / 100) * 1" by simp
      also have "\<dots> \<le> (3 / 100) * (1 / nc)" using inv by (intro mult_left_mono) simp_all
      finally show ?thesis .
    qed
    ultimately have hi: "z * z * \<eta> + q / nc \<le> (103 / 100) * (1 / nc)" using a by linarith
    have lo: "1 / 2 \<le> z * z * \<eta> + q / nc" using a qz qnc zsmall by linarith
    have "0 < z * z * \<eta> + q / nc" using lo by linarith
    then have "0 < z * (z * z * \<eta> + q / nc)" using z0 by (rule mult_pos_pos[rotated])
    moreover have "z * (z * z * \<eta> + q / nc) \<le> z * ((103 / 100) * (1 / nc))"
      using hi z0 by (intro mult_left_mono) simp_all
    moreover have "z * ((103 / 100) * (1 / nc)) \<le> (62 / 10 ^ 18) / r * ((103 / 100) * (1 / nc))"
      using zr nc by (intro mult_right_mono) simp_all
    moreover have "(62 / 10 ^ 18) / r * ((103 / 100) * (1 / nc)) \<le> (1 / 10 ^ 15) / (nc * r)"
      using r0 nc by (simp add: field_simps)
    ultimately show ?thesis unfolding e r_def nc_def by linarith
  qed
qed

lemma sqrt_1e16: "sqrt (1 / 10 ^ 16) = 1 / 10 ^ 8"
  by (rule real_sqrt_unique) (simp_all add: power2_eq_square)

lemma double_pi_2_not_small: "\<not> double_pi_2 < 1.249"
  by (simp add: double_pi_2_def)

text \<open>
  The call at the double nearest to \<open>\<pi>/2\<close>: it returns the complete integrals less
  three corrections, which are positive for \<open>D\<close> and \<open>J\<close>.
\<close>

lemma BDJ_at_double_pi_2:
  assumes n: "0 \<le> n" "n < 1" and mc: "0 < mc" "mc \<le> 1"
    and away: "1 / 10 ^ 16 \<le> (1 - n) * mc" and fuel: "15 \<le> fuel"
  shows "\<exists>bc dc jc lg \<delta>B \<delta>D \<delta>J.
      FukushimaEllipticBDJ_complete fuel (Fin 1 - Fin n) (Fin mc) = Inr ((bc, dc, jc), lg) \<and>
      FukushimaEllipticBDJ fuel (Fin double_pi_2) (Fin n) (Fin mc) =
        Inr ((bc - Fin \<delta>B, dc - Fin \<delta>D, jc - Fin \<delta>J), lg) \<and>
      \<bar>\<delta>B\<bar> \<le> 1 / 10 ^ 47 / (mc * sqrt mc) \<and>
      0 < \<delta>D \<and> \<delta>D \<le> 1 / 10 ^ 15 / sqrt mc \<and>
      0 < \<delta>J \<and> \<delta>J \<le> 1 / 10 ^ 15 / ((1 - n) * sqrt mc)"
proof -
  define c where "c = cos double_pi_2"
  define D where "D = mc + (1 - mc) * (c * c)"
  define z where "z = c / sqrt D"
  define sz where "sz = z * sqrt (1 - c * c)"
  define t where "t = sz / (1 - n)"
  define h where "h = n * (1 - n) * (n - (1 - mc))"
  have c: "6 / 10 ^ 17 \<le> c" "c \<le> 62 / 10 ^ 18"
    unfolding c_def by (rule cos_double_pi_2)+
  note R = quarter_period_reals[OF c n mc away D_def z_def sz_def t_def h_def]
  have Dpos: "0 < D" by (rule R(1))
  have nn: "\<bar>n\<bar> \<le> 1" using n by simp
  have mc0: "0 \<le> mc" using mc by simp
  from BsDsJs_small[OF R(4) nn mc0 mc(2)] obtain \<rho> \<delta> \<eta> where
    b: "\<bar>\<rho>\<bar> \<le> 3" "\<bar>\<delta>\<bar> \<le> 2" "\<bar>\<eta>\<bar> \<le> 3"
    and r: "FukushimaEllipticBsDsJs (Fin z) (Fin n) (Fin mc) =
        Inr (Fin (z * (1 + z * z * \<rho>)), Fin (z * (z * z) * \<delta>), Fin (z * (z * z * \<eta>)))"
    by blast
  have "(1 - n) * mc \<le> 1 * mc" using n mc by (intro mult_right_mono) simp_all
  with away have mclo: "1 / 10 ^ 16 \<le> mc" by simp
  have "sqrt (1 / 10 ^ 16) \<le> sqrt mc" using mclo by (simp only: real_sqrt_le_iff)
  then have "1 / 10 ^ 8 \<le> sqrt mc" unfolding sqrt_1e16 .
  moreover have "denorm_min \<le> 1 / 10 ^ 8" by (simp add: denorm_min_def)
  ultimately have rep: "mc = 0 \<or> denorm_min \<le> sqrt mc" by simp
  have nc: "0 \<le> 1 - n" "1 - n \<le> 1" using n by simp_all
  from complete_returns[OF fuel nc mc0 mc(2) rep] obtain r' where
    r': "FukushimaEllipticBDJ_complete fuel (Fin (1 - n)) (Fin mc) = Inr r'" by blast
  obtain a lg where a: "r' = (a, lg)" by (cases r')
  obtain bc dc jc where "a = (bc, dc, jc)" by (cases a)
  with r' a have
    "FukushimaEllipticBDJ_complete fuel (Fin (1 - n)) (Fin mc) = Inr ((bc, dc, jc), lg)"
    by simp
  then have comp: "FukushimaEllipticBDJ_complete fuel (Fin 1 - Fin n) (Fin mc) =
      Inr ((bc, dc, jc), lg)"
    by (simp add: double_defs)
  have u: "0 \<le> 1 - c * c"
  proof -
    have "c * c \<le> 1 * 1" using c by (intro mult_mono) simp_all
    then show ?thesis by simp
  qed
  have nz: "1 - n \<noteq> 0" using n by simp
  have e_c: "cos double_pi_2 = c" by (simp add: c_def)
  have e_c2: "Fin c * Fin c = Fin (c * c)" by (simp add: double_defs)
  have e_D: "Fin mc + (Fin 1 - Fin mc) * Fin (c * c) = Fin D" by (simp add: double_defs D_def)
  have nD: "\<not> D < 0" using Dpos by simp
  have e_z: "Fin c / Fin (sqrt D) = Fin z" using Dpos by (simp add: double_defs z_def)
  have e_sz: "Fin z * dsqrt (Fin 1 - Fin (c * c)) = Fin sz"
    using u by (simp add: double_defs sz_def)
  have e_t: "Fin sz / (Fin 1 - Fin n) = Fin t" using nz by (simp add: double_defs t_def)
  have e_h: "Fin n * (Fin 1 - Fin n) * (Fin n - (Fin 1 - Fin mc)) = Fin h"
    by (simp add: double_defs h_def)
  have e_T: "FukushimaT (Fin t) (Fin h) = Fin t" by (rule FukushimaT_tiny[OF R(5)])
  have e_b: "Fin (z * (1 + z * z * \<rho>)) - Fin sz = Fin (z * (1 + z * z * \<rho>) - sz)"
    by (simp add: double_defs)
  have e_d: "Fin (z * (z * z) * \<delta>) + Fin sz = Fin (z * (z * z) * \<delta> + sz)"
    by (simp add: double_defs)
  have e_j: "Fin (z * (z * z * \<eta>)) + Fin t = Fin (z * (z * z * \<eta>) + t)"
    by (simp add: double_defs)
  have notA: "\<not> Fin double_pi_2 < Fin 1.249"
    using double_pi_2_not_small by (simp add: double_defs)
  have condB: "Fin (c * c) < Fin 0.9 * Fin D" using R(2) by (simp add: double_defs)
  have inc: "FukushimaEllipticBDJ fuel (Fin double_pi_2) (Fin n) (Fin mc) =
      Inr ((bc - Fin (z * (1 + z * z * \<rho>) - sz), dc - Fin (z * (z * z) * \<delta> + sz),
            jc - Fin (z * (z * z * \<eta>) + t)), lg)"
    unfolding FukushimaEllipticBDJ_def Let_def using notA condB nD
    by (simp add: e_c e_c2 e_D e_z r comp e_sz e_t e_h e_T e_b e_d e_j)
  show ?thesis
    using comp inc R(6)[OF b(1)] R(7)[OF b(2)] R(8)[OF b(3)] by blast
qed

text \<open>
  Claim C6, as amended.  At the double nearest to \<open>\<pi>/2\<close>, which is what \<open>\<phi> = \<pi>/2\<close>
  is in the code, for \<open>0 \<le> n < 1\<close> and \<open>0 < mc \<le> 1\<close> with \<open>(1 - n) mc \<ge> 1e-16\<close> and
  with fuel for 15 iterations of the loop of \<open>BulirschCel\<close>, the incomplete integrals
  are the complete integrals at \<open>nc = 1 - n\<close> less three corrections: one of at most
  \<open>1e-47 / (mc \<surd>mc)\<close> for \<open>B\<close>, one of at most \<open>1e-15 / \<surd>mc\<close> for \<open>D\<close> and one of at
  most \<open>1e-15 / ((1 - n) \<surd>mc)\<close> for \<open>J\<close>.  The cosine of that double is about
  \<open>6.1e-17\<close>, not zero, so the two triples are close and need not be equal.  Arithmetic
  is exact; the bounds on \<open>D\<close> and \<open>J\<close> leave room for the rounding of the code.
\<close>

theorem BDJ_near_quarter_period:
  assumes "0 \<le> n" "n < 1" "0 < mc" "mc \<le> 1" "1 / 10 ^ 16 \<le> (1 - n) * mc" "15 \<le> fuel"
  shows "\<exists>bc dc jc lg \<delta>B \<delta>D \<delta>J.
      FukushimaEllipticBDJ_complete fuel (Fin 1 - Fin n) (Fin mc) = Inr ((bc, dc, jc), lg) \<and>
      FukushimaEllipticBDJ fuel (Fin double_pi_2) (Fin n) (Fin mc) =
        Inr ((bc - Fin \<delta>B, dc - Fin \<delta>D, jc - Fin \<delta>J), lg) \<and>
      \<bar>\<delta>B\<bar> \<le> 1 / 10 ^ 47 / (mc * sqrt mc) \<and>
      \<bar>\<delta>D\<bar> \<le> 1 / 10 ^ 15 / sqrt mc \<and>
      \<bar>\<delta>J\<bar> \<le> 1 / 10 ^ 15 / ((1 - n) * sqrt mc)"
proof -
  from BDJ_at_double_pi_2[OF assms] obtain bc dc jc lg \<delta>B \<delta>D \<delta>J where
    1: "FukushimaEllipticBDJ_complete fuel (Fin 1 - Fin n) (Fin mc) = Inr ((bc, dc, jc), lg)"
    and 2: "FukushimaEllipticBDJ fuel (Fin double_pi_2) (Fin n) (Fin mc) =
        Inr ((bc - Fin \<delta>B, dc - Fin \<delta>D, jc - Fin \<delta>J), lg)"
    and 3: "\<bar>\<delta>B\<bar> \<le> 1 / 10 ^ 47 / (mc * sqrt mc)"
    and 4: "0 < \<delta>D" "\<delta>D \<le> 1 / 10 ^ 15 / sqrt mc"
    and 5: "0 < \<delta>J" "\<delta>J \<le> 1 / 10 ^ 15 / ((1 - n) * sqrt mc)"
    by blast
  have "\<bar>\<delta>D\<bar> \<le> 1 / 10 ^ 15 / sqrt mc" using 4 by simp
  moreover have "\<bar>\<delta>J\<bar> \<le> 1 / 10 ^ 15 / ((1 - n) * sqrt mc)" using 5 by simp
  ultimately show ?thesis using 1 2 3 by blast
qed

theorem BDJ_near_quarter_period_witness:
  "\<exists>bc dc jc lg \<delta>B \<delta>D \<delta>J.
      FukushimaEllipticBDJ_complete 100 (Fin 1 - Fin (1 / 4)) (Fin (1 / 4)) =
        Inr ((bc, dc, jc), lg) \<and>
      FukushimaEllipticBDJ 100 (Fin double_pi_2) (Fin (1 / 4)) (Fin (1 / 4)) =
        Inr ((bc - Fin \<delta>B, dc - Fin \<delta>D, jc - Fin \<delta>J), lg) \<and>
      \<bar>\<delta>B\<bar> \<le> 1 / 10 ^ 47 / (1 / 4 * sqrt (1 / 4)) \<and>
      \<bar>\<delta>D\<bar> \<le> 1 / 10 ^ 15 / sqrt (1 / 4) \<and>
      \<bar>\<delta>J\<bar> \<le> 1 / 10 ^ 15 / ((1 - 1 / 4) * sqrt (1 / 4))"
  by (rule BDJ_near_quarter_period) simp_all

text \<open>
  Claim C6, as stated, fails at \<open>n = 1/2\<close>, \<open>mc = 1\<close>: the complete integrals are
  \<open>B = D = \<pi>/4\<close>, and at the double nearest to \<open>\<pi>/2\<close> the incomplete \<open>D\<close> is \<open>\<pi>/4\<close>
  less a positive correction of about \<open>6.1e-17\<close>.
\<close>

theorem BDJ_double_quarter_period_counterexample:
  "FukushimaEllipticBDJ 100 (Fin double_pi_2) (Fin (1 / 2)) (Fin 1) \<noteq>
   FukushimaEllipticBDJ_complete 100 (Fin 1 - Fin (1 / 2)) (Fin 1)"
proof -
  have "\<exists>bc dc jc lg \<delta>B \<delta>D \<delta>J.
      FukushimaEllipticBDJ_complete 100 (Fin 1 - Fin (1 / 2)) (Fin 1) = Inr ((bc, dc, jc), lg) \<and>
      FukushimaEllipticBDJ 100 (Fin double_pi_2) (Fin (1 / 2)) (Fin 1) =
        Inr ((bc - Fin \<delta>B, dc - Fin \<delta>D, jc - Fin \<delta>J), lg) \<and>
      \<bar>\<delta>B\<bar> \<le> 1 / 10 ^ 47 / (1 * sqrt 1) \<and>
      0 < \<delta>D \<and> \<delta>D \<le> 1 / 10 ^ 15 / sqrt 1 \<and>
      0 < \<delta>J \<and> \<delta>J \<le> 1 / 10 ^ 15 / ((1 - 1 / 2) * sqrt 1)"
    by (rule BDJ_at_double_pi_2) simp_all
  then obtain bc dc jc lg \<delta>B \<delta>D \<delta>J where
    1: "FukushimaEllipticBDJ_complete 100 (Fin 1 - Fin (1 / 2)) (Fin 1) = Inr ((bc, dc, jc), lg)"
    and 2: "FukushimaEllipticBDJ 100 (Fin double_pi_2) (Fin (1 / 2)) (Fin 1) =
        Inr ((bc - Fin \<delta>B, dc - Fin \<delta>D, jc - Fin \<delta>J), lg)"
    and 3: "0 < \<delta>D"
    by blast
  have "dc = Fin (pi / 4)"
    using 1 unfolding FukushimaEllipticBDJ_complete_def Let_def BD_at_1
    by (auto split: option.splits)
  then have "dc - Fin \<delta>D = Fin (pi / 4 - \<delta>D)" by (simp add: double_defs)
  then have "dc - Fin \<delta>D \<noteq> dc" using 3 \<open>dc = Fin (pi / 4)\<close> by simp
  then show ?thesis unfolding 1 2 by simp
qed

section \<open>The Jacobi functions: parity\<close>

declare scd2_halving.simps [simp del] scd2_conditional_duplication.simps [simp del]
  scd2_complementary_duplication.simps [simp del]

lemma Scd2_at_zero:
  assumes "0 < y" "y \<le> 1"
  shows "\<exists>c d. Scd2 (Fin 0) (Fin y) = ((Fin 0, c, d), [])"
proof -
  have uT: "0 < 5.217 / 10 ^ 3 - (1 - y) * (2.143 / 10 ^ 3)"
    using assms by (simp add: algebra_simps)
  have h: "scd2_halving (Fin (5.217 / 10 ^ 3 - (1 - y) * (2.143 / 10 ^ 3))) (Fin 0) 0
            = (0, Fin 0, False)"
    using uT by (subst scd2_halving.simps) (simp add: double_defs)
  have uA: "0 < 1.76269 + y * 1.16357" using assms by (simp add: add_pos_pos)
  show ?thesis
    unfolding Scd2_def Let_def
    using h uA by (simp add: double_defs)
qed

lemma double_to_int_inf: "double_to_int (PInf / k) = None"
  by (cases k) (auto simp: double_defs)

lemma double_to_int_NaN: "double_to_int (NaN / k) = None"
  by (cases k) (auto simp: double_defs)

text \<open>
  Claim C4.  For every double \<open>u\<close> and every \<open>mc\<close> in \<open>(0, 1]\<close>: if \<open>Gscd u mc\<close> yields
  \<open>(s, c, d)\<close> then \<open>Gscd (- u) mc\<close>, from the same saved variables of \<open>elk\<close>, yields
  \<open>(- s, c, d)\<close> with the same messages and saved variables, and if the one yields
  nothing so does the other.  The computation reads \<open>u\<close> through \<open>|u|\<close> and through the
  last test \<open>u < 0\<close> only; at \<open>u = 0\<close> the value of \<open>s\<close> is \<open>0\<close>.
\<close>

theorem Gscd_parity:
  assumes mc: "mc = Fin y" "0 < y" "y \<le> 1"
  shows "Gscd (- u) mc saved = map_option negate_sn (Gscd u mc saved)"
proof (cases u)
  case (Fin x)
  consider "x < 0" | "x = 0" | "0 < x" by linarith
  then show ?thesis
  proof cases
    case 1
    then show ?thesis
      unfolding Gscd_def Let_def Fin negate_sn_def
      by (simp add: double_defs split: prod.splits option.splits)
  next
    case 2
    from Scd2_at_zero[OF mc(2,3)] obtain c d where "Scd2 (Fin 0) (Fin y) = ((Fin 0, c, d), [])"
      by blast
    then show ?thesis
      unfolding Gscd_def Let_def Fin negate_sn_def 2 mc(1)
      by (simp add: double_defs)
  next
    case 3
    then show ?thesis
      unfolding Gscd_def Let_def Fin negate_sn_def
      by (simp add: double_defs split: prod.splits option.splits)
  qed
next
  case PInf
  then show ?thesis
    unfolding Gscd_def Let_def negate_sn_def
    by (simp add: double_defs double_to_int_inf[unfolded double_defs] split: prod.splits)
next
  case NInf
  then show ?thesis
    unfolding Gscd_def Let_def negate_sn_def
    by (simp add: double_defs double_to_int_inf[unfolded double_defs] split: prod.splits)
next
  case NaN
  then show ?thesis
    unfolding Gscd_def Let_def negate_sn_def
    by (simp add: double_defs double_to_int_NaN[unfolded double_defs] split: prod.splits)
qed

theorem Gscd_parity_witness:
  "Gscd (- Fin 2) (Fin (1 / 2)) elk_before_first_call =
     map_option negate_sn (Gscd (Fin 2) (Fin (1 / 2)) elk_before_first_call)"
  using Gscd_parity[of "Fin (1 / 2)" "1 / 2" "Fin 2" elk_before_first_call] by simp

section \<open>The saved variables of \<open>elk\<close>\<close>

lemma dabs_not_less_nonpos: "z \<le> 0 \<Longrightarrow> \<not> dless (dabs a) (Fin z)"
  by (cases a) auto

lemma elk_repeated: "elk mc (snd (elk mc saved)) = elk mc saved"
proof (cases saved)
  case (fields first mcold PIHALF PIINV elkold TINY)
  show ?thesis
  proof (cases mc)
    case (Fin y)
    show ?thesis
    proof (cases "0 < y")
      case True
      then show ?thesis
        unfolding elk_def Let_def fields Fin
        by (simp add: double_defs)
    next
      case False
      then have "\<not> dless (dabs a) (Fin (111 * y / 1000000000000000000))" for a
        by (intro dabs_not_less_nonpos) simp
      then show ?thesis
        unfolding elk_def Let_def fields Fin
        by (simp add: double_defs)
    qed
  next
    case PInf
    show ?thesis
      unfolding elk_def Let_def fields PInf
      by (cases mcold) (simp_all add: double_defs)
  next
    case NInf
    show ?thesis
      unfolding elk_def Let_def fields NInf
      by (cases mcold) (simp_all add: double_defs)
  next
    case NaN
    show ?thesis
      unfolding elk_def Let_def fields NaN
      by (simp_all add: double_defs)
  qed
qed

lemma elk_stores:
  "snd (elk mc (first, mcold, PIHALF, PIINV, elkold, TINY)) =
    (False, mc,
     if first then Fin (pi / 2) else PIHALF,
     if first then Fin (1 / pi) else PIINV,
     fst (elk mc (first, mcold, PIHALF, PIINV, elkold, TINY)),
     if first then Fin (1 / 10 ^ 99) else TINY)"
  unfolding elk_def Let_def
  by (simp add: double_defs arctan_one)

lemma elk_branches_EllipticK:
  assumes "\<not> abs (Fin 1 - mc) < Fin (1 / 10 ^ 16)"
  shows "elk_branches mc (Fin 1 - mc) (Fin (1 / pi)) (Fin (1 / 10 ^ 99)) = EllipticK mc"
  using assms
  unfolding elk_branches_def EllipticK_def Let_def EllipticNomeQ_def
    EllipticNomeQMaclaurin_full_series_def
  by (simp add: double_defs dmul_dneg_left)

lemma EllipticK_at_one: "abs (Fin 1 - mc) < Fin (1 / 10 ^ 16) \<Longrightarrow> EllipticK mc = Fin (pi / 2)"
  by (cases mc) (simp_all add: EllipticK_def Let_def double_defs)

lemma elk_value:
  assumes "first \<or> (PIHALF = Fin (pi / 2) \<and> PIINV = Fin (1 / pi) \<and> TINY = Fin (1 / 10 ^ 99))"
  shows "fst (elk mc (first, mcold, PIHALF, PIINV, elkold, TINY)) =
    (if \<not> abs (Fin 1 - mc) < Fin (1 / 10 ^ 16) \<and>
        abs (mc - (if first then Fin 1 else mcold)) < Fin (1.11 / 10 ^ 16) * mc
     then (if first then Fin (pi / 2) else elkold)
     else EllipticK mc)"
proof (cases "abs (Fin 1 - mc) < Fin (1 / 10 ^ 16)")
  case True
  with assms EllipticK_at_one[OF True] show ?thesis
    unfolding elk_def Let_def by (auto simp: double_defs arctan_one)
next
  case False
  with assms elk_branches_EllipticK[OF False] show ?thesis
    unfolding elk_def Let_def by (auto simp: double_defs arctan_one)
qed

text \<open>
  Two numbers with a mantissa of 53 bits that pass the test
  \<open>|x - y| < 1.11e-16 x\<close> of \<open>elk\<close> are equal: both are multiples of the smaller of
  their two units, and \<open>1.11e-16 (2\<^sup>5\<^sup>3 + 1) < 1\<close>.
\<close>

lemma dyadic_multiples_apart:
  fixes k1 k2 :: int
  assumes "k1 \<noteq> k2"
  shows "(2 :: real) ^ e \<le> \<bar>of_int k1 * 2 ^ e - of_int k2 * 2 ^ e\<bar>"
proof -
  have "of_int k1 * 2 ^ e - of_int k2 * 2 ^ e = (of_int (k1 - k2) :: real) * 2 ^ e"
    by (simp add: algebra_simps)
  then have "\<bar>of_int k1 * 2 ^ e - of_int k2 * 2 ^ e\<bar> = \<bar>of_int (k1 - k2) :: real\<bar> * 2 ^ e"
    by (simp add: abs_mult)
  moreover have "1 \<le> \<bar>k1 - k2\<bar>" using assms by simp
  then have "(1 :: real) \<le> \<bar>of_int (k1 - k2)\<bar>"
    by (metis of_int_1_le_iff of_int_abs)
  then have "(1 :: real) * 2 ^ e \<le> \<bar>of_int (k1 - k2)\<bar> * 2 ^ e"
    by (intro mult_right_mono) simp_all
  ultimately show ?thesis by simp
qed

lemma dyadic53_gap_scaled:
  fixes m1 m2 :: int and A1 A2 :: nat
  assumes m1: "\<bar>m1\<bar> < 2 ^ 53" and m2: "\<bar>m2\<bar> < 2 ^ 53"
    and test: "\<bar>of_int m1 * 2 ^ A1 - of_int m2 * 2 ^ A2\<bar> < 1.11 / 10 ^ 16 * (of_int m1 * 2 ^ A1 :: real)"
  shows "(of_int m1 * 2 ^ A1 :: real) = of_int m2 * 2 ^ A2"
proof (rule ccontr)
  assume ne: "(of_int m1 * 2 ^ A1 :: real) \<noteq> of_int m2 * 2 ^ A2"
  define c :: real where "c = 1.11 / 10 ^ 16"
  define X :: real where "X = of_int m1 * 2 ^ A1"
  define Y :: real where "Y = of_int m2 * 2 ^ A2"
  have c: "0 < c" "c * 2 ^ 53 < 1 - c" unfolding c_def by simp_all
  have t: "\<bar>X - Y\<bar> < c * X" using test unfolding c_def X_def Y_def .
  have r1: "(of_int \<bar>m1\<bar> :: real) < 2 ^ 53" using m1 by (metis of_int_less_numeral_power_cancel_iff)
  have r2: "(of_int \<bar>m2\<bar> :: real) < 2 ^ 53" using m2 by (metis of_int_less_numeral_power_cancel_iff)
  show False
  proof (cases "A1 \<le> A2")
    case True
    define k :: int where "k = m2 * 2 ^ (A2 - A1)"
    have "(2 :: real) ^ A2 = 2 ^ (A2 - A1) * 2 ^ A1"
      using True by (simp add: power_add[symmetric])
    then have Y: "Y = of_int k * 2 ^ A1" unfolding Y_def k_def by simp
    have "m1 \<noteq> k" using ne Y unfolding X_def Y_def by auto
    from dyadic_multiples_apart[OF this, of A1]
    have lo: "2 ^ A1 \<le> \<bar>X - Y\<bar>" unfolding X_def Y .
    have "X \<le> of_int \<bar>m1\<bar> * 2 ^ A1" unfolding X_def by (intro mult_right_mono) simp_all
    also have "\<dots> \<le> 2 ^ 53 * 2 ^ A1" using r1 by (intro mult_right_mono) simp_all
    finally have "c * X \<le> c * (2 ^ 53 * 2 ^ A1)" using c(1) by (intro mult_left_mono) simp_all
    also have "\<dots> = (c * 2 ^ 53) * 2 ^ A1" by simp
    also have "\<dots> \<le> 1 * 2 ^ A1" using c by (intro mult_right_mono) simp_all
    finally show False using lo t by simp
  next
    case False
    define k :: int where "k = m1 * 2 ^ (A1 - A2)"
    have "(2 :: real) ^ A1 = 2 ^ (A1 - A2) * 2 ^ A2"
      using False by (simp add: power_add[symmetric])
    then have X: "X = of_int k * 2 ^ A2" unfolding X_def k_def by simp
    have "k \<noteq> m2" using ne X unfolding X_def Y_def by auto
    from dyadic_multiples_apart[OF this, of A2]
    have lo: "2 ^ A2 \<le> \<bar>X - Y\<bar>" unfolding Y_def X .
    have "Y \<le> of_int \<bar>m2\<bar> * 2 ^ A2" unfolding Y_def by (intro mult_right_mono) simp_all
    also have "\<dots> \<le> 2 ^ 53 * 2 ^ A2" using r2 by (intro mult_right_mono) simp_all
    finally have Yb: "Y \<le> 2 ^ 53 * 2 ^ A2" .
    have "X - Y \<le> \<bar>X - Y\<bar>" by simp
    then have "(1 - c) * X < Y" using t by (simp add: algebra_simps)
    then have "(1 - c) * X < 2 ^ 53 * 2 ^ A2" using Yb by linarith
    then have "(c * 2 ^ 53) * ((1 - c) * X) \<le> (c * 2 ^ 53) * (2 ^ 53 * 2 ^ A2)"
      using c(1) by (intro mult_left_mono) simp_all
    also have "\<dots> \<le> (1 - c) * (2 ^ 53 * 2 ^ A2)"
      using c by (intro mult_right_mono) simp_all
    finally have "(1 - c) * (2 ^ 53 * (c * X)) \<le> (1 - c) * (2 ^ 53 * 2 ^ A2)"
      by (simp add: mult_ac)
    moreover have "0 < 1 - c" using c by (simp add: c_def)
    ultimately have "2 ^ 53 * (c * X) \<le> 2 ^ 53 * 2 ^ A2"
      by (simp only: mult_le_cancel_left_pos)
    then have "c * X \<le> 2 ^ A2" by simp
    then show False using lo t by simp
  qed
qed

lemma dyadic53_gap:
  assumes "dyadic53 x" "dyadic53 y" and test: "\<bar>x - y\<bar> < 1.11 / 10 ^ 16 * x"
  shows "x = y"
proof -
  from assms(1) obtain m1 :: int and a1 b1 :: nat where
    m1: "\<bar>m1\<bar> < 2 ^ 53" and x: "x = of_int m1 * 2 ^ a1 / 2 ^ b1"
    unfolding dyadic53_def by blast
  from assms(2) obtain m2 :: int and a2 b2 :: nat where
    m2: "\<bar>m2\<bar> < 2 ^ 53" and y: "y = of_int m2 * 2 ^ a2 / 2 ^ b2"
    unfolding dyadic53_def by blast
  define N :: real where "N = 2 ^ (b1 + b2)"
  have N: "0 < N" unfolding N_def by simp
  have xs: "x * N = of_int m1 * 2 ^ (a1 + b2)"
    unfolding x N_def by (simp add: power_add)
  have ys: "y * N = of_int m2 * 2 ^ (a2 + b1)"
    unfolding y N_def by (simp add: power_add)
  have "\<bar>x - y\<bar> * N < 1.11 / 10 ^ 16 * x * N"
    using test N by (simp only: mult_less_cancel_right_pos)
  moreover have "\<bar>x - y\<bar> * N = \<bar>x * N - y * N\<bar>"
  proof -
    have "\<bar>x * N - y * N\<bar> = \<bar>(x - y) * N\<bar>" by (simp add: left_diff_distrib)
    also have "\<dots> = \<bar>x - y\<bar> * \<bar>N\<bar>" by (rule abs_mult)
    also have "\<dots> = \<bar>x - y\<bar> * N" using N by simp
    finally show ?thesis by simp
  qed
  ultimately have "\<bar>x * N - y * N\<bar> < 1.11 / 10 ^ 16 * (x * N)" by (simp add: mult.assoc)
  then have "\<bar>of_int m1 * 2 ^ (a1 + b2) - of_int m2 * 2 ^ (a2 + b1)\<bar>
      < 1.11 / 10 ^ 16 * (of_int m1 * 2 ^ (a1 + b2) :: real)"
    unfolding xs ys .
  from dyadic53_gap_scaled[OF m1 m2 this] have "x * N = y * N" unfolding xs ys .
  then show ?thesis using N by simp
qed

lemma elk_cache_test:
  assumes "representable mc" "representable mcold"
    and "abs (mc - mcold) < Fin (1.11 / 10 ^ 16) * mc"
  shows "mc = mcold"
proof (cases mc)
  case (Fin x)
  show ?thesis
  proof (cases mcold)
    case (Fin y)
    from assms show ?thesis
      unfolding \<open>mc = Fin x\<close> Fin using dyadic53_gap[of x y]
      by (simp add: double_defs)
  qed (use assms \<open>mc = Fin x\<close> in \<open>simp_all add: double_defs\<close>)
qed (use assms in \<open>cases mcold; simp add: double_defs\<close>)+

lemma dyadic53_one: "dyadic53 1"
  unfolding dyadic53_def by (rule exI[of _ 1], rule exI[of _ 0], rule exI[of _ 0]) simp

text \<open>
  A first call of \<open>elk\<close> with a representable argument returns what the function
  \<open>EllipticK\<close> of \<^verbatim>\<open>elliptic_integrals.cpp\<close> returns in the model, and so does a call
  from saved variables that hold a representable argument with the result of its first
  call.
\<close>

lemma elk_first_call:
  assumes "representable mc"
  shows "fst (elk mc elk_before_first_call) = EllipticK mc"
proof -
  have "\<not> (\<not> abs (Fin 1 - mc) < Fin (1 / 10 ^ 16) \<and> abs (mc - Fin 1) < Fin (1.11 / 10 ^ 16) * mc)"
  proof
    assume h: "\<not> abs (Fin 1 - mc) < Fin (1 / 10 ^ 16) \<and> abs (mc - Fin 1) < Fin (1.11 / 10 ^ 16) * mc"
    have "representable (Fin 1)" by (simp add: dyadic53_one)
    from elk_cache_test[OF assms this] h have "mc = Fin 1" by blast
    with h show False by (simp add: double_defs)
  qed
  with elk_value[of True NaN NaN NaN mc NaN NaN] show ?thesis
    unfolding elk_before_first_call_def by (auto split: if_splits)
qed

lemma elk_later_call:
  assumes mc: "representable mc" and mcold: "representable mcold"
    and elkold: "elkold = EllipticK mcold"
  shows "fst (elk mc (False, mcold, Fin (pi / 2), Fin (1 / pi), elkold, Fin (1 / 10 ^ 99))) =
     EllipticK mc"
proof (cases "abs (mc - mcold) < Fin (1.11 / 10 ^ 16) * mc")
  case True
  from elk_cache_test[OF mc mcold True] have "mc = mcold" .
  with elkold elk_value[of False "Fin (pi / 2)" "Fin (1 / pi)" "Fin (1 / 10 ^ 99)" mc mcold elkold]
  show ?thesis by simp
next
  case False
  with elk_value[of False "Fin (pi / 2)" "Fin (1 / pi)" "Fin (1 / 10 ^ 99)" mc mcold elkold]
  show ?thesis by simp
qed

lemma elk_calls_saved:
  assumes "\<forall>x \<in> set history. representable x"
    and "saved = elk_before_first_call \<or>
         (\<exists>mcold. representable mcold \<and>
            saved = (False, mcold, Fin (pi / 2), Fin (1 / pi), EllipticK mcold, Fin (1 / 10 ^ 99)))"
  shows "elk_calls history saved = elk_before_first_call \<or>
         (\<exists>mcold. representable mcold \<and>
            elk_calls history saved =
              (False, mcold, Fin (pi / 2), Fin (1 / pi), EllipticK mcold, Fin (1 / 10 ^ 99)))"
  using assms
proof (induction history arbitrary: saved)
  case Nil
  then show ?case by simp
next
  case (Cons mc history)
  have mc: "representable mc" using Cons.prems(1) by simp
  have "snd (elk mc saved) =
      (False, mc, Fin (pi / 2), Fin (1 / pi), EllipticK mc, Fin (1 / 10 ^ 99))"
  proof (cases "saved = elk_before_first_call")
    case True
    then show ?thesis
      using elk_stores[of mc True NaN NaN NaN NaN NaN] elk_first_call[OF mc]
      by (simp add: elk_before_first_call_def)
  next
    case False
    with Cons.prems(2) obtain mcold where mcold: "representable mcold"
      and s: "saved = (False, mcold, Fin (pi / 2), Fin (1 / pi), EllipticK mcold, Fin (1 / 10 ^ 99))"
      by blast
    show ?thesis
      unfolding s
      using elk_stores[of mc False mcold "Fin (pi / 2)" "Fin (1 / pi)" "EllipticK mcold"
          "Fin (1 / 10 ^ 99)"] elk_later_call[OF mc mcold refl]
      by simp
  qed
  with mc have "snd (elk mc saved) = elk_before_first_call \<or>
         (\<exists>mcold. representable mcold \<and>
            snd (elk mc saved) =
              (False, mcold, Fin (pi / 2), Fin (1 / pi), EllipticK mcold, Fin (1 / 10 ^ 99)))"
    by blast
  from Cons.IH[OF _ this] Cons.prems(1) show ?case by simp
qed

text \<open>
  Claim C7, as amended.  On arguments that are doubles, a call of \<open>elk\<close> returns what a
  first call with the same argument returns, whatever calls were made before, in any
  order and any number.  But \<open>elk\<close> is not stateless: it keeps its saved variables from
  call to call, and after a call \<open>first\<close> is cleared, \<open>mcold\<close> holds the argument of
  that call and \<open>elkold\<close> its result, which the next call reads.
\<close>

theorem elk_history_independent:
  assumes "representable mc" and "\<forall>x \<in> set history. representable x"
  shows "fst (elk mc (elk_calls history elk_before_first_call)) =
           fst (elk mc elk_before_first_call) \<and>
         snd (elk mc (elk_calls history elk_before_first_call)) =
           (False, mc, Fin (pi / 2), Fin (1 / pi), fst (elk mc elk_before_first_call),
            Fin (1 / 10 ^ 99))"
proof -
  from elk_calls_saved[OF assms(2), of elk_before_first_call]
  have "elk_calls history elk_before_first_call = elk_before_first_call \<or>
         (\<exists>mcold. representable mcold \<and>
            elk_calls history elk_before_first_call =
              (False, mcold, Fin (pi / 2), Fin (1 / pi), EllipticK mcold, Fin (1 / 10 ^ 99)))"
    by simp
  then show ?thesis
  proof
    assume s: "elk_calls history elk_before_first_call = elk_before_first_call"
    show ?thesis
      unfolding s
      using elk_stores[of mc True NaN NaN NaN NaN NaN]
      by (simp add: elk_before_first_call_def)
  next
    assume "\<exists>mcold. representable mcold \<and>
            elk_calls history elk_before_first_call =
              (False, mcold, Fin (pi / 2), Fin (1 / pi), EllipticK mcold, Fin (1 / 10 ^ 99))"
    then obtain mcold where mcold: "representable mcold"
      and s: "elk_calls history elk_before_first_call =
              (False, mcold, Fin (pi / 2), Fin (1 / pi), EllipticK mcold, Fin (1 / 10 ^ 99))"
      by blast
    show ?thesis
      unfolding s
      using elk_stores[of mc False mcold "Fin (pi / 2)" "Fin (1 / pi)" "EllipticK mcold"
          "Fin (1 / 10 ^ 99)"] elk_later_call[OF assms(1) mcold refl] elk_first_call[OF assms(1)]
      by simp
  qed
qed

text \<open>
  After calls at \<open>1/4\<close> and \<open>1/2\<close>, a call at \<open>1/2\<close> finds its argument in \<open>mcold\<close> and
  returns the stored result, which is that of a first call at \<open>1/2\<close>.
\<close>

theorem elk_history_independent_witness:
  "representable (Fin (1 / 2)) \<and> representable (Fin (1 / 4)) \<and>
   fst (elk (Fin (1 / 2)) (elk_calls [Fin (1 / 4), Fin (1 / 2)] elk_before_first_call)) =
     fst (elk (Fin (1 / 2)) elk_before_first_call) \<and>
   snd (elk (Fin (1 / 2)) (elk_calls [Fin (1 / 4), Fin (1 / 2)] elk_before_first_call)) =
     (False, Fin (1 / 2), Fin (pi / 2), Fin (1 / pi),
      fst (elk (Fin (1 / 2)) elk_before_first_call), Fin (1 / 10 ^ 99))"
proof -
  have h: "dyadic53 (1 / 2)"
    unfolding dyadic53_def by (rule exI[of _ 1], rule exI[of _ 0], rule exI[of _ 1]) simp
  have q: "dyadic53 (1 / 4)"
    unfolding dyadic53_def by (rule exI[of _ 1], rule exI[of _ 0], rule exI[of _ 2]) simp
  have a: "representable (Fin (1 / 2))" using h by simp
  have b: "\<forall>x \<in> set [Fin (1 / 4), Fin (1 / 2)]. representable x" using h q by simp
  from elk_history_independent[OF a b] h q show ?thesis by simp
qed

text \<open>
  Claim C7, as stated, fails for \<open>elk\<close>: a call changes the saved variables, here
  \<open>first\<close> and \<open>mcold\<close>, which the next call reads.
\<close>

theorem elk_keeps_state_counterexample:
  "fst (snd (elk (Fin (1 / 2)) elk_before_first_call)) = False \<and>
   fst (snd (snd (elk (Fin (1 / 2)) elk_before_first_call))) = Fin (1 / 2) \<and>
   snd (elk (Fin (1 / 2)) elk_before_first_call) \<noteq> elk_before_first_call"
  using elk_stores[of "Fin (1 / 2)" True NaN NaN NaN NaN NaN]
  by (simp add: elk_before_first_call_def)

end
